theory Spec2Isabelle
  imports Complex_Main "HOL-Library.AList"
begin

section \<open>The IGRF model of \<open>igrf_model.py\<close>\<close>

text \<open>
  The module holds one class, \<open>igrfModel\<close>: a table of Gauss coefficients read from a
  text that is embedded in the class, a method \<open>set_year\<close> that selects or interpolates
  the coefficients of one epoch, several evaluations of the spherical-harmonic sum, and
  the coordinate conversions around them.

  Python floats and numpy float arrays are modelled by \<open>real\<close>: every statement below is
  about the exact arithmetic that the floating-point code approximates. Exceptions are
  values of type \<open>error\<close>, returned as \<open>Inl\<close>.
\<close>

subsection \<open>Errors\<close>

datatype error = ValueError | IndexError | KeyError | TypeError

definition ebind :: "error + 'a \<Rightarrow> ('a \<Rightarrow> error + 'b) \<Rightarrow> error + 'b" where
  "ebind r f = (case r of Inl e \<Rightarrow> Inl e | Inr x \<Rightarrow> f x)"

subsection \<open>Arrays and the store\<close>

text \<open>
  A coefficient array is a 15 by 15 float array (\<open>np.zeros([15,15])\<close>), indexed
  \<open>[m, n]\<close>. Arrays are objects: \<open>self.gcoeff\<close> and the entries of the table are
  references, and \<open>*=\<close> and \<open>+=\<close> on an array change it in place. The store maps the
  address of an array to its contents; \<open>brk\<close> is the next free address.
\<close>

type_synonym matrix = "nat \<Rightarrow> nat \<Rightarrow> real"

type_synonym addr = nat

definition coeff_dim :: nat where
  "coeff_dim = 15"

definition zeros :: matrix where
  "zeros = (\<lambda>m n. 0)"

datatype gh = G | H

text \<open>
  The table \<open>c\<close> is a dict from the year (an integer) to a dict with the two keys
  \<open>'g'\<close> and \<open>'h'\<close>, each holding an array.
\<close>

type_synonym coeffs = "gh \<Rightarrow> addr"

type_synonym table = "(int \<times> coeffs) list"

record igrfModel =
  verbose :: bool
  coefficients :: table
  heap :: "addr \<Rightarrow> matrix"
  brk :: addr
  year :: real
  gcoeff :: addr
  hcoeff :: addr

text \<open>
  A dict whose keys are integers, read with a key that may be a float: Python finds the
  entry of \<open>k\<close> under the float \<open>k.0\<close> (equal keys hash alike) and raises KeyError
  for a key that is not a whole number.
\<close>

definition getitem :: "table \<Rightarrow> real \<Rightarrow> error + coeffs" where
  "getitem c key =
     (if of_int (floor key) = key
      then (case map_of c (floor key) of None \<Rightarrow> Inl KeyError | Some d \<Rightarrow> Inr d)
      else Inl KeyError)"

subsection \<open>The embedded text\<close>

text \<open>
  \<open>coeff\<close> is the text of the IGRF-12 table, a class attribute (the second assignment
  to \<open>coeff\<close>; the first, the IGRF-11 text, is overwritten by it). The model holds
  the text as \<open>read_coefficients\<close> sees it after \<open>split\<close>: \<open>labels\<close> is
  \<open>lines[4].split()[3:]\<close>, the column labels, and \<open>rows\<close> the data lines
  \<open>lines[5:]\<close> that are not blank, each with \<open>parts[0]\<close>, \<open>int(parts[1])\<close>,
  \<open>int(parts[2])\<close> and the floats of \<open>parts[3:]\<close>.
\<close>

datatype row = Row gh nat nat "real list"

record coeff_text =
  labels :: "string list"
  rows :: "row list"

definition coeff_labels :: "string list" where
  "coeff_labels =
     [''1900.0'', ''1905.0'', ''1910.0'', ''1915.0'', ''1920.0'', ''1925.0'',
      ''1930.0'', ''1935.0'', ''1940.0'', ''1945.0'', ''1950.0'', ''1955.0'',
      ''1960.0'', ''1965.0'', ''1970.0'', ''1975.0'', ''1980.0'', ''1985.0'',
      ''1990.0'', ''1995.0'', ''2000.0'', ''2005.0'', ''2010.0'', ''2015.0'',
      ''2015-20'']"

definition coeff_rows_1 :: "row list" where
  "coeff_rows_1 =
     [Row G 1 0
        [- 31543, - 31464, - 31354, - 31212, - 31060, - 30926, - 30805, - 30715, - 30654, - 30594, - 30554, - 30500, - 30421, - 30334, - 30220, - 30100, - 29992, - 29873, - 29775, - 29692, - 29619.4, - 29554.63, - 29496.57, - 29442.0, 10.3],
      Row G 1 1
        [- 2298, - 2298, - 2297, - 2306, - 2317, - 2318, - 2316, - 2306, - 2292, - 2285, - 2250, - 2215, - 2169, - 2119, - 2068, - 2013, - 1956, - 1905, - 1848, - 1784, - 1728.2, - 1669.05, - 1586.42, - 1501.0, 18.1],
      Row H 1 1
        [5922, 5909, 5898, 5875, 5845, 5817, 5808, 5812, 5821, 5810, 5815, 5820, 5791, 5776, 5737, 5675, 5604, 5500, 5406, 5306, 5186.1, 5077.99, 4944.26, 4797.1, - 26.6]]"

definition coeff_rows_2 :: "row list" where
  "coeff_rows_2 =
     [Row G 2 0
        [- 677, - 728, - 769, - 802, - 839, - 893, - 951, - 1018, - 1106, - 1244, - 1341, - 1440, - 1555, - 1662, - 1781, - 1902, - 1997, - 2072, - 2131, - 2200, - 2267.7, - 2337.24, - 2396.06, - 2445.1, - 8.7],
      Row G 2 1
        [2905, 2928, 2948, 2956, 2959, 2969, 2980, 2984, 2981, 2990, 2998, 3003, 3002, 2997, 3000, 3010, 3027, 3044, 3059, 3070, 3068.4, 3047.69, 3026.34, 3012.9, - 3.3],
      Row H 2 1
        [- 1061, - 1086, - 1128, - 1191, - 1259, - 1334, - 1424, - 1520, - 1614, - 1702, - 1810, - 1898, - 1967, - 2016, - 2047, - 2067, - 2129, - 2197, - 2279, - 2366, - 2481.6, - 2594.50, - 2708.54, - 2845.6, - 27.4],
      Row G 2 2
        [924, 1041, 1176, 1309, 1407, 1471, 1517, 1550, 1566, 1578, 1576, 1581, 1590, 1594, 1611, 1632, 1663, 1687, 1686, 1681, 1670.9, 1657.76, 1668.17, 1676.7, 2.1],
      Row H 2 2
        [1121, 1065, 1000, 917, 823, 728, 644, 586, 528, 477, 381, 291, 206, 114, 25, - 68, - 200, - 306, - 373, - 413, - 458.0, - 515.43, - 575.73, - 641.9, - 14.1]]"

definition coeff_rows_3 :: "row list" where
  "coeff_rows_3 =
     [Row G 3 0
        [1022, 1037, 1058, 1084, 1111, 1140, 1172, 1206, 1240, 1282, 1297, 1302, 1302, 1297, 1287, 1276, 1281, 1296, 1314, 1335, 1339.6, 1336.30, 1339.85, 1350.7, 3.4],
      Row G 3 1
        [- 1469, - 1494, - 1524, - 1559, - 1600, - 1645, - 1692, - 1740, - 1790, - 1834, - 1889, - 1944, - 1992, - 2038, - 2091, - 2144, - 2180, - 2208, - 2239, - 2267, - 2288.0, - 2305.83, - 2326.54, - 2352.3, - 5.5],
      Row H 3 1
        [- 330, - 357, - 389, - 421, - 445, - 462, - 480, - 494, - 499, - 499, - 476, - 462, - 414, - 404, - 366, - 333, - 336, - 310, - 284, - 262, - 227.6, - 198.86, - 160.40, - 115.3, 8.2],
      Row G 3 2
        [1256, 1239, 1223, 1212, 1205, 1202, 1205, 1215, 1232, 1255, 1274, 1288, 1289, 1292, 1278, 1260, 1251, 1247, 1248, 1249, 1252.1, 1246.39, 1232.10, 1225.6, - 0.7],
      Row H 3 2
        [3, 34, 62, 84, 103, 119, 133, 146, 163, 186, 206, 216, 224, 240, 251, 262, 271, 284, 293, 302, 293.4, 269.72, 251.75, 244.9, - 0.4],
      Row G 3 3
        [572, 635, 705, 778, 839, 881, 907, 918, 916, 913, 896, 882, 878, 856, 838, 830, 833, 829, 802, 759, 714.5, 672.51, 633.73, 582.0, - 10.1],
      Row H 3 3
        [523, 480, 425, 360, 293, 229, 166, 101, 43, - 11, - 46, - 83, - 130, - 165, - 196, - 223, - 252, - 297, - 352, - 427, - 491.1, - 524.72, - 537.03, - 538.4, 1.8]]"

definition coeff_rows_4 :: "row list" where
  "coeff_rows_4 =
     [Row G 4 0
        [876, 880, 884, 887, 889, 891, 896, 903, 914, 944, 954, 958, 957, 957, 952, 946, 938, 936, 939, 940, 932.3, 920.55, 912.66, 907.6, - 0.7],
      Row G 4 1
        [628, 643, 660, 678, 695, 711, 727, 744, 762, 776, 792, 796, 800, 804, 800, 791, 782, 780, 780, 780, 786.8, 797.96, 808.97, 813.7, 0.2],
      Row H 4 1
        [195, 203, 211, 218, 220, 216, 205, 188, 169, 144, 136, 133, 135, 148, 167, 191, 212, 232, 247, 262, 272.6, 282.07, 286.48, 283.3, - 1.3],
      Row G 4 2
        [660, 653, 644, 631, 616, 601, 584, 565, 550, 544, 528, 510, 504, 479, 461, 438, 398, 361, 325, 290, 250.0, 210.65, 166.58, 120.4, - 9.1],
      Row H 4 2
        [- 69, - 77, - 90, - 109, - 134, - 163, - 195, - 226, - 252, - 276, - 278, - 274, - 278, - 269, - 266, - 265, - 257, - 249, - 240, - 236, - 231.9, - 225.23, - 211.03, - 188.7, 5.3],
      Row G 4 3
        [- 361, - 380, - 400, - 416, - 424, - 426, - 422, - 415, - 405, - 421, - 408, - 397, - 394, - 390, - 395, - 405, - 419, - 424, - 423, - 418, - 403.0, - 379.86, - 356.83, - 334.9, 4.1],
      Row H 4 3
        [- 210, - 201, - 189, - 173, - 153, - 130, - 109, - 90, - 72, - 55, - 37, - 23, 3, 13, 26, 39, 53, 69, 84, 97, 119.8, 145.15, 164.46, 180.9, 2.9],
      Row G 4 4
        [134, 146, 160, 178, 199, 217, 234, 249, 265, 304, 303, 290, 269, 252, 234, 216, 199, 170, 141, 122, 111.3, 100.00, 89.40, 70.4, - 4.3],
      Row H 4 4
        [- 75, - 65, - 55, - 51, - 57, - 70, - 90, - 114, - 141, - 178, - 210, - 230, - 255, - 269, - 279, - 288, - 297, - 297, - 299, - 306, - 303.8, - 305.36, - 309.72, - 329.5, - 5.2]]"

definition coeff_rows_5 :: "row list" where
  "coeff_rows_5 =
     [Row G 5 0
        [- 184, - 192, - 201, - 211, - 221, - 230, - 237, - 241, - 241, - 253, - 240, - 229, - 222, - 219, - 216, - 218, - 218, - 214, - 214, - 214, - 218.8, - 227.00, - 230.87, - 232.6, - 0.2],
      Row G 5 1
        [328, 328, 327, 327, 326, 326, 327, 329, 334, 346, 349, 360, 362, 358, 359, 356, 357, 355, 353, 352, 351.4, 354.41, 357.29, 360.1, 0.5],
      Row H 5 1
        [- 210, - 193, - 172, - 148, - 122, - 96, - 72, - 51, - 33, - 12, 3, 15, 16, 19, 26, 31, 46, 47, 46, 46, 43.8, 42.72, 44.58, 47.3, 0.6],
      Row G 5 2
        [264, 259, 253, 245, 236, 226, 218, 211, 208, 194, 211, 230, 242, 254, 262, 264, 261, 253, 245, 235, 222.3, 208.95, 200.26, 192.4, - 1.3],
      Row H 5 2
        [53, 56, 57, 58, 58, 58, 60, 64, 71, 95, 103, 110, 125, 128, 139, 148, 150, 150, 154, 165, 171.9, 180.25, 189.01, 197.0, 1.7],
      Row G 5 3
        [5, - 1, - 9, - 16, - 23, - 28, - 32, - 33, - 33, - 20, - 20, - 23, - 26, - 31, - 42, - 59, - 74, - 93, - 109, - 118, - 130.4, - 136.54, - 141.05, - 140.9, - 0.1],
      Row H 5 3
        [- 33, - 32, - 33, - 34, - 38, - 44, - 53, - 64, - 75, - 67, - 87, - 98, - 117, - 126, - 139, - 152, - 151, - 154, - 153, - 143, - 133.1, - 123.45, - 118.06, - 119.3, - 1.2],
      Row G 5 4
        [- 86, - 93, - 102, - 111, - 119, - 125, - 131, - 136, - 141, - 142, - 147, - 152, - 156, - 157, - 160, - 159, - 162, - 164, - 165, - 166, - 168.6, - 168.05, - 163.17, - 157.5, 1.4],
      Row H 5 4
        [- 124, - 125, - 126, - 126, - 125, - 122, - 118, - 115, - 113, - 119, - 122, - 121, - 114, - 97, - 91, - 83, - 78, - 75, - 69, - 55, - 39.3, - 19.57, - 0.01, 16.0, 3.4],
      Row G 5 5
        [- 16, - 26, - 38, - 51, - 62, - 69, - 74, - 76, - 76, - 82, - 76, - 69, - 63, - 62, - 56, - 49, - 48, - 46, - 36, - 17, - 12.9, - 13.55, - 8.03, 4.1, 3.9],
      Row H 5 5
        [3, 11, 21, 32, 43, 51, 58, 64, 69, 82, 80, 78, 81, 81, 83, 88, 92, 95, 97, 107, 106.3, 103.85, 101.04, 100.2, 0.0]]"

definition coeff_rows_6 :: "row list" where
  "coeff_rows_6 =
     [Row G 6 0
        [63, 62, 62, 61, 61, 61, 60, 59, 57, 59, 54, 47, 46, 45, 43, 45, 48, 53, 61, 68, 72.3, 73.60, 72.78, 70.0, - 0.3],
      Row G 6 1
        [61, 60, 58, 57, 55, 54, 53, 53, 54, 57, 57, 57, 58, 61, 64, 66, 66, 65, 65, 67, 68.2, 69.56, 68.69, 67.7, - 0.1],
      Row H 6 1
        [- 9, - 7, - 5, - 2, 0, 3, 4, 4, 4, 6, - 1, - 9, - 10, - 11, - 12, - 13, - 15, - 16, - 16, - 17, - 17.4, - 20.33, - 20.90, - 20.8, 0.0],
      Row G 6 2
        [- 11, - 11, - 11, - 10, - 10, - 9, - 9, - 8, - 7, 6, 4, 3, 1, 8, 15, 28, 42, 51, 59, 68, 74.2, 76.74, 75.92, 72.7, - 0.7],
      Row H 6 2
        [83, 86, 89, 93, 96, 99, 102, 104, 105, 100, 99, 96, 99, 100, 100, 99, 93, 88, 82, 72, 63.7, 54.75, 44.18, 33.2, - 2.1],
      Row G 6 3
        [- 217, - 221, - 224, - 228, - 233, - 238, - 242, - 246, - 249, - 246, - 247, - 247, - 237, - 228, - 212, - 198, - 192, - 185, - 178, - 170, - 160.9, - 151.34, - 141.40, - 129.9, 2.1],
      Row H 6 3
        [2, 4, 5, 8, 11, 14, 19, 25, 33, 16, 33, 48, 60, 68, 72, 75, 71, 69, 69, 67, 65.1, 63.63, 61.54, 58.9, - 0.7],
      Row G 6 4
        [- 58, - 57, - 54, - 51, - 46, - 40, - 32, - 25, - 18, - 25, - 16, - 8, - 1, 4, 2, 1, 4, 4, 3, - 1, - 5.9, - 14.58, - 22.83, - 28.9, - 1.2],
      Row H 6 4
        [- 35, - 32, - 29, - 26, - 22, - 18, - 16, - 15, - 15, - 9, - 12, - 16, - 20, - 32, - 37, - 41, - 43, - 48, - 52, - 58, - 61.2, - 63.53, - 66.26, - 66.7, 0.2],
      Row G 6 5
        [59, 57, 54, 49, 44, 39, 32, 25, 18, 21, 12, 7, - 2, 1, 3, 6, 14, 16, 18, 19, 16.9, 14.58, 13.10, 13.2, 0.3],
      Row H 6 5
        [36, 32, 28, 23, 18, 13, 8, 4, 0, - 16, - 12, - 12, - 11, - 8, - 6, - 4, - 2, - 1, 1, 1, 0.7, 0.24, 3.02, 7.3, 0.9],
      Row G 6 6
        [- 90, - 92, - 95, - 98, - 101, - 103, - 104, - 106, - 107, - 104, - 105, - 107, - 113, - 111, - 112, - 111, - 108, - 102, - 96, - 93, - 90.4, - 86.36, - 78.09, - 70.9, 1.6],
      Row H 6 6
        [- 69, - 67, - 65, - 62, - 57, - 52, - 46, - 40, - 33, - 39, - 30, - 24, - 17, - 7, 1, 11, 17, 21, 24, 36, 43.8, 50.94, 55.40, 62.6, 1.0]]"

definition coeff_rows_7 :: "row list" where
  "coeff_rows_7 =
     [Row G 7 0
        [70, 70, 71, 72, 73, 73, 74, 74, 74, 70, 65, 65, 67, 75, 72, 71, 72, 74, 77, 77, 79.0, 79.88, 80.44, 81.6, 0.3],
      Row G 7 1
        [- 55, - 54, - 54, - 54, - 54, - 54, - 54, - 53, - 53, - 40, - 55, - 56, - 56, - 57, - 57, - 56, - 59, - 62, - 64, - 72, - 74.0, - 74.46, - 75.00, - 76.1, - 0.2],
      Row H 7 1
        [- 45, - 46, - 47, - 48, - 49, - 50, - 51, - 52, - 52, - 45, - 35, - 50, - 55, - 61, - 70, - 77, - 82, - 83, - 80, - 69, - 64.6, - 61.14, - 57.80, - 54.1, 0.8],
      Row G 7 2
        [0, 0, 1, 2, 2, 3, 4, 4, 4, 0, 2, 2, 5, 4, 1, 1, 2, 3, 2, 1, 0.0, - 1.65, - 4.55, - 6.8, - 0.5],
      Row H 7 2
        [- 13, - 14, - 14, - 14, - 14, - 14, - 15, - 17, - 18, - 18, - 17, - 24, - 28, - 27, - 27, - 26, - 27, - 27, - 26, - 25, - 24.2, - 22.57, - 21.20, - 19.5, 0.4],
      Row G 7 3
        [34, 33, 32, 31, 29, 27, 25, 23, 20, 0, 1, 10, 15, 13, 14, 16, 21, 24, 26, 28, 33.3, 38.73, 45.24, 51.8, 1.3],
      Row H 7 3
        [- 10, - 11, - 12, - 12, - 13, - 14, - 14, - 14, - 14, 2, 0, - 4, - 6, - 2, - 4, - 5, - 5, - 2, 0, 4, 6.2, 6.82, 6.54, 5.7, - 0.2],
      Row G 7 4
        [- 41, - 41, - 40, - 38, - 37, - 35, - 34, - 33, - 31, - 29, - 40, - 32, - 32, - 26, - 22, - 14, - 12, - 6, - 1, 5, 9.1, 12.30, 14.00, 15.0, 0.1],
      Row H 7 4
        [- 1, 0, 1, 2, 4, 5, 6, 7, 7, 6, 10, 8, 7, 6, 8, 10, 16, 20, 21, 24, 24.0, 25.35, 24.96, 24.4, - 0.3],
      Row G 7 5
        [- 21, - 20, - 19, - 18, - 16, - 14, - 12, - 11, - 9, - 10, - 7, - 11, - 7, - 6, - 2, 0, 1, 4, 5, 4, 6.9, 9.37, 10.46, 9.4, - 0.6],
      Row H 7 5
        [28, 28, 28, 28, 28, 29, 29, 29, 29, 28, 36, 28, 23, 26, 23, 22, 18, 17, 17, 17, 14.8, 10.93, 7.03, 3.4, - 0.6],
      Row G 7 6
        [18, 18, 18, 19, 19, 19, 18, 18, 17, 15, 5, 9, 17, 13, 13, 12, 11, 10, 9, 8, 7.3, 5.42, 1.64, - 2.8, - 0.8],
      Row H 7 6
        [- 12, - 12, - 13, - 15, - 16, - 17, - 18, - 19, - 20, - 17, - 18, - 20, - 18, - 23, - 23, - 23, - 23, - 23, - 23, - 24, - 25.4, - 26.32, - 27.61, - 27.4, 0.1],
      Row G 7 7
        [6, 6, 6, 6, 6, 6, 6, 6, 5, 29, 19, 18, 8, 1, - 2, - 5, - 2, 0, 0, - 2, - 1.2, 1.94, 4.92, 6.8, 0.2],
      Row H 7 7
        [- 22, - 22, - 22, - 22, - 22, - 21, - 20, - 19, - 19, - 22, - 16, - 18, - 17, - 12, - 11, - 12, - 10, - 7, - 4, - 6, - 5.8, - 4.64, - 3.28, - 2.2, - 0.2]]"

definition coeff_rows_8 :: "row list" where
  "coeff_rows_8 =
     [Row G 8 0
        [11, 11, 11, 11, 11, 11, 11, 11, 11, 13, 22, 11, 15, 13, 14, 14, 18, 21, 23, 25, 24.4, 24.80, 24.41, 24.2, 0.2],
      Row G 8 1
        [8, 8, 8, 8, 7, 7, 7, 7, 7, 7, 15, 9, 6, 5, 6, 6, 6, 6, 5, 6, 6.6, 7.62, 8.21, 8.8, 0.0],
      Row H 8 1
        [8, 8, 8, 8, 8, 8, 8, 8, 8, 12, 5, 10, 11, 7, 7, 6, 7, 8, 10, 11, 11.9, 11.20, 10.84, 10.1, - 0.3],
      Row G 8 2
        [- 4, - 4, - 4, - 4, - 3, - 3, - 3, - 3, - 3, - 8, - 4, - 6, - 4, - 4, - 2, - 1, 0, 0, - 1, - 6, - 9.2, - 11.73, - 14.50, - 16.9, - 0.6],
      Row H 8 2
        [- 14, - 15, - 15, - 15, - 15, - 15, - 15, - 15, - 14, - 21, - 22, - 15, - 14, - 12, - 15, - 16, - 18, - 19, - 19, - 21, - 21.5, - 20.88, - 20.03, - 18.3, 0.3],
      Row G 8 3
        [- 9, - 9, - 9, - 9, - 9, - 9, - 9, - 9, - 10, - 5, - 1, - 14, - 11, - 14, - 13, - 12, - 11, - 11, - 10, - 9, - 7.9, - 6.88, - 5.59, - 3.2, 0.5],
      Row H 8 3
        [7, 7, 6, 6, 6, 6, 5, 5, 5, - 12, 0, 5, 7, 9, 6, 4, 4, 5, 6, 8, 8.5, 9.83, 11.83, 13.3, 0.1],
      Row G 8 4
        [1, 1, 1, 2, 2, 2, 2, 1, 1, 9, 11, 6, 2, 0, - 3, - 8, - 7, - 9, - 12, - 14, - 16.6, - 18.11, - 19.34, - 20.6, - 0.2],
      Row H 8 4
        [- 13, - 13, - 13, - 13, - 14, - 14, - 14, - 15, - 15, - 7, - 21, - 23, - 18, - 16, - 17, - 19, - 22, - 23, - 22, - 23, - 21.5, - 19.71, - 17.41, - 14.6, 0.5],
      Row G 8 5
        [2, 2, 2, 3, 4, 4, 5, 6, 6, 7, 15, 10, 10, 8, 5, 4, 4, 4, 3, 9, 9.1, 10.17, 11.61, 13.4, 0.4],
      Row H 8 5
        [5, 5, 5, 5, 5, 5, 5, 5, 5, 2, - 8, 3, 4, 4, 6, 6, 9, 11, 12, 15, 15.5, 16.22, 16.71, 16.2, - 0.2],
      Row G 8 6
        [- 9, - 8, - 8, - 8, - 7, - 7, - 6, - 6, - 5, - 10, - 13, - 7, - 5, - 1, 0, 0, 3, 4, 4, 6, 7.0, 9.36, 10.85, 11.7, 0.1],
      Row H 8 6
        [16, 16, 16, 16, 17, 17, 18, 18, 19, 18, 17, 23, 23, 24, 21, 18, 16, 14, 12, 11, 8.9, 7.61, 6.96, 5.7, - 0.3],
      Row G 8 7
        [5, 5, 5, 6, 6, 7, 8, 8, 9, 7, 5, 6, 10, 11, 11, 10, 6, 4, 2, - 5, - 7.9, - 11.25, - 14.05, - 15.9, - 0.4],
      Row H 8 7
        [- 5, - 5, - 5, - 5, - 5, - 5, - 5, - 5, - 5, 3, - 4, - 4, 1, - 3, - 6, - 10, - 13, - 15, - 16, - 16, - 14.9, - 12.76, - 10.74, - 9.1, 0.3],
      Row G 8 8
        [8, 8, 8, 8, 8, 8, 8, 7, 7, 2, - 1, 9, 8, 4, 3, 1, - 1, - 4, - 6, - 7, - 7.0, - 4.87, - 3.54, - 2.0, 0.3],
      Row H 8 8
        [- 18, - 18, - 18, - 18, - 19, - 19, - 19, - 19, - 19, - 11, - 17, - 13, - 20, - 17, - 16, - 17, - 15, - 11, - 10, - 4, - 2.1, - 0.06, 1.64, 2.1, 0.0]]"

definition coeff_rows_9 :: "row list" where
  "coeff_rows_9 =
     [Row G 9 0
        [8, 8, 8, 8, 8, 8, 8, 8, 8, 5, 3, 4, 4, 8, 8, 7, 5, 5, 4, 4, 5.0, 5.58, 5.50, 5.4, 0.0],
      Row G 9 1
        [10, 10, 10, 10, 10, 10, 10, 10, 10, - 21, - 7, 9, 6, 10, 10, 10, 10, 10, 9, 9, 9.4, 9.76, 9.45, 8.8, 0.0],
      Row H 9 1
        [- 20, - 20, - 20, - 20, - 20, - 20, - 20, - 20, - 21, - 27, - 24, - 11, - 18, - 22, - 21, - 21, - 21, - 21, - 20, - 20, - 19.7, - 20.11, - 20.54, - 21.6, 0.0],
      Row G 9 2
        [1, 1, 1, 1, 1, 1, 1, 1, 1, 1, - 1, - 4, 0, 2, 2, 2, 1, 1, 1, 3, 3.0, 3.58, 3.45, 3.1, 0.0],
      Row H 9 2
        [14, 14, 14, 14, 14, 14, 14, 15, 15, 17, 19, 12, 12, 15, 16, 16, 16, 15, 15, 15, 13.4, 12.69, 11.51, 10.8, 0.0],
      Row G 9 3
        [- 11, - 11, - 11, - 11, - 11, - 11, - 12, - 12, - 12, - 11, - 25, - 5, - 9, - 13, - 12, - 12, - 12, - 12, - 12, - 10, - 8.4, - 6.94, - 5.27, - 3.3, 0.0],
      Row H 9 3
        [5, 5, 5, 5, 5, 5, 5, 5, 5, 29, 12, 7, 2, 7, 6, 7, 9, 9, 11, 12, 12.5, 12.67, 12.75, 11.8, 0.0],
      Row G 9 4
        [12, 12, 12, 12, 12, 12, 12, 11, 11, 3, 10, 2, 1, 10, 10, 10, 9, 9, 9, 8, 6.3, 5.01, 3.13, 0.7, 0.0],
      Row H 9 4
        [- 3, - 3, - 3, - 3, - 3, - 3, - 3, - 3, - 3, - 9, 2, 6, 0, - 4, - 4, - 4, - 5, - 6, - 7, - 6, - 6.2, - 6.72, - 7.14, - 6.8, 0.0],
      Row G 9 5
        [1, 1, 1, 1, 1, 1, 1, 1, 1, 16, 5, 4, 4, - 1, - 1, - 1, - 3, - 3, - 4, - 8, - 8.9, - 10.76, - 12.38, - 13.3, 0.0],
      Row H 9 5
        [- 2, - 2, - 2, - 2, - 2, - 2, - 2, - 3, - 3, 4, 2, - 2, - 3, - 5, - 5, - 5, - 6, - 6, - 7, - 8, - 8.4, - 8.16, - 7.42, - 6.9, 0.0],
      Row G 9 6
        [- 2, - 2, - 2, - 2, - 2, - 2, - 2, - 2, - 2, - 3, - 5, 1, - 1, - 1, 0, - 1, - 1, - 1, - 2, - 1, - 1.5, - 1.25, - 0.76, - 0.1, 0.0],
      Row H 9 6
        [8, 8, 8, 8, 9, 9, 9, 9, 9, 9, 8, 10, 9, 10, 10, 10, 9, 9, 9, 8, 8.4, 8.10, 7.97, 7.8, 0.0],
      Row G 9 7
        [2, 2, 2, 2, 2, 2, 3, 3, 3, - 4, - 2, 2, - 2, 5, 3, 4, 7, 7, 7, 10, 9.3, 8.76, 8.43, 8.7, 0.0],
      Row H 9 7
        [10, 10, 10, 10, 10, 10, 10, 11, 11, 6, 8, 7, 8, 10, 11, 11, 10, 9, 8, 5, 3.8, 2.92, 2.14, 1.0, 0.0],
      Row G 9 8
        [- 1, 0, 0, 0, 0, 0, 0, 0, 1, - 3, 3, 2, 3, 1, 1, 1, 2, 1, 1, - 2, - 4.3, - 6.66, - 8.42, - 9.1, 0.0],
      Row H 9 8
        [- 2, - 2, - 2, - 2, - 2, - 2, - 2, - 2, - 2, 1, - 11, - 6, 0, - 4, - 2, - 3, - 6, - 7, - 7, - 8, - 8.2, - 7.73, - 6.08, - 4.0, 0.0],
      Row G 9 9
        [- 1, - 1, - 1, - 1, - 1, - 1, - 2, - 2, - 2, - 4, 8, 5, - 1, - 2, - 1, - 2, - 5, - 5, - 6, - 8, - 8.2, - 9.22, - 10.08, - 10.5, 0.0],
      Row H 9 9
        [2, 2, 2, 2, 2, 2, 2, 2, 2, 8, - 7, 5, 5, 1, 1, 1, 2, 2, 2, 3, 4.8, 6.01, 7.01, 8.4, 0.0]]"

definition coeff_rows_10 :: "row list" where
  "coeff_rows_10 =
     [Row G 10 0
        [- 3, - 3, - 3, - 3, - 3, - 3, - 3, - 3, - 3, - 3, - 8, - 3, 1, - 2, - 3, - 3, - 4, - 4, - 3, - 3, - 2.6, - 2.17, - 1.94, - 1.9, 0.0],
      Row G 10 1
        [- 4, - 4, - 4, - 4, - 4, - 4, - 4, - 4, - 4, 11, 4, - 5, - 3, - 3, - 3, - 3, - 4, - 4, - 4, - 6, - 6.0, - 6.12, - 6.24, - 6.3, 0.0],
      Row H 10 1
        [2, 2, 2, 2, 2, 2, 2, 2, 2, 5, 13, - 4, 4, 2, 1, 1, 1, 1, 2, 1, 1.7, 2.19, 2.73, 3.2, 0.0],
      Row G 10 2
        [2, 2, 2, 2, 2, 2, 2, 2, 2, 1, - 1, - 1, 4, 2, 2, 2, 2, 3, 2, 2, 1.7, 1.42, 0.89, 0.1, 0.0],
      Row H 10 2
        [1, 1, 1, 1, 1, 1, 1, 1, 1, 1, - 2, 0, 1, 1, 1, 1, 0, 0, 1, 0, 0.0, 0.10, - 0.10, - 0.4, 0.0],
      Row G 10 3
        [- 5, - 5, - 5, - 5, - 5, - 5, - 5, - 5, - 5, 2, 13, 2, 0, - 5, - 5, - 5, - 5, - 5, - 5, - 4, - 3.1, - 2.35, - 1.07, 0.5, 0.0],
      Row H 10 3
        [2, 2, 2, 2, 2, 2, 2, 2, 2, - 20, - 10, - 8, 0, 2, 3, 3, 3, 3, 3, 4, 4.0, 4.46, 4.71, 4.6, 0.0],
      Row G 10 4
        [- 2, - 2, - 2, - 2, - 2, - 2, - 2, - 2, - 2, - 5, - 4, - 3, - 1, - 2, - 1, - 2, - 2, - 2, - 2, - 1, - 0.5, - 0.15, - 0.16, - 0.5, 0.0],
      Row H 10 4
        [6, 6, 6, 6, 6, 6, 6, 6, 6, - 1, 2, - 2, 2, 6, 4, 4, 6, 6, 6, 5, 4.9, 4.76, 4.44, 4.4, 0.0],
      Row G 10 5
        [6, 6, 6, 6, 6, 6, 6, 6, 6, - 1, 4, 7, 4, 4, 6, 5, 5, 5, 4, 4, 3.7, 3.06, 2.45, 1.8, 0.0],
      Row H 10 5
        [- 4, - 4, - 4, - 4, - 4, - 4, - 4, - 4, - 4, - 6, - 3, - 4, - 5, - 4, - 4, - 4, - 4, - 4, - 4, - 5, - 5.9, - 6.58, - 7.22, - 7.9, 0.0],
      Row G 10 6
        [4, 4, 4, 4, 4, 4, 4, 4, 4, 8, 12, 4, 6, 4, 4, 4, 3, 3, 3, 2, 1.0, 0.29, - 0.33, - 0.7, 0.0],
      Row H 10 6
        [0, 0, 0, 0, 0, 0, 0, 0, 0, 6, 6, 1, 1, 0, 0, - 1, 0, 0, 0, - 1, - 1.2, - 1.01, - 0.96, - 0.6, 0.0],
      Row G 10 7
        [0, 0, 0, 0, 0, 0, 0, 0, 0, - 1, 3, - 2, 1, 0, 1, 1, 1, 1, 1, 2, 2.0, 2.06, 2.13, 2.1, 0.0],
      Row H 10 7
        [- 2, - 2, - 2, - 2, - 2, - 2, - 2, - 1, - 1, - 4, - 3, - 3, - 1, - 2, - 1, - 1, - 1, - 1, - 2, - 2, - 2.9, - 3.47, - 3.95, - 4.2, 0.0],
      Row G 10 8
        [2, 2, 2, 1, 1, 1, 1, 2, 2, - 3, 2, 6, - 1, 2, 0, 0, 2, 2, 3, 5, 4.2, 3.77, 3.09, 2.4, 0.0],
      Row H 10 8
        [4, 4, 4, 4, 4, 4, 4, 4, 4, - 2, 6, 7, 6, 3, 3, 3, 4, 4, 3, 1, 0.2, - 0.86, - 1.99, - 2.8, 0.0],
      Row G 10 9
        [2, 2, 2, 2, 3, 3, 3, 3, 3, 5, 10, - 2, 2, 2, 3, 3, 3, 3, 3, 1, 0.3, - 0.21, - 1.03, - 1.8, 0.0],
      Row H 10 9
        [0, 0, 0, 0, 0, 0, 0, 0, 0, 0, 11, - 1, 0, 0, 1, 1, 0, 0, - 1, - 2, - 2.2, - 2.31, - 1.97, - 1.2, 0.0],
      Row G 10 10
        [0, 0, 0, 0, 0, 0, 0, 0, 0, - 2, 3, 0, 0, 0, - 1, - 1, 0, 0, 0, 0, - 1.1, - 2.09, - 2.80, - 3.6, 0.0],
      Row H 10 10
        [- 6, - 6, - 6, - 6, - 6, - 6, - 6, - 6, - 6, - 2, 8, - 3, - 7, - 6, - 4, - 5, - 6, - 6, - 6, - 7, - 7.4, - 7.93, - 8.31, - 8.7, 0.0]]"

definition coeff_rows_11 :: "row list" where
  "coeff_rows_11 =
     [Row G 11 0
        [0, 0, 0, 0, 0, 0, 0, 0, 0, 0, 0, 0, 0, 0, 0, 0, 0, 0, 0, 0, 2.7, 2.95, 3.05, 3.1, 0.0],
      Row G 11 1
        [0, 0, 0, 0, 0, 0, 0, 0, 0, 0, 0, 0, 0, 0, 0, 0, 0, 0, 0, 0, - 1.7, - 1.60, - 1.48, - 1.5, 0.0],
      Row H 11 1
        [0, 0, 0, 0, 0, 0, 0, 0, 0, 0, 0, 0, 0, 0, 0, 0, 0, 0, 0, 0, 0.1, 0.26, 0.13, - 0.1, 0.0],
      Row G 11 2
        [0, 0, 0, 0, 0, 0, 0, 0, 0, 0, 0, 0, 0, 0, 0, 0, 0, 0, 0, 0, - 1.9, - 1.88, - 2.03, - 2.3, 0.0],
      Row H 11 2
        [0, 0, 0, 0, 0, 0, 0, 0, 0, 0, 0, 0, 0, 0, 0, 0, 0, 0, 0, 0, 1.3, 1.44, 1.67, 2.0, 0.0],
      Row G 11 3
        [0, 0, 0, 0, 0, 0, 0, 0, 0, 0, 0, 0, 0, 0, 0, 0, 0, 0, 0, 0, 1.5, 1.44, 1.65, 2.0, 0.0],
      Row H 11 3
        [0, 0, 0, 0, 0, 0, 0, 0, 0, 0, 0, 0, 0, 0, 0, 0, 0, 0, 0, 0, - 0.9, - 0.77, - 0.66, - 0.7, 0.0],
      Row G 11 4
        [0, 0, 0, 0, 0, 0, 0, 0, 0, 0, 0, 0, 0, 0, 0, 0, 0, 0, 0, 0, - 0.1, - 0.31, - 0.51, - 0.8, 0.0],
      Row H 11 4
        [0, 0, 0, 0, 0, 0, 0, 0, 0, 0, 0, 0, 0, 0, 0, 0, 0, 0, 0, 0, - 2.6, - 2.27, - 1.76, - 1.1, 0.0],
      Row G 11 5
        [0, 0, 0, 0, 0, 0, 0, 0, 0, 0, 0, 0, 0, 0, 0, 0, 0, 0, 0, 0, 0.1, 0.29, 0.54, 0.6, 0.0],
      Row H 11 5
        [0, 0, 0, 0, 0, 0, 0, 0, 0, 0, 0, 0, 0, 0, 0, 0, 0, 0, 0, 0, 0.9, 0.90, 0.85, 0.8, 0.0],
      Row G 11 6
        [0, 0, 0, 0, 0, 0, 0, 0, 0, 0, 0, 0, 0, 0, 0, 0, 0, 0, 0, 0, - 0.7, - 0.79, - 0.79, - 0.7, 0.0],
      Row H 11 6
        [0, 0, 0, 0, 0, 0, 0, 0, 0, 0, 0, 0, 0, 0, 0, 0, 0, 0, 0, 0, - 0.7, - 0.58, - 0.39, - 0.2, 0.0],
      Row G 11 7
        [0, 0, 0, 0, 0, 0, 0, 0, 0, 0, 0, 0, 0, 0, 0, 0, 0, 0, 0, 0, 0.7, 0.53, 0.37, 0.2, 0.0],
      Row H 11 7
        [0, 0, 0, 0, 0, 0, 0, 0, 0, 0, 0, 0, 0, 0, 0, 0, 0, 0, 0, 0, - 2.8, - 2.69, - 2.51, - 2.2, 0.0],
      Row G 11 8
        [0, 0, 0, 0, 0, 0, 0, 0, 0, 0, 0, 0, 0, 0, 0, 0, 0, 0, 0, 0, 1.7, 1.80, 1.79, 1.7, 0.0],
      Row H 11 8
        [0, 0, 0, 0, 0, 0, 0, 0, 0, 0, 0, 0, 0, 0, 0, 0, 0, 0, 0, 0, - 0.9, - 1.08, - 1.27, - 1.4, 0.0],
      Row G 11 9
        [0, 0, 0, 0, 0, 0, 0, 0, 0, 0, 0, 0, 0, 0, 0, 0, 0, 0, 0, 0, 0.1, 0.16, 0.12, - 0.2, 0.0],
      Row H 11 9
        [0, 0, 0, 0, 0, 0, 0, 0, 0, 0, 0, 0, 0, 0, 0, 0, 0, 0, 0, 0, - 1.2, - 1.58, - 2.11, - 2.5, 0.0],
      Row G 11 10
        [0, 0, 0, 0, 0, 0, 0, 0, 0, 0, 0, 0, 0, 0, 0, 0, 0, 0, 0, 0, 1.2, 0.96, 0.75, 0.4, 0.0],
      Row H 11 10
        [0, 0, 0, 0, 0, 0, 0, 0, 0, 0, 0, 0, 0, 0, 0, 0, 0, 0, 0, 0, - 1.9, - 1.90, - 1.94, - 2.0, 0.0],
      Row G 11 11
        [0, 0, 0, 0, 0, 0, 0, 0, 0, 0, 0, 0, 0, 0, 0, 0, 0, 0, 0, 0, 4.0, 3.99, 3.75, 3.5, 0.0],
      Row H 11 11
        [0, 0, 0, 0, 0, 0, 0, 0, 0, 0, 0, 0, 0, 0, 0, 0, 0, 0, 0, 0, - 0.9, - 1.39, - 1.86, - 2.4, 0.0]]"

definition coeff_rows_12 :: "row list" where
  "coeff_rows_12 =
     [Row G 12 0
        [0, 0, 0, 0, 0, 0, 0, 0, 0, 0, 0, 0, 0, 0, 0, 0, 0, 0, 0, 0, - 2.2, - 2.15, - 2.12, - 1.9, 0.0],
      Row G 12 1
        [0, 0, 0, 0, 0, 0, 0, 0, 0, 0, 0, 0, 0, 0, 0, 0, 0, 0, 0, 0, - 0.3, - 0.29, - 0.21, - 0.2, 0.0],
      Row H 12 1
        [0, 0, 0, 0, 0, 0, 0, 0, 0, 0, 0, 0, 0, 0, 0, 0, 0, 0, 0, 0, - 0.4, - 0.55, - 0.87, - 1.1, 0.0],
      Row G 12 2
        [0, 0, 0, 0, 0, 0, 0, 0, 0, 0, 0, 0, 0, 0, 0, 0, 0, 0, 0, 0, 0.2, 0.21, 0.30, 0.4, 0.0],
      Row H 12 2
        [0, 0, 0, 0, 0, 0, 0, 0, 0, 0, 0, 0, 0, 0, 0, 0, 0, 0, 0, 0, 0.3, 0.23, 0.27, 0.4, 0.0],
      Row G 12 3
        [0, 0, 0, 0, 0, 0, 0, 0, 0, 0, 0, 0, 0, 0, 0, 0, 0, 0, 0, 0, 0.9, 0.89, 1.04, 1.2, 0.0],
      Row H 12 3
        [0, 0, 0, 0, 0, 0, 0, 0, 0, 0, 0, 0, 0, 0, 0, 0, 0, 0, 0, 0, 2.5, 2.38, 2.13, 1.9, 0.0],
      Row G 12 4
        [0, 0, 0, 0, 0, 0, 0, 0, 0, 0, 0, 0, 0, 0, 0, 0, 0, 0, 0, 0, - 0.2, - 0.38, - 0.63, - 0.8, 0.0],
      Row H 12 4
        [0, 0, 0, 0, 0, 0, 0, 0, 0, 0, 0, 0, 0, 0, 0, 0, 0, 0, 0, 0, - 2.6, - 2.63, - 2.49, - 2.2, 0.0],
      Row G 12 5
        [0, 0, 0, 0, 0, 0, 0, 0, 0, 0, 0, 0, 0, 0, 0, 0, 0, 0, 0, 0, 0.9, 0.96, 0.95, 0.9, 0.0],
      Row H 12 5
        [0, 0, 0, 0, 0, 0, 0, 0, 0, 0, 0, 0, 0, 0, 0, 0, 0, 0, 0, 0, 0.7, 0.61, 0.49, 0.3, 0.0],
      Row G 12 6
        [0, 0, 0, 0, 0, 0, 0, 0, 0, 0, 0, 0, 0, 0, 0, 0, 0, 0, 0, 0, - 0.5, - 0.30, - 0.11, 0.1, 0.0],
      Row H 12 6
        [0, 0, 0, 0, 0, 0, 0, 0, 0, 0, 0, 0, 0, 0, 0, 0, 0, 0, 0, 0, 0.3, 0.40, 0.59, 0.7, 0.0],
      Row G 12 7
        [0, 0, 0, 0, 0, 0, 0, 0, 0, 0, 0, 0, 0, 0, 0, 0, 0, 0, 0, 0, 0.3, 0.46, 0.52, 0.5, 0.0],
      Row H 12 7
        [0, 0, 0, 0, 0, 0, 0, 0, 0, 0, 0, 0, 0, 0, 0, 0, 0, 0, 0, 0, 0.0, 0.01, 0.00, - 0.1, 0.0],
      Row G 12 8
        [0, 0, 0, 0, 0, 0, 0, 0, 0, 0, 0, 0, 0, 0, 0, 0, 0, 0, 0, 0, - 0.3, - 0.35, - 0.39, - 0.3, 0.0],
      Row H 12 8
        [0, 0, 0, 0, 0, 0, 0, 0, 0, 0, 0, 0, 0, 0, 0, 0, 0, 0, 0, 0, 0.0, 0.02, 0.13, 0.3, 0.0],
      Row G 12 9
        [0, 0, 0, 0, 0, 0, 0, 0, 0, 0, 0, 0, 0, 0, 0, 0, 0, 0, 0, 0, - 0.4, - 0.36, - 0.37, - 0.4, 0.0],
      Row H 12 9
        [0, 0, 0, 0, 0, 0, 0, 0, 0, 0, 0, 0, 0, 0, 0, 0, 0, 0, 0, 0, 0.3, 0.28, 0.27, 0.2, 0.0],
      Row G 12 10
        [0, 0, 0, 0, 0, 0, 0, 0, 0, 0, 0, 0, 0, 0, 0, 0, 0, 0, 0, 0, - 0.1, 0.08, 0.21, 0.2, 0.0],
      Row H 12 10
        [0, 0, 0, 0, 0, 0, 0, 0, 0, 0, 0, 0, 0, 0, 0, 0, 0, 0, 0, 0, - 0.9, - 0.87, - 0.86, - 0.9, 0.0],
      Row G 12 11
        [0, 0, 0, 0, 0, 0, 0, 0, 0, 0, 0, 0, 0, 0, 0, 0, 0, 0, 0, 0, - 0.2, - 0.49, - 0.77, - 0.9, 0.0],
      Row H 12 11
        [0, 0, 0, 0, 0, 0, 0, 0, 0, 0, 0, 0, 0, 0, 0, 0, 0, 0, 0, 0, - 0.4, - 0.34, - 0.23, - 0.1, 0.0],
      Row G 12 12
        [0, 0, 0, 0, 0, 0, 0, 0, 0, 0, 0, 0, 0, 0, 0, 0, 0, 0, 0, 0, - 0.4, - 0.08, 0.04, 0.0, 0.0],
      Row H 12 12
        [0, 0, 0, 0, 0, 0, 0, 0, 0, 0, 0, 0, 0, 0, 0, 0, 0, 0, 0, 0, 0.8, 0.88, 0.87, 0.7, 0.0]]"

definition coeff_rows_13 :: "row list" where
  "coeff_rows_13 =
     [Row G 13 0
        [0, 0, 0, 0, 0, 0, 0, 0, 0, 0, 0, 0, 0, 0, 0, 0, 0, 0, 0, 0, - 0.2, - 0.16, - 0.09, 0.0, 0.0],
      Row G 13 1
        [0, 0, 0, 0, 0, 0, 0, 0, 0, 0, 0, 0, 0, 0, 0, 0, 0, 0, 0, 0, - 0.9, - 0.88, - 0.89, - 0.9, 0.0],
      Row H 13 1
        [0, 0, 0, 0, 0, 0, 0, 0, 0, 0, 0, 0, 0, 0, 0, 0, 0, 0, 0, 0, - 0.9, - 0.76, - 0.87, - 0.9, 0.0],
      Row G 13 2
        [0, 0, 0, 0, 0, 0, 0, 0, 0, 0, 0, 0, 0, 0, 0, 0, 0, 0, 0, 0, 0.3, 0.30, 0.31, 0.4, 0.0],
      Row H 13 2
        [0, 0, 0, 0, 0, 0, 0, 0, 0, 0, 0, 0, 0, 0, 0, 0, 0, 0, 0, 0, 0.2, 0.33, 0.30, 0.4, 0.0],
      Row G 13 3
        [0, 0, 0, 0, 0, 0, 0, 0, 0, 0, 0, 0, 0, 0, 0, 0, 0, 0, 0, 0, 0.1, 0.28, 0.42, 0.5, 0.0],
      Row H 13 3
        [0, 0, 0, 0, 0, 0, 0, 0, 0, 0, 0, 0, 0, 0, 0, 0, 0, 0, 0, 0, 1.8, 1.72, 1.66, 1.6, 0.0],
      Row G 13 4
        [0, 0, 0, 0, 0, 0, 0, 0, 0, 0, 0, 0, 0, 0, 0, 0, 0, 0, 0, 0, - 0.4, - 0.43, - 0.45, - 0.5, 0.0],
      Row H 13 4
        [0, 0, 0, 0, 0, 0, 0, 0, 0, 0, 0, 0, 0, 0, 0, 0, 0, 0, 0, 0, - 0.4, - 0.54, - 0.59, - 0.5, 0.0],
      Row G 13 5
        [0, 0, 0, 0, 0, 0, 0, 0, 0, 0, 0, 0, 0, 0, 0, 0, 0, 0, 0, 0, 1.3, 1.18, 1.08, 1.0, 0.0],
      Row H 13 5
        [0, 0, 0, 0, 0, 0, 0, 0, 0, 0, 0, 0, 0, 0, 0, 0, 0, 0, 0, 0, - 1.0, - 1.07, - 1.14, - 1.2, 0.0],
      Row G 13 6
        [0, 0, 0, 0, 0, 0, 0, 0, 0, 0, 0, 0, 0, 0, 0, 0, 0, 0, 0, 0, - 0.4, - 0.37, - 0.31, - 0.2, 0.0],
      Row H 13 6
        [0, 0, 0, 0, 0, 0, 0, 0, 0, 0, 0, 0, 0, 0, 0, 0, 0, 0, 0, 0, - 0.1, - 0.04, - 0.07, - 0.1, 0.0],
      Row G 13 7
        [0, 0, 0, 0, 0, 0, 0, 0, 0, 0, 0, 0, 0, 0, 0, 0, 0, 0, 0, 0, 0.7, 0.75, 0.78, 0.8, 0.0],
      Row H 13 7
        [0, 0, 0, 0, 0, 0, 0, 0, 0, 0, 0, 0, 0, 0, 0, 0, 0, 0, 0, 0, 0.7, 0.63, 0.54, 0.4, 0.0],
      Row G 13 8
        [0, 0, 0, 0, 0, 0, 0, 0, 0, 0, 0, 0, 0, 0, 0, 0, 0, 0, 0, 0, - 0.4, - 0.26, - 0.18, - 0.1, 0.0],
      Row H 13 8
        [0, 0, 0, 0, 0, 0, 0, 0, 0, 0, 0, 0, 0, 0, 0, 0, 0, 0, 0, 0, 0.3, 0.21, 0.10, - 0.1, 0.0],
      Row G 13 9
        [0, 0, 0, 0, 0, 0, 0, 0, 0, 0, 0, 0, 0, 0, 0, 0, 0, 0, 0, 0, 0.3, 0.35, 0.38, 0.3, 0.0],
      Row H 13 9
        [0, 0, 0, 0, 0, 0, 0, 0, 0, 0, 0, 0, 0, 0, 0, 0, 0, 0, 0, 0, 0.6, 0.53, 0.49, 0.4, 0.0],
      Row G 13 10
        [0, 0, 0, 0, 0, 0, 0, 0, 0, 0, 0, 0, 0, 0, 0, 0, 0, 0, 0, 0, - 0.1, - 0.05, 0.02, 0.1, 0.0],
      Row H 13 10
        [0, 0, 0, 0, 0, 0, 0, 0, 0, 0, 0, 0, 0, 0, 0, 0, 0, 0, 0, 0, 0.3, 0.38, 0.44, 0.5, 0.0],
      Row G 13 11
        [0, 0, 0, 0, 0, 0, 0, 0, 0, 0, 0, 0, 0, 0, 0, 0, 0, 0, 0, 0, 0.4, 0.41, 0.42, 0.5, 0.0],
      Row H 13 11
        [0, 0, 0, 0, 0, 0, 0, 0, 0, 0, 0, 0, 0, 0, 0, 0, 0, 0, 0, 0, - 0.2, - 0.22, - 0.25, - 0.3, 0.0],
      Row G 13 12
        [0, 0, 0, 0, 0, 0, 0, 0, 0, 0, 0, 0, 0, 0, 0, 0, 0, 0, 0, 0, 0.0, - 0.10, - 0.26, - 0.4, 0.0],
      Row H 13 12
        [0, 0, 0, 0, 0, 0, 0, 0, 0, 0, 0, 0, 0, 0, 0, 0, 0, 0, 0, 0, - 0.5, - 0.57, - 0.53, - 0.4, 0.0],
      Row G 13 13
        [0, 0, 0, 0, 0, 0, 0, 0, 0, 0, 0, 0, 0, 0, 0, 0, 0, 0, 0, 0, 0.1, - 0.18, - 0.26, - 0.3, 0.0],
      Row H 13 13
        [0, 0, 0, 0, 0, 0, 0, 0, 0, 0, 0, 0, 0, 0, 0, 0, 0, 0, 0, 0, - 0.9, - 0.82, - 0.79, - 0.8, 0.0]]"

definition coeff :: coeff_text where
  "coeff = \<lparr>labels = coeff_labels,
     rows = coeff_rows_1 @ coeff_rows_2 @ coeff_rows_3 @ coeff_rows_4 @ coeff_rows_5 @ coeff_rows_6 @ coeff_rows_7 @ coeff_rows_8 @ coeff_rows_9 @ coeff_rows_10 @ coeff_rows_11 @ coeff_rows_12 @ coeff_rows_13\<rparr>"

subsection \<open>\<open>read_coefficients\<close>\<close>

text \<open>\<open>str.replace\<close>, for a pattern that is not empty.\<close>

fun replace_from :: "string \<Rightarrow> string \<Rightarrow> nat \<Rightarrow> string \<Rightarrow> string" where
  "replace_from old new skip [] = []"
| "replace_from old new skip (c # cs) =
     (if 0 < skip then replace_from old new (skip - 1) cs
      else if take (length old) (c # cs) = old
      then new @ replace_from old new (length old - 1) cs
      else c # replace_from old new 0 cs)"

definition replace :: "string \<Rightarrow> string \<Rightarrow> string \<Rightarrow> string" where
  "replace s old new = replace_from old new 0 s"

text \<open>
  \<open>float\<close> of a label, for the spellings of the table: digits, then optionally a
  point and digits. \<open>None\<close> stands for the ValueError of \<open>astype('float')\<close>.
\<close>

definition is_digit :: "char \<Rightarrow> bool" where
  "is_digit c = (48 \<le> (of_char c :: nat) \<and> (of_char c :: nat) \<le> 57)"

definition digits_val :: "string \<Rightarrow> nat" where
  "digits_val s = foldl (\<lambda>v c. 10 * v + (of_char c - 48)) 0 s"

definition float_of :: "string \<Rightarrow> real option" where
  "float_of s =
     (let ip = takeWhile is_digit s; rest = dropWhile is_digit s in
      if ip = [] then None
      else (case rest of
              [] \<Rightarrow> Some (of_nat (digits_val ip))
            | d # fp \<Rightarrow>
                if d = CHR ''.'' \<and> list_all is_digit fp
                then Some (of_nat (digits_val ip) + of_nat (digits_val fp) / 10 ^ length fp)
                else None))"

fun floats :: "string list \<Rightarrow> error + real list" where
  "floats [] = Inr []"
| "floats (s # ss) =
     (case float_of s of
        None \<Rightarrow> Inl ValueError
      | Some x \<Rightarrow> ebind (floats ss) (\<lambda>xs. Inr (x # xs)))"

text \<open>\<open>astype('int')\<close> of a float: the fraction is dropped.\<close>

definition trunc :: "real \<Rightarrow> int" where
  "trunc x = (if x < 0 then ceiling x else floor x)"

text \<open>
  \<open>years[-1] = years[-1].replace(...)\<close>, twice: the label of the last column, the
  secular variation, becomes the label of a year.
\<close>

definition fix_last :: "string list \<Rightarrow> error + string list" where
  "fix_last ys =
     (if ys = [] then Inl IndexError
      else Inr (butlast ys @
                [replace (replace (last ys) ''2010-15'' ''2015.0'') ''2015-20'' ''2020.0'']))"

text \<open>
  \<open>for year in years.astype('int'): c[year] = {'g':mat.copy(), 'h':mat.copy()}\<close>: two
  new arrays of zeros for every year.
\<close>

definition pair_at :: "addr \<Rightarrow> coeffs" where
  "pair_at a = (\<lambda>k. case k of G \<Rightarrow> a | H \<Rightarrow> Suc a)"

fun new_years ::
  "int list \<Rightarrow> table \<Rightarrow> (addr \<Rightarrow> matrix) \<Rightarrow> addr \<Rightarrow> table \<times> (addr \<Rightarrow> matrix) \<times> addr" where
  "new_years [] c hp a = (c, hp, a)"
| "new_years (y # ys) c hp a =
     new_years ys (AList.update y (pair_at a) c) (hp(a := zeros, Suc a := zeros)) (a + 2)"

text \<open>\<open>arr[m, n] = v\<close> on a 15 by 15 array.\<close>

definition setitem ::
  "(addr \<Rightarrow> matrix) \<Rightarrow> addr \<Rightarrow> nat \<Rightarrow> nat \<Rightarrow> real \<Rightarrow> error + (addr \<Rightarrow> matrix)" where
  "setitem hp a m n v =
     (if m < coeff_dim \<and> n < coeff_dim
      then Inr (hp(a := (hp a)(m := (hp a m)(n := v))))
      else Inl IndexError)"

text \<open>
  \<open>for indx, year in enumerate(years.astype('int')): c[year][gh][m,n] = val[indx]\<close>,
  from the index \<open>i\<close> on.
\<close>

fun store_vals ::
  "table \<Rightarrow> gh \<Rightarrow> nat \<Rightarrow> nat \<Rightarrow> real list \<Rightarrow> int list \<Rightarrow> nat \<Rightarrow> (addr \<Rightarrow> matrix)
     \<Rightarrow> error + (addr \<Rightarrow> matrix)" where
  "store_vals c k n m val [] i hp = Inr hp"
| "store_vals c k n m val (y # ys) i hp =
     (if length val \<le> i then Inl IndexError
      else (case map_of c y of
              None \<Rightarrow> Inl KeyError
            | Some d \<Rightarrow>
                ebind (setitem hp (d k) m n (val ! i))
                  (\<lambda>hp. store_vals c k n m val ys (Suc i) hp)))"

fun store_rows ::
  "table \<Rightarrow> int list \<Rightarrow> row list \<Rightarrow> (addr \<Rightarrow> matrix) \<Rightarrow> error + (addr \<Rightarrow> matrix)" where
  "store_rows c ys [] hp = Inr hp"
| "store_rows c ys (Row k n m val # rs) hp =
     ebind (store_vals c k n m val ys 0 hp) (\<lambda>hp. store_rows c ys rs hp)"

text \<open>
  \<open>c[years[-1]][gh] += c[years[-2]][gh]\<close>: the array under the last key is changed in
  place. \<open>years\<close> is the float array here, so the keys are floats.
\<close>

definition iadd_last ::
  "table \<Rightarrow> real list \<Rightarrow> gh \<Rightarrow> (addr \<Rightarrow> matrix) \<Rightarrow> error + (addr \<Rightarrow> matrix)" where
  "iadd_last c years k hp =
     ebind (getitem c (last years)) (\<lambda>d1.
       if length years < 2 then Inl IndexError
       else ebind (getitem c (years ! (length years - 2))) (\<lambda>d2.
         Inr (hp(d1 k := (\<lambda>m n. hp (d1 k) m n + hp (d2 k) m n)))))"

definition read_coefficients ::
  "coeff_text \<Rightarrow> error + table \<times> (addr \<Rightarrow> matrix) \<times> addr" where
  "read_coefficients txt =
     ebind (fix_last (labels txt)) (\<lambda>ls.
     ebind (floats ls) (\<lambda>years.
       let ys = map trunc years;
           (c, hp, a) = new_years ys [] (\<lambda>_. zeros) 0
       in ebind (store_rows c ys (rows txt) hp) (\<lambda>hp.
          ebind (iadd_last c years G hp) (\<lambda>hp.
          ebind (iadd_last c years H hp) (\<lambda>hp. Inr (c, hp, a))))))"

subsection \<open>Schmidt normalisation\<close>

text \<open>
  \<open>scipy.misc.factorial\<close> of an integer array: the factorial, and 0 for a negative
  entry.
\<close>

definition factorial :: "int \<Rightarrow> real" where
  "factorial k = (if k < 0 then 0 else fact (nat k))"

text \<open>
  \<open>n2, m2 = np.meshgrid(mm, nn)\<close> gives \<open>n2[i,j] = j\<close> and \<open>m2[i,j] = i\<close>, so the row
  index of \<open>schmidt_norm\<close> is the order \<open>m\<close> and the column index the degree \<open>n\<close>.
\<close>

definition schmidt_norm :: matrix where
  "schmidt_norm = (\<lambda>m n.
     sqrt ((2 - (if m = 0 then 1 else 0))
           * factorial (int n - int m) / factorial (int n + int m)) * (- 1) ^ m)"

subsection \<open>\<open>set_year\<close>\<close>

definition np_min :: "int list \<Rightarrow> error + int" where
  "np_min xs = (case xs of [] \<Rightarrow> Inl ValueError | x # r \<Rightarrow> Inr (fold min r x))"

definition np_max :: "int list \<Rightarrow> error + int" where
  "np_max xs = (case xs of [] \<Rightarrow> Inl ValueError | x # r \<Rightarrow> Inr (fold max r x))"

definition np_clip :: "real \<Rightarrow> int \<Rightarrow> int \<Rightarrow> real" where
  "np_clip x lo hi = min (max x (of_int lo)) (of_int hi)"

text \<open>
  The branch of \<open>set_year\<close> for a year that is not a key of the table: clip the year to
  the range of the keys, find the keys \<open>y0\<close> and \<open>y1\<close> around it, and build two new
  arrays \<open>c0 + dy * (c1 - c0)\<close>.
\<close>

definition interp :: "real \<Rightarrow> matrix \<Rightarrow> matrix \<Rightarrow> matrix" where
  "interp dy a0 a1 = (\<lambda>m n. a0 m n + dy * (a1 m n - a0 m n))"

definition interpolate :: "igrfModel \<Rightarrow> int list \<Rightarrow> real \<Rightarrow> error + igrfModel" where
  "interpolate self yearlist yr =
     ebind (np_min yearlist) (\<lambda>lo.
     ebind (np_max yearlist) (\<lambda>hi.
       let yr = np_clip yr lo hi in
       ebind (np_max (filter (\<lambda>k. of_int k \<le> yr) yearlist)) (\<lambda>y0.
         let above = filter (\<lambda>k. k > y0) yearlist in
         ebind (if length above = 0 then Inr (last yearlist) else np_min above) (\<lambda>y1.
           let dy = (if y1 = y0 then 0 else (yr - of_int y0) / of_int (y1 - y0)) in
           ebind (getitem (coefficients self) (of_int y0)) (\<lambda>c0.
           ebind (getitem (coefficients self) (of_int y1)) (\<lambda>c1.
             let a = brk self; hp = heap self in
             Inr (self\<lparr>heap := hp(a := interp dy (hp (c0 G)) (hp (c1 G)),
                                    Suc a := interp dy (hp (c0 H)) (hp (c1 H))),
                       brk := a + 2, gcoeff := a, hcoeff := Suc a\<rparr>)))))))"

text \<open>
  \<open>self.gcoeff *= self.schmidt_norm\<close> multiplies the array that \<open>self.gcoeff\<close> refers
  to, in place.
\<close>

definition imul :: "igrfModel \<Rightarrow> addr \<Rightarrow> matrix \<Rightarrow> igrfModel" where
  "imul self a b = self\<lparr>heap := (heap self)(a := (\<lambda>m n. heap self a m n * b m n))\<rparr>"

text \<open>
  \<open>today\<close> is the year that \<open>time.gmtime()[0]\<close> returns. The message printed when
  \<open>verbose\<close> is set goes to the standard output and is not part of the model.
\<close>

definition set_year :: "int \<Rightarrow> igrfModel \<Rightarrow> real option \<Rightarrow> error + igrfModel" where
  "set_year today self arg =
     (let yr = (case arg of None \<Rightarrow> of_int today | Some y \<Rightarrow> y);
          self = self\<lparr>year := yr\<rparr>;
          yearlist = sort (map fst (coefficients self))
      in ebind
           (if list_ex (\<lambda>k. of_int k = yr) yearlist
            then ebind (getitem (coefficients self) yr) (\<lambda>c.
                   Inr (self\<lparr>gcoeff := c G, hcoeff := c H\<rparr>))
            else interpolate self yearlist yr)
           (\<lambda>self. let self = imul self (gcoeff self) schmidt_norm
                    in Inr (imul self (hcoeff self) schmidt_norm)))"

text \<open>
  \<open>__init__\<close>: read the table into the new object, then configure it. The attributes
  \<open>year\<close>, \<open>gcoeff\<close> and \<open>hcoeff\<close> do not exist before \<open>set_year\<close> binds them;
  \<open>set_year\<close> writes them without reading them, and the values given here are never
  seen.
\<close>

definition init :: "int \<Rightarrow> real option \<Rightarrow> bool \<Rightarrow> error + igrfModel" where
  "init today arg vb =
     ebind (read_coefficients coeff) (\<lambda>(c, hp, a).
       set_year today
         \<lparr>verbose = vb, coefficients = c, heap = hp, brk = a,
          year = 0, gcoeff = 0, hcoeff = 0\<rparr> arg)"

text \<open>The arrays \<open>self.gcoeff\<close> and \<open>self.hcoeff\<close>.\<close>

definition G_of :: "igrfModel \<Rightarrow> matrix" where
  "G_of self = heap self (gcoeff self)"

definition H_of :: "igrfModel \<Rightarrow> matrix" where
  "H_of self = heap self (hcoeff self)"

subsection \<open>The field in spherical coordinates\<close>

definition Re :: real where
  "Re = 6371200"

definition dtor :: real where
  "dtor = pi / 180"

definition a2 :: real where
  "a2 = 40680631600000"

definition b2 :: real where
  "b2 = 40408296000000"

text \<open>
  \<open>scipy.special.lpmn(m, n, z)\<close> is not part of the repository. It is a parameter \<open>lp\<close>
  of the model: for the degree \<open>d\<close> (the source passes \<open>m = n = degree\<close>) and the
  argument \<open>z\<close> it gives the entries \<open>[m, n]\<close> of two arrays, the functions and their
  derivatives by \<open>z\<close>. Both arrays have the shape \<open>(d + 1, d + 1)\<close>, and \<open>lpmn\<close>
  raises ValueError for a negative degree.
\<close>

type_synonym legendre = "nat \<Rightarrow> real \<Rightarrow> matrix \<times> matrix"

text \<open>
  The dict that \<open>spherical\<close> returns: \<open>result['field']\<close>, and \<open>result['position']\<close>
  (\<open>metadata\<close> is left at its default \<open>True\<close>; the entry \<open>'_'\<close> with the name, the
  units and the year is not modelled).
\<close>

record result =
  field :: "string \<rightharpoonup> real"
  position :: "string \<rightharpoonup> real"

definition clip :: "real \<Rightarrow> real \<Rightarrow> real \<Rightarrow> real" where
  "clip x lo hi = min (max x lo) hi"

text \<open>\<open>A.T.dot(v)\<close> for an array of shape \<open>(L, L)\<close>, and \<open>u.dot(v)\<close> for two vectors.\<close>

definition T_dot :: "nat \<Rightarrow> matrix \<Rightarrow> (nat \<Rightarrow> real) \<Rightarrow> nat \<Rightarrow> real" where
  "T_dot L A v = (\<lambda>n. \<Sum>m<L. A m n * v m)"

definition dot :: "nat \<Rightarrow> (nat \<Rightarrow> real) \<Rightarrow> (nat \<Rightarrow> real) \<Rightarrow> real" where
  "dot L u v = (\<Sum>n<L. u n * v n)"

text \<open>
  \<open>spherical\<close>. The slices \<open>self.gcoeff[0:degree+1, 0:degree+1]\<close> of the 15 by 15
  arrays have \<open>min 15 (degree + 1)\<close> rows and columns, the arrays of \<open>lpmn\<close> have
  \<open>degree + 1\<close>; when the two differ neither is 1, nothing can be broadcast and the
  product \<open>gg * Pmn\<close> raises ValueError. When it does not, every later operand has
  the length \<open>degree + 1\<close>. Where \<open>r\<close> is 0 numpy goes on with \<open>inf\<close> and \<open>nan\<close>,
  which the model has not: the statements below that speak of values ask for
  \<open>0 < r\<close>.
\<close>

definition spherical ::
  "legendre \<Rightarrow> igrfModel \<Rightarrow> real \<Rightarrow> real \<Rightarrow> real \<Rightarrow> int \<Rightarrow> bool \<Rightarrow> error + result" where
  "spherical lp self r theta phi degree potential =
     (let theta = clip theta (1 / 10 ^ 6) (pi - 1 / 10 ^ 6) in
      if degree < 0 then Inl ValueError
      else
        let L = nat degree + 1;
            (Pmn, dPdz) = lp (nat degree) (cos theta);
            dPmn = (\<lambda>m n. dPdz m n * (- 1 * sin theta))
        in if min coeff_dim L \<noteq> L then Inl ValueError
           else
             let gg = G_of self; hh = H_of self;
                 Gmn = (\<lambda>m n. gg m n * Pmn m n); Hmn = (\<lambda>m n. hh m n * Pmn m n);
                 nn = (\<lambda>n. real n); mm = (\<lambda>m. real m);
                 rradius = \<bar>Re / r\<bar>; rfactor = (\<lambda>n. rradius ^ (n + 2));
                 cphi = (\<lambda>m. cos (mm m * phi)); sphi = (\<lambda>m. sin (mm m * phi));
                 msum = (\<lambda>n. T_dot L Gmn cphi n + T_dot L Hmn sphi n);
                 fld = (if potential
                        then [''V'' \<mapsto> Re * dot L msum (\<lambda>n. rfactor n / rradius)]
                        else Map.empty);
                 fld = fld(''r'' \<mapsto> dot L msum (\<lambda>n. (nn n + 1) * rfactor n));
                 msum = (\<lambda>n. - T_dot L Gmn (\<lambda>m. mm m * sphi m) n
                               + T_dot L Hmn (\<lambda>m. mm m * cphi m) n);
                 fld = fld(''phi'' \<mapsto> - dot L msum rfactor / sin theta);
                 msum = (\<lambda>n. T_dot L (\<lambda>m n. gg m n * dPmn m n) cphi n
                               + T_dot L (\<lambda>m n. hh m n * dPmn m n) sphi n);
                 fld = fld(''theta'' \<mapsto> - dot L msum rfactor)
             in Inr \<lparr>field = fld,
                     position = [''r'' \<mapsto> r, ''theta'' \<mapsto> theta, ''phi'' \<mapsto> phi]\<rparr>)"

text \<open>
  \<open>_spherical0\<close>, the reference implementation with the two loops. The four sums are
  carried through the loops as a tuple \<open>(V, Br, Btheta, Bphi)\<close>. \<open>G[m,n]\<close> raises
  IndexError on the 15 by 15 array once \<open>n\<close> reaches 15.
\<close>

type_synonym acc = "real \<times> real \<times> real \<times> real"

definition term0 ::
  "matrix \<Rightarrow> matrix \<Rightarrow> matrix \<Rightarrow> matrix \<Rightarrow> real \<Rightarrow> real \<Rightarrow> nat \<Rightarrow> nat \<Rightarrow> acc \<Rightarrow> acc" where
  "term0 gg hh P dP q phi n m = (\<lambda>(V, Br, Btheta, Bphi).
     (V + q ^ (n + 1) * (gg m n * cos (real m * phi) + hh m n * sin (real m * phi)) * P m n,
      Br + q ^ (n + 2) * (real n + 1)
             * (gg m n * cos (real m * phi) + hh m n * sin (real m * phi)) * P m n,
      Btheta + q ^ (n + 2)
             * (gg m n * cos (real m * phi) + hh m n * sin (real m * phi)) * dP m n,
      Bphi + q ^ (n + 2)
             * (- gg m n * sin (real m * phi) + hh m n * cos (real m * phi)) * P m n * real m))"

definition spherical0 ::
  "legendre \<Rightarrow> igrfModel \<Rightarrow> real \<Rightarrow> real \<Rightarrow> real \<Rightarrow> int
     \<Rightarrow> error + real \<times> real \<times> real \<times> real" where
  "spherical0 lp self radius theta phi degree =
     (if degree < 0 then Inl ValueError
      else
        let (P, dPdz) = lp (nat degree) (cos theta);
            dP = (\<lambda>m n. dPdz m n * (- 1 * sin theta))
        in if coeff_dim \<le> nat degree then Inl IndexError
           else
             let (V, Br, Btheta, Bphi) =
                   fold (\<lambda>n. fold (term0 (G_of self) (H_of self) P dP (Re / radius) phi n)
                                [0..<n + 1])
                     [0..<nat degree + 1] (0, 0, 0, 0)
             in Inr (Br, - Btheta, - Bphi / sin theta, V * Re))"

subsection \<open>Coordinates\<close>

text \<open>
  \<open>np.arctan2\<close> on reals (the signs of zeros, which decide between \<open>pi\<close> and
  \<open>-pi\<close> on the negative axis in floating point, do not exist here).
\<close>

definition arctan2 :: "real \<Rightarrow> real \<Rightarrow> real" where
  "arctan2 y x =
     (if 0 < x then arctan (y / x)
      else if x < 0 then (if 0 \<le> y then arctan (y / x) + pi else arctan (y / x) - pi)
      else if 0 < y then pi / 2 else if y < 0 then - pi / 2 else 0)"

text \<open>
  What \<open>convert_coordinates\<close> prints: a line of text, and the line of
  \<open>print spher, cart, geog\<close>.
\<close>

datatype message =
  Line string
| Lists "real option list" "real option list" "real option list"

text \<open>
  \<open>convert_coordinates\<close>. \<open>kwargs\<close> is the dict of the keyword arguments; a name that
  is absent and a name given as \<open>None\<close> are the same to \<open>kwargs.pop(name, None)\<close>.
  The method does not assign to \<open>self\<close>; the object is returned as it came, next to
  the printed lines and the result. With \<open>cartesian\<close> set the products are taken of
  \<open>spher\<close>, the arguments, and a missing one raises TypeError.
\<close>

definition convert_coordinates ::
  "igrfModel \<Rightarrow> bool \<Rightarrow> bool \<Rightarrow> bool \<Rightarrow> (string \<rightharpoonup> real)
     \<Rightarrow> error + igrfModel \<times> message list \<times> (string \<rightharpoonup> real)" where
  "convert_coordinates self sph crt geo kwargs =
     (let spher = map kwargs [''r'', ''theta'', ''phi''];
          cart = map kwargs [''x'', ''y'', ''z''];
          geog = map kwargs [''height'', ''latitude'', ''longitude''];
          (out, res) =
            (if sph then
               (case cart of
                  [Some x, Some y, Some z] \<Rightarrow>
                    let r = sqrt (x\<^sup>2 + y\<^sup>2 + z\<^sup>2);
                        theta = arccos (z / r);
                        phi = arctan2 y x
                    in ([], [''r'' \<mapsto> r, ''theta'' \<mapsto> theta, ''phi'' \<mapsto> phi])
                | _ \<Rightarrow>
                  (case geog of
                     [Some height, Some latitude, Some longitude] \<Rightarrow>
                       let alpha = latitude * dtor;
                           phi = longitude * dtor;
                           calpha = cos alpha; salpha = sin alpha;
                           N = a2 / sqrt (a2 * calpha\<^sup>2 + b2 * salpha\<^sup>2);
                           betaa = arctan ((b2 / a2 * N + height) / (N + height)
                                            * (salpha / calpha));
                           theta = pi / 2 - betaa;
                           r = (N + height) * calpha / cos betaa
                       in ([], [''psi'' \<mapsto> alpha - betaa,
                                ''r'' \<mapsto> r, ''theta'' \<mapsto> theta, ''phi'' \<mapsto> phi])
                   | _ \<Rightarrow>
                     (case spher of
                        [Some r, Some theta, Some phi] \<Rightarrow>
                          ([], [''r'' \<mapsto> r, ''theta'' \<mapsto> theta, ''phi'' \<mapsto> phi])
                      | _ \<Rightarrow>
                          ([Line ''Error- unable to calculate spherical coordinates '',
                            Lists spher cart geog],
                           [''r'' \<mapsto> 0, ''theta'' \<mapsto> 0, ''phi'' \<mapsto> 0]))))
             else ([], Map.empty))
      in if crt then
           (case spher of
              [Some r, Some theta, Some phi] \<Rightarrow>
                Inr (self, out, res(''x'' \<mapsto> r * sin theta * cos phi,
                                    ''y'' \<mapsto> r * sin theta * sin phi,
                                    ''z'' \<mapsto> r * cos theta))
            | _ \<Rightarrow> Inl TypeError)
         else Inr (self, out, res))"

text \<open>\<open>d[key]\<close> on a dict with string keys.\<close>

definition item :: "(string \<rightharpoonup> real) \<Rightarrow> string \<Rightarrow> error + real" where
  "item d key = (case d key of None \<Rightarrow> Inl KeyError | Some v \<Rightarrow> Inr v)"

text \<open>
  A call \<open>self.spherical(r=coords['r'], theta=coords['theta'], phi=coords['phi'],
  potential=potential)\<close>, with the default degree 14.
\<close>

definition spherical_at ::
  "legendre \<Rightarrow> igrfModel \<Rightarrow> (string \<rightharpoonup> real) \<Rightarrow> bool \<Rightarrow> error + result" where
  "spherical_at lp self coords potential =
     ebind (item coords ''r'') (\<lambda>r.
     ebind (item coords ''theta'') (\<lambda>theta.
     ebind (item coords ''phi'') (\<lambda>phi.
       spherical lp self r theta phi 14 potential)))"

text \<open>
  \<open>geographic\<close> and \<open>cartesian\<close>, called with the three coordinates and no further
  keyword arguments. An argument left out is \<open>None\<close>. The entries that hold the
  arguments are added to \<open>position\<close> when they are not \<open>None\<close>.
\<close>

definition with_args ::
  "(string \<rightharpoonup> real) \<Rightarrow> (string \<times> real option) list \<Rightarrow> (string \<rightharpoonup> real)" where
  "with_args d kvs = fold (\<lambda>(key, v) d. case v of None \<Rightarrow> d | Some x \<Rightarrow> d(key \<mapsto> x)) kvs d"

definition geographic ::
  "legendre \<Rightarrow> igrfModel \<Rightarrow> real option \<Rightarrow> real option \<Rightarrow> real option \<Rightarrow> bool
     \<Rightarrow> error + igrfModel \<times> message list \<times> result" where
  "geographic lp self height latitude longitude potential =
     ebind (convert_coordinates self True False False
              (with_args Map.empty [(''height'', height), (''latitude'', latitude),
                                    (''longitude'', longitude)]))
       (\<lambda>(self, out, coords).
     ebind (spherical_at lp self coords potential) (\<lambda>res.
       let psi = (case coords ''psi'' of None \<Rightarrow> 0 | Some v \<Rightarrow> v) in
       ebind (item (field res) ''theta'') (\<lambda>Btheta.
       ebind (item (field res) ''r'') (\<lambda>Br.
       ebind (item (field res) ''phi'') (\<lambda>Bphi.
         let north = - Btheta * cos psi - Br * sin psi;
             east = Bphi;
             down = Btheta * sin psi - Br * cos psi;
             up = - down;
             total = sqrt (north\<^sup>2 + east\<^sup>2 + up\<^sup>2);
             horizontal = sqrt (north\<^sup>2 + east\<^sup>2);
             declination = arctan2 east north / dtor;
             inclination = arctan2 up horizontal / dtor
         in Inr (self, out,
                 res\<lparr>field := (field res)
                        (''east'' \<mapsto> east, ''north'' \<mapsto> north, ''up'' \<mapsto> up,
                         ''inclination'' \<mapsto> inclination, ''declination'' \<mapsto> declination,
                         ''horizontal'' \<mapsto> horizontal, ''field'' \<mapsto> total),
                      position := with_args (position res)
                        [(''height'', height), (''latitude'', latitude),
                         (''longitude'', longitude)]\<rparr>))))))"

definition cartesian ::
  "legendre \<Rightarrow> igrfModel \<Rightarrow> real option \<Rightarrow> real option \<Rightarrow> real option \<Rightarrow> bool
     \<Rightarrow> error + igrfModel \<times> message list \<times> result" where
  "cartesian lp self x y z potential =
     ebind (convert_coordinates self True False False
              (with_args Map.empty [(''x'', x), (''y'', y), (''z'', z)]))
       (\<lambda>(self, out, coords).
     ebind (spherical_at lp self coords potential) (\<lambda>res.
       ebind (item (field res) ''r'') (\<lambda>Br.
       ebind (item (field res) ''theta'') (\<lambda>Btheta.
       ebind (item (field res) ''phi'') (\<lambda>Bphi.
         let bx = Br * sin Btheta * cos Bphi;
             by = Br * sin Btheta * sin Bphi;
             bz = Br * cos Btheta
         in Inr (self, out,
                 res\<lparr>field := (field res)(''x'' \<mapsto> bx, ''y'' \<mapsto> by, ''z'' \<mapsto> bz),
                      position := with_args (position res)
                        [(''x'', x), (''y'', y), (''z'', z)]\<rparr>))))))"

section \<open>Notions used in the statements\<close>

text \<open>
  The table that \<open>new_years\<close> builds from an empty one when the years are distinct: the
  year at position \<open>j\<close> holds the arrays at the addresses \<open>a + 2 * j\<close> and
  \<open>a + 2 * j + 1\<close>.
\<close>

fun tab :: "int list \<Rightarrow> addr \<Rightarrow> table" where
  "tab [] a = []"
| "tab (y # ys) a = (y, pair_at a) # tab ys (a + 2)"

text \<open>
  The number in column \<open>j\<close> of the data line for \<open>(k, n, m)\<close>, the last such line if
  there are several, and \<open>x\<close> if there is none.
\<close>

fun raw_entry :: "row list \<Rightarrow> gh \<Rightarrow> nat \<Rightarrow> nat \<Rightarrow> nat \<Rightarrow> real \<Rightarrow> real" where
  "raw_entry [] k n m j x = x"
| "raw_entry (Row k' n' m' val # rs) k n m j x =
     raw_entry rs k n m j (if k' = k \<and> n' = n \<and> m' = m then val ! j else x)"

text \<open>No two entries of the table share an array.\<close>

definition inj_table :: "table \<Rightarrow> bool" where
  "inj_table c = (\<forall>y y' d d' k k'. map_of c y = Some d \<longrightarrow> map_of c y' = Some d' \<longrightarrow> d k = d' k' \<longrightarrow> y = y' \<and> k = k')"

text \<open>A data line fits the arrays and has a number for each of the \<open>L\<close> columns.\<close>

fun row_ok :: "nat \<Rightarrow> row \<Rightarrow> bool" where
  "row_ok L (Row k n m val) = (m < coeff_dim \<and> n < coeff_dim \<and> L \<le> length val)"

text \<open>
  The contents of the \<open>2 * L\<close> arrays after \<open>read_coefficients\<close>: the array at
  \<open>2 * j\<close> holds column \<open>j\<close> of the \<open>g\<close> lines, the one at \<open>2 * j + 1\<close> that
  of the \<open>h\<close> lines, and the arrays of the last column have the column before it
  added.
\<close>

definition table_heap :: "row list \<Rightarrow> nat \<Rightarrow> addr \<Rightarrow> matrix" where
  "table_heap rs L = (\<lambda>b m n.
     if b < 2 * L
     then (let j = b div 2; k = (if even b then G else H)
           in raw_entry rs k n m j 0 + (if Suc j = L then raw_entry rs k n m (L - 2) 0 else 0))
     else 0)"

text \<open>The float array \<open>years\<close> of \<open>read_coefficients\<close>.\<close>

definition years_of :: "coeff_text \<Rightarrow> error + real list" where
  "years_of txt = ebind (fix_last (labels txt)) floats"

text \<open>The keys of the table read from the embedded text.\<close>

definition coeff_years :: "int list" where
  "coeff_years = [1900, 1905, 1910, 1915, 1920, 1925, 1930, 1935, 1940, 1945, 1950, 1955, 1960,
     1965, 1970, 1975, 1980, 1985, 1990, 1995, 2000, 2005, 2010, 2015, 2020]"

text \<open>
  The table of an object has at least one year, its arrays are distinct objects, and all
  of them lie below \<open>brk\<close>.
\<close>

definition wf_model :: "igrfModel \<Rightarrow> bool" where
  "wf_model self =
     (coefficients self \<noteq> [] \<and>
      distinct (concat (map (\<lambda>(y, d). [d G, d H]) (coefficients self))) \<and>
      list_all (\<lambda>(y, d). d G < brk self \<and> d H < brk self) (coefficients self))"

text \<open>An array multiplied by \<open>schmidt_norm\<close>, entry by entry.\<close>

definition normalized :: "matrix \<Rightarrow> matrix" where
  "normalized a = (\<lambda>m n. a m n * schmidt_norm m n)"

text \<open>
  The object that \<open>__init__\<close> hands to \<open>set_year\<close>, with the table read from the
  embedded text.
\<close>

definition base :: "bool \<Rightarrow> igrfModel" where
  "base vb = \<lparr>verbose = vb, coefficients = tab coeff_years 0,
     heap = table_heap (rows coeff) 25, brk = 50, year = 0, gcoeff = 0, hcoeff = 0\<rparr>"

text \<open>
  Reading one number out of the result of \<open>__init__\<close> or \<open>set_year\<close>:
  \<open>self.gcoeff[m,n]\<close>, \<open>self.hcoeff[m,n]\<close> and \<open>self.coefficients[y][k][m,n]\<close>; and
  a call of \<open>set_year\<close> on the object that an earlier call returned.
\<close>

definition G_entry :: "error + igrfModel \<Rightarrow> nat \<Rightarrow> nat \<Rightarrow> error + real" where
  "G_entry r m n = ebind r (\<lambda>self. Inr (G_of self m n))"

definition H_entry :: "error + igrfModel \<Rightarrow> nat \<Rightarrow> nat \<Rightarrow> error + real" where
  "H_entry r m n = ebind r (\<lambda>self. Inr (H_of self m n))"

definition table_entry :: "error + igrfModel \<Rightarrow> int \<Rightarrow> gh \<Rightarrow> nat \<Rightarrow> nat \<Rightarrow> error + real" where
  "table_entry r y k m n =
     ebind r (\<lambda>self. ebind (getitem (coefficients self) (of_int y)) (\<lambda>d. Inr (heap self (d k) m n)))"

definition then_set_year :: "int \<Rightarrow> error + igrfModel \<Rightarrow> real option \<Rightarrow> error + igrfModel" where
  "then_set_year today r arg = ebind r (\<lambda>self. set_year today self arg)"

text \<open>
  \<open>spherical\<close> and \<open>convert_coordinates\<close> called on the object that \<open>__init__\<close>
  returned; of the latter the printed lines and the result.
\<close>

definition spherical_of ::
  "legendre \<Rightarrow> error + igrfModel \<Rightarrow> real \<Rightarrow> real \<Rightarrow> real \<Rightarrow> int \<Rightarrow> bool \<Rightarrow> error + result" where
  "spherical_of lp made r theta phi degree potential =
     ebind made (\<lambda>self. spherical lp self r theta phi degree potential)"


section \<open>Reading the table\<close>

lemma ebind_simps [simp]: "ebind (Inl e) f = Inl e" "ebind (Inr x) f = f x"
  by (simp_all add: ebind_def)

lemma ebind_eq_Inr: "ebind r f = Inr y \<longleftrightarrow> (\<exists>x. r = Inr x \<and> f x = Inr y)"
  by (cases r) simp_all

lemma store_vals_frame:
  "store_vals c k n m val ys i hp = Inr hp' \<Longrightarrow>
   (m', n') \<noteq> (m, n) \<or> (\<forall>y\<in>set ys. \<forall>d. map_of c y = Some d \<longrightarrow> d k \<noteq> b) \<Longrightarrow>
   hp' b m' n' = hp b m' n'"
proof (induction ys arbitrary: i hp)
  case Nil
  then show ?case by simp
next
  case (Cons y ys)
  from Cons.prems(1) obtain d hp1 where d: "map_of c y = Some d"
    and s: "setitem hp (d k) m n (val ! i) = Inr hp1"
    and r: "store_vals c k n m val ys (Suc i) hp1 = Inr hp'"
    by (auto simp: ebind_eq_Inr split: if_splits option.splits)
  have "hp' b m' n' = hp1 b m' n'"
    using Cons.IH[OF r] Cons.prems(2) by auto
  moreover have "hp1 b m' n' = hp b m' n'"
    using s d Cons.prems(2) by (auto simp: setitem_def split: if_splits)
  ultimately show ?case by simp
qed

lemma store_vals_at:
  "store_vals c k n m val ys i hp = Inr hp' \<Longrightarrow> inj_table c \<Longrightarrow> distinct ys \<Longrightarrow>
   j < length ys \<Longrightarrow> map_of c (ys ! j) = Some d \<Longrightarrow> hp' (d k) m n = val ! (i + j)"
proof (induction ys arbitrary: i hp j)
  case Nil
  then show ?case by simp
next
  case (Cons y ys)
  from Cons.prems(1) obtain d1 hp1 where d1: "map_of c y = Some d1"
    and s: "setitem hp (d1 k) m n (val ! i) = Inr hp1"
    and r: "store_vals c k n m val ys (Suc i) hp1 = Inr hp'"
    by (auto simp: ebind_eq_Inr split: if_splits option.splits)
  show ?case
  proof (cases j)
    case 0
    then have dd: "d1 = d" using Cons.prems(5) d1 by simp
    have "\<forall>y'\<in>set ys. \<forall>d'. map_of c y' = Some d' \<longrightarrow> d' k \<noteq> d k"
      using Cons.prems(2,3) d1 dd unfolding inj_table_def by (metis distinct.simps(2))
    then have "hp' (d k) m n = hp1 (d k) m n"
      using store_vals_frame[OF r] by blast
    moreover have "hp1 (d k) m n = val ! i"
      using s dd by (auto simp: setitem_def split: if_splits)
    ultimately show ?thesis using 0 by simp
  next
    case (Suc j')
    then show ?thesis using Cons.IH[OF r Cons.prems(2), of j'] Cons.prems(3,4,5) by simp
  qed
qed

lemma store_rows_frame:
  "store_rows c ys rs hp = Inr hp' \<Longrightarrow>
   (\<forall>y\<in>set ys. \<forall>d k. map_of c y = Some d \<longrightarrow> d k \<noteq> b) \<Longrightarrow> hp' b m n = hp b m n"
proof (induction rs arbitrary: hp)
  case Nil
  then show ?case by simp
next
  case (Cons r rs)
  obtain k' n' m' val where r: "r = Row k' n' m' val" by (cases r)
  from Cons.prems(1) r obtain hp1 where a: "store_vals c k' n' m' val ys 0 hp = Inr hp1"
    and b: "store_rows c ys rs hp1 = Inr hp'"
    by (auto simp: ebind_eq_Inr)
  have "hp1 b m n = hp b m n" using store_vals_frame[OF a] Cons.prems(2) by blast
  then show ?case using Cons.IH[OF b Cons.prems(2)] by simp
qed

lemma store_rows_at:
  "store_rows c ys rs hp = Inr hp' \<Longrightarrow> inj_table c \<Longrightarrow> distinct ys \<Longrightarrow>
   j < length ys \<Longrightarrow> map_of c (ys ! j) = Some d \<Longrightarrow>
   hp' (d k) m n = raw_entry rs k n m j (hp (d k) m n)"
proof (induction rs arbitrary: hp)
  case Nil
  then show ?case by simp
next
  case (Cons r rs)
  obtain k' n' m' val where r: "r = Row k' n' m' val" by (cases r)
  from Cons.prems(1) r obtain hp1 where a: "store_vals c k' n' m' val ys 0 hp = Inr hp1"
    and b: "store_rows c ys rs hp1 = Inr hp'"
    by (auto simp: ebind_eq_Inr)
  have step: "hp1 (d k) m n = (if k' = k \<and> n' = n \<and> m' = m then val ! j else hp (d k) m n)"
  proof (cases "k' = k \<and> n' = n \<and> m' = m")
    case True
    then show ?thesis using store_vals_at[OF a Cons.prems(2,3,4,5)] by simp
  next
    case False
    have "(m, n) \<noteq> (m', n') \<or> (\<forall>y\<in>set ys. \<forall>d'. map_of c y = Some d' \<longrightarrow> d' k' \<noteq> d k)"
    proof (cases "(m, n) = (m', n')")
      case True
      then have kk: "k' \<noteq> k" using False by auto
      have "\<forall>y\<in>set ys. \<forall>d'. map_of c y = Some d' \<longrightarrow> d' k' \<noteq> d k"
        using Cons.prems(2,5) kk unfolding inj_table_def by metis
      then show ?thesis by blast
    qed simp
    then show ?thesis using store_vals_frame[OF a, where m'=m and n'=n and b="d k"] False by auto
  qed
  show ?case using Cons.IH[OF b Cons.prems(2,3,4,5)] step r by simp
qed

lemma store_vals_ok:
  "i + length ys \<le> length val \<Longrightarrow> m < coeff_dim \<Longrightarrow> n < coeff_dim \<Longrightarrow>
   \<forall>y\<in>set ys. map_of c y \<noteq> None \<Longrightarrow> \<exists>hp'. store_vals c k n m val ys i hp = Inr hp'"
  by (induction ys arbitrary: i hp) (auto simp: setitem_def)

lemma store_rows_ok:
  "list_all (row_ok (length ys)) rs \<Longrightarrow> \<forall>y\<in>set ys. map_of c y \<noteq> None \<Longrightarrow>
   \<exists>hp'. store_rows c ys rs hp = Inr hp'"
proof (induction rs arbitrary: hp)
  case Nil
  then show ?case by simp
next
  case (Cons r rs)
  obtain k' n' m' val where r: "r = Row k' n' m' val" by (cases r)
  obtain hp1 where "store_vals c k' n' m' val ys 0 hp = Inr hp1"
    using store_vals_ok[of 0 ys val m' n' c k' hp] Cons.prems r by auto
  then show ?case using Cons.IH[of hp1] Cons.prems r by auto
qed

lemma update_fresh: "y \<notin> fst ` set c \<Longrightarrow> AList.update y v c = c @ [(y, v)]"
  by (induction c) auto

lemma new_years_tab:
  "distinct ys \<Longrightarrow> set ys \<inter> fst ` set c0 = {} \<Longrightarrow>
   new_years ys c0 (\<lambda>_. zeros) a = (c0 @ tab ys a, \<lambda>_. zeros, a + 2 * length ys)"
proof (induction ys arbitrary: c0 a)
  case Nil
  then show ?case by simp
next
  case (Cons y ys)
  have u: "AList.update y (pair_at a) c0 = c0 @ [(y, pair_at a)]"
    using Cons.prems(2) by (intro update_fresh) auto
  have h: "(\<lambda>_. zeros)(a := zeros, Suc a := zeros) = (\<lambda>_. zeros)"
    by (auto simp: fun_eq_iff)
  have "set ys \<inter> fst ` set (c0 @ [(y, pair_at a)]) = {}"
    using Cons.prems(1,2) by auto
  then show ?case
    using Cons.IH[of "c0 @ [(y, pair_at a)]" "a + 2"] Cons.prems(1) u h by simp
qed

lemma map_of_tab:
  "distinct ys \<Longrightarrow> j < length ys \<Longrightarrow> map_of (tab ys a) (ys ! j) = Some (pair_at (a + 2 * j))"
proof (induction ys arbitrary: a j)
  case Nil
  then show ?case by simp
next
  case (Cons y ys)
  show ?case
  proof (cases j)
    case 0
    then show ?thesis by simp
  next
    case (Suc j')
    then have "ys ! j' \<noteq> y" using Cons.prems by auto
    then show ?thesis using Cons.IH[of j' "a + 2"] Cons.prems Suc by simp
  qed
qed

lemma map_of_tab_Some:
  "map_of (tab ys a) y = Some d \<Longrightarrow> \<exists>j<length ys. d = pair_at (a + 2 * j) \<and> ys ! j = y"
proof (induction ys arbitrary: a)
  case Nil
  then show ?case by simp
next
  case (Cons x xs)
  show ?case
  proof (cases "x = y")
    case True
    then have "d = pair_at (a + 2 * 0) \<and> (x # xs) ! 0 = y" using Cons.prems by simp
    then show ?thesis by blast
  next
    case False
    then obtain j where "j < length xs" "d = pair_at (a + 2 + 2 * j)" "xs ! j = y"
      using Cons.IH[of "a + 2"] Cons.prems by auto
    then have "Suc j < length (x # xs) \<and> d = pair_at (a + 2 * Suc j) \<and> (x # xs) ! Suc j = y"
      by simp
    then show ?thesis by blast
  qed
qed

lemma pair_at_inj: "pair_at (a + 2 * i) k = pair_at (a + 2 * j) k' \<Longrightarrow> i = j \<and> k = k'"
  by (cases k; cases k') (auto simp: pair_at_def, presburger+)

lemma inj_table_tab: "distinct ys \<Longrightarrow> inj_table (tab ys a)"
  unfolding inj_table_def
proof (intro allI impI)
  fix y y' d d' k k'
  assume "distinct ys" and 1: "map_of (tab ys a) y = Some d"
    and 2: "map_of (tab ys a) y' = Some d'" and 3: "d k = d' k'"
  obtain i where i: "i < length ys" "d = pair_at (a + 2 * i)" "ys ! i = y"
    using map_of_tab_Some[OF 1] by blast
  obtain j where j: "j < length ys" "d' = pair_at (a + 2 * j)" "ys ! j = y'"
    using map_of_tab_Some[OF 2] by blast
  have "i = j \<and> k = k'" using 3 i(2) j(2) pair_at_inj by simp
  then show "y = y' \<and> k = k'" using i(3) j(3) by simp
qed

lemma pair_at_kind: "pair_at (2 * (b div 2)) (if even b then G else H) = b"
  by (auto simp: pair_at_def elim: oddE)

lemma pair_at_less: "j < L \<Longrightarrow> pair_at (2 * j) k < 2 * L"
  by (cases k) (auto simp: pair_at_def)

lemma floor_whole: "of_int (trunc y) = (y::real) \<Longrightarrow> floor y = trunc y"
  by (metis floor_of_int)

lemma getitem_tab:
  assumes "distinct (map trunc years)" "j < length years" "of_int (trunc (years ! j)) = years ! j"
  shows "getitem (tab (map trunc years) 0) (years ! j) = Inr (pair_at (2 * j))"
proof -
  have f: "floor (years ! j) = map trunc years ! j"
    using floor_whole[OF assms(3)] assms(2) by simp
  have "map_of (tab (map trunc years) 0) (map trunc years ! j) = Some (pair_at (0 + 2 * j))"
    using map_of_tab[OF assms(1), of j 0] assms(2) by simp
  then show ?thesis using f assms(2,3) by (simp add: getitem_def)
qed

lemma read_coefficients_wf_text:
  assumes yrs: "years_of txt = Inr years"
    and len: "2 \<le> length years"
    and dist: "distinct (map trunc years)"
    and whole: "list_all (\<lambda>y. of_int (trunc y) = y) years"
    and rows_ok: "list_all (row_ok (length years)) (rows txt)"
  shows "read_coefficients txt =
           Inr (tab (map trunc years) 0, table_heap (rows txt) (length years), 2 * length years)"
proof -
  define ys where "ys = map trunc years"
  define L where "L = length years"
  define c where "c = tab ys 0"
  have Lys: "length ys = L" by (simp add: ys_def L_def)
  obtain ls where ls: "fix_last (labels txt) = Inr ls" "floats ls = Inr years"
    using yrs by (auto simp: years_of_def ebind_eq_Inr)
  have ny: "new_years ys [] (\<lambda>_. zeros) 0 = (c, \<lambda>_. zeros, 2 * L)"
    using new_years_tab[of ys "[]" 0] dist by (simp add: ys_def c_def L_def)
  have keys: "\<forall>y\<in>set ys. map_of c y \<noteq> None"
  proof
    fix y assume "y \<in> set ys"
    then obtain j where "j < length ys" "ys ! j = y" by (auto simp: in_set_conv_nth)
    then show "map_of c y \<noteq> None"
      using map_of_tab[of ys j 0] dist by (auto simp: c_def ys_def)
  qed
  obtain hp1 where hp1: "store_rows c ys (rows txt) (\<lambda>_. zeros) = Inr hp1"
    using store_rows_ok[of ys "rows txt" c] rows_ok keys Lys L_def by auto
  have inj: "inj_table c" using inj_table_tab dist by (simp add: c_def ys_def)
  have A: "hp1 b m n = raw_entry (rows txt) (if even b then G else H) n m (b div 2) 0"
    if "b < 2 * L" for b m n
  proof -
    have j: "b div 2 < length ys" using that Lys by auto
    have "map_of c (ys ! (b div 2)) = Some (pair_at (2 * (b div 2)))"
      using map_of_tab[of ys "b div 2" 0] dist j by (simp add: c_def ys_def)
    from store_rows_at[OF hp1 inj _ j this, of "if even b then G else H" m n] dist
    show ?thesis by (simp add: pair_at_kind zeros_def ys_def)
  qed
  have B: "hp1 b m n = 0" if "\<not> b < 2 * L" for b m n
  proof -
    have "\<forall>y\<in>set ys. \<forall>d k. map_of c y = Some d \<longrightarrow> d k \<noteq> b"
    proof (intro ballI allI impI)
      fix y d k assume "map_of c y = Some d"
      then obtain j where "j < length ys" "d = pair_at (0 + 2 * j)"
        using map_of_tab_Some[of ys 0 y d] by (auto simp: c_def)
      then show "d k \<noteq> b" using pair_at_less[of j L k] that Lys by auto
    qed
    from store_rows_frame[OF hp1 this] show ?thesis by (simp add: zeros_def)
  qed
  have wl: "of_int (trunc (years ! j)) = years ! j" if "j < L" for j
    using whole that by (simp add: list_all_length L_def)
  have L2: "2 \<le> L" using len by (simp add: L_def)
  have lastj: "last years = years ! (L - 1)"
  proof -
    have "years \<noteq> []" using len by auto
    then show ?thesis by (simp add: L_def last_conv_nth)
  qed
  have g1: "getitem c (last years) = Inr (pair_at (2 * (L - 1)))"
    using getitem_tab[OF dist, of "L - 1"] wl[of "L - 1"] L2 lastj
    by (simp add: c_def ys_def L_def)
  have g2: "getitem c (years ! (length years - 2)) = Inr (pair_at (2 * (L - 2)))"
    using getitem_tab[OF dist, of "L - 2"] wl[of "L - 2"] L2
    by (simp add: c_def ys_def L_def)
  define hp2 where "hp2 = hp1(2 * (L - 1) := (\<lambda>m n. hp1 (2 * (L - 1)) m n + hp1 (2 * (L - 2)) m n))"
  define hp3 where "hp3 = hp2(Suc (2 * (L - 1)) :=
                            (\<lambda>m n. hp2 (Suc (2 * (L - 1))) m n + hp2 (Suc (2 * (L - 2))) m n))"
  have i1: "iadd_last c years G hp1 = Inr hp2"
    using g1 g2 len by (simp add: iadd_last_def hp2_def pair_at_def)
  have i2: "iadd_last c years H hp2 = Inr hp3"
    using g1 g2 len by (simp add: iadd_last_def hp3_def pair_at_def)
  have rc: "read_coefficients txt = Inr (c, hp3, 2 * L)"
    using ls ny hp1 i1 i2 by (simp add: read_coefficients_def ys_def Let_def)
  have "hp3 b m n = table_heap (rows txt) L b m n" for b m n
  proof (cases "b < 2 * L")
    case False
    then have "b \<noteq> 2 * (L - 1)" "b \<noteq> Suc (2 * (L - 1))" using L2 by auto
    then show ?thesis using False B[of b] by (simp add: hp3_def hp2_def table_heap_def)
  next
    case True
    have pg: "even b \<Longrightarrow> Suc (b div 2) = L \<Longrightarrow> b = 2 * (L - 1)" by presburger
    have ph: "odd b \<Longrightarrow> Suc (b div 2) = L \<Longrightarrow> b = Suc (2 * (L - 1))" by presburger
    consider (g) "b = 2 * (L - 1)" | (h) "b = Suc (2 * (L - 1))" | (o) "Suc (b div 2) \<noteq> L"
      using pg ph by blast
    then show ?thesis
    proof cases
      case g
      have "2 * (L - 2) < 2 * L" "(2 * (L - 2)) div 2 = L - 2" using L2 by auto
      then show ?thesis using g True L2 A[of b m n] A[of "2 * (L - 2)" m n]
        by (simp add: hp3_def hp2_def table_heap_def)
    next
      case h
      have "Suc (2 * (L - 2)) < 2 * L" "Suc (2 * (L - 2)) div 2 = L - 2"
        "Suc (2 * (L - 2)) \<noteq> 2 * (L - 1)" using L2 by auto
      then show ?thesis using h True L2 A[of b m n] A[of "Suc (2 * (L - 2))" m n]
        by (simp add: hp3_def hp2_def table_heap_def)
    next
      case o
      then have "b \<noteq> 2 * (L - 1)" "b \<noteq> Suc (2 * (L - 1))" using L2 by auto
      then show ?thesis using o True A[of b m n]
        by (simp add: hp3_def hp2_def table_heap_def)
    qed
  qed
  then have "hp3 = table_heap (rows txt) L" by (simp add: fun_eq_iff)
  then show ?thesis using rc by (simp add: c_def ys_def L_def)
qed

lemmas coeff_rows_defs = coeff_rows_1_def coeff_rows_2_def coeff_rows_3_def coeff_rows_4_def
  coeff_rows_5_def coeff_rows_6_def coeff_rows_7_def coeff_rows_8_def coeff_rows_9_def
  coeff_rows_10_def coeff_rows_11_def coeff_rows_12_def coeff_rows_13_def

lemma years_of_coeff: "years_of coeff = Inr (map of_int coeff_years)"
  by (simp add: years_of_def coeff_def coeff_labels_def fix_last_def replace_def
      float_of_def is_digit_def digits_val_def coeff_years_def)

lemma trunc_of_int [simp]: "trunc (of_int k) = k"
  by (simp add: trunc_def)

lemma rows_ok_coeff: "list_all (row_ok 25) (rows coeff)"
  by (simp add: coeff_def coeff_rows_defs coeff_dim_def)

lemma read_coefficients_coeff:
  "read_coefficients coeff = Inr (tab coeff_years 0, table_heap (rows coeff) 25, 50)"
proof -
  have "map trunc (map real_of_int coeff_years) = coeff_years"
    by (simp add: comp_def)
  moreover have "distinct coeff_years" "length coeff_years = 25"
    by (simp_all add: coeff_years_def)
  moreover have "list_all (\<lambda>y. of_int (trunc y) = y) (map real_of_int coeff_years)"
    by (simp add: list_all_iff)
  ultimately show ?thesis
    using read_coefficients_wf_text[OF years_of_coeff] rows_ok_coeff by simp
qed

section \<open>Configuration\<close>

lemma init_base: "init today arg vb = set_year today (base vb) arg"
  by (simp add: init_def read_coefficients_coeff base_def)

lemma wf_pair:
  "wf_model self \<Longrightarrow> map_of (coefficients self) k = Some d \<Longrightarrow>
   d G \<noteq> d H \<and> d G < brk self \<and> d H < brk self"
proof -
  assume w: "wf_model self" and m: "map_of (coefficients self) k = Some d"
  have i: "(k, d) \<in> set (coefficients self)" using m by (rule map_of_SomeD)
  have "d G < brk self \<and> d H < brk self"
    using w i by (auto simp: wf_model_def list_all_iff)
  moreover have "d G \<noteq> d H"
  proof -
    have "distinct (concat (map (\<lambda>(y, d). [d G, d H]) (coefficients self)))"
      using w by (simp add: wf_model_def)
    then have "\<forall>x\<in>set (map (\<lambda>(y, d). [d G, d H]) (coefficients self)). distinct x"
      by (simp add: distinct_concat_iff)
    then have "distinct [d G, d H]" using i by force
    then show ?thesis by simp
  qed
  ultimately show ?thesis by simp
qed

lemma np_max_eqI: "x \<in> set xs \<Longrightarrow> \<forall>y\<in>set xs. y \<le> x \<Longrightarrow> np_max xs = Inr x"
proof -
  assume a: "x \<in> set xs" and b: "\<forall>y\<in>set xs. y \<le> x"
  then obtain z zs where xs: "xs = z # zs" by (cases xs) auto
  have "fold max zs z = Max (set (z # zs))" by (rule Max.set_eq_fold[symmetric])
  also have "\<dots> = x" using a b xs by (intro Max_eqI) auto
  finally show ?thesis by (simp add: np_max_def xs)
qed

lemma np_min_eqI: "x \<in> set xs \<Longrightarrow> \<forall>y\<in>set xs. x \<le> y \<Longrightarrow> np_min xs = Inr x"
proof -
  assume a: "x \<in> set xs" and b: "\<forall>y\<in>set xs. x \<le> y"
  then obtain z zs where xs: "xs = z # zs" by (cases xs) auto
  have "fold min zs z = Min (set (z # zs))" by (rule Min.set_eq_fold[symmetric])
  also have "\<dots> = x" using a b xs by (intro Min_eqI) auto
  finally show ?thesis by (simp add: np_min_def xs)
qed

lemma getitem_key: "map_of c k = Some d \<Longrightarrow> getitem c (of_int k) = Inr d"
  by (simp add: getitem_def)

text \<open>The keys around a year that is not a key.\<close>

lemma interpolate_eq:
  assumes lo: "lo \<in> set yl" "\<forall>k\<in>set yl. lo \<le> k"
    and hi: "hi \<in> set yl" "\<forall>k\<in>set yl. k \<le> hi"
    and y0: "y0 \<in> set yl" "of_int y0 \<le> np_clip e lo hi"
            "\<forall>k\<in>set yl. of_int k \<le> np_clip e lo hi \<longrightarrow> k \<le> y0"
    and y1: "if \<forall>k\<in>set yl. k \<le> y0 then y1 = last yl
             else y1 \<in> set yl \<and> y0 < y1 \<and> (\<forall>k\<in>set yl. y0 < k \<longrightarrow> y1 \<le> k)"
    and c0: "map_of (coefficients self) y0 = Some c0"
    and c1: "map_of (coefficients self) y1 = Some c1"
  shows "interpolate self yl e =
           Inr (self\<lparr>heap := (heap self)
                  (brk self := interp (if y1 = y0 then 0 else (np_clip e lo hi - of_int y0) / of_int (y1 - y0))
                                 (heap self (c0 G)) (heap self (c1 G)),
                   Suc (brk self) := interp (if y1 = y0 then 0 else (np_clip e lo hi - of_int y0) / of_int (y1 - y0))
                                 (heap self (c0 H)) (heap self (c1 H))),
                brk := brk self + 2, gcoeff := brk self, hcoeff := Suc (brk self)\<rparr>)"
proof -
  have 1: "np_min yl = Inr lo" using lo by (rule np_min_eqI)
  have 2: "np_max yl = Inr hi" using hi by (rule np_max_eqI)
  have 3: "np_max (filter (\<lambda>k. of_int k \<le> np_clip e lo hi) yl) = Inr y0"
    using y0 by (intro np_max_eqI) auto
  have 4: "(if length (filter (\<lambda>k. y0 < k) yl) = 0 then Inr (last yl)
            else np_min (filter (\<lambda>k. y0 < k) yl)) = Inr y1"
  proof (cases "\<forall>k\<in>set yl. k \<le> y0")
    case True
    then have "filter (\<lambda>k. y0 < k) yl = []" by (auto simp: filter_empty_conv)
    then show ?thesis using y1 True by simp
  next
    case False
    then have a: "y1 \<in> set yl" "y0 < y1" "\<forall>k\<in>set yl. y0 < k \<longrightarrow> y1 \<le> k" using y1 by auto
    then have "filter (\<lambda>k. y0 < k) yl \<noteq> []" by (auto simp: filter_empty_conv)
    moreover have "np_min (filter (\<lambda>k. y0 < k) yl) = Inr y1"
      using a by (intro np_min_eqI) auto
    ultimately show ?thesis by simp
  qed
  show ?thesis
    unfolding interpolate_def
    by (simp add: 1 2 3 4 Let_def getitem_key[OF c0] getitem_key[OF c1] del: length_0_conv)
qed

lemma key_in_yearlist:
  "map_of c k = Some d \<Longrightarrow> list_ex (\<lambda>k'. real_of_int k' = of_int k) (sort (map fst c))"
  by (force simp: list_ex_iff dest: map_of_SomeD)

lemma set_year_key:
  assumes w: "wf_model self" and m: "map_of (coefficients self) k = Some d"
  shows "set_year today self (Some (of_int k)) =
           Inr (self\<lparr>year := of_int k, gcoeff := d G, hcoeff := d H,
                     heap := (heap self)(d G := normalized (heap self (d G)),
                                         d H := normalized (heap self (d H)))\<rparr>)"
proof -
  have ne: "d G \<noteq> d H" using wf_pair[OF w m] by simp
  show ?thesis
    using key_in_yearlist[OF m] getitem_key[OF m] ne
    by (simp add: set_year_def Let_def imul_def normalized_def)
qed

lemma set_year_off:
  assumes "\<forall>k\<in>fst ` set (coefficients self). of_int k \<noteq> e"
  shows "set_year today self (Some e) =
           ebind (interpolate (self\<lparr>year := e\<rparr>) (sort (map fst (coefficients self))) e)
             (\<lambda>s. Inr (imul (imul s (gcoeff s) schmidt_norm)
                         (hcoeff (imul s (gcoeff s) schmidt_norm)) schmidt_norm))"
proof -
  have "\<not> list_ex (\<lambda>k. of_int k = e) (sort (map fst (coefficients self)))"
    using assms by (auto simp: list_ex_iff)
  then show ?thesis by (simp add: set_year_def Let_def)
qed

lemma interp_0 [simp]: "interp 0 a b = a"
  by (simp add: interp_def)

lemma keys_bounds:
  assumes "c \<noteq> []"
  obtains lo hi where "lo \<in> fst ` set c" "\<forall>k\<in>fst ` set c. lo \<le> k"
    "hi \<in> fst ` set c" "\<forall>k\<in>fst ` set c. k \<le> (hi::int)"
proof -
  let ?K = "fst ` set c"
  have f: "finite ?K" "?K \<noteq> {}" using assms by auto
  have "Min ?K \<in> ?K" "\<forall>k\<in>?K. Min ?K \<le> k" "Max ?K \<in> ?K" "\<forall>k\<in>?K. k \<le> Max ?K"
    using f by (auto intro: Min_in Max_in)
  then show ?thesis using that by blast
qed

lemma key_lookup: "k \<in> fst ` set c \<Longrightarrow> \<exists>d. map_of c k = Some d"
  by (metis map_of_eq_None_iff not_None_eq)

text \<open>A year outside the range of the keys: the arrays of the nearest key.\<close>

lemma set_year_clamped:
  assumes w: "wf_model self" and m: "map_of (coefficients self) b = Some d"
    and out: "(\<forall>k\<in>fst ` set (coefficients self). b \<le> k) \<and> e < of_int b \<or>
              (\<forall>k\<in>fst ` set (coefficients self). k \<le> b) \<and> of_int b < e"
  shows "\<exists>s. set_year today self (Some e) = Inr s \<and>
             G_of s = normalized (heap self (d G)) \<and> H_of s = normalized (heap self (d H)) \<and>
             coefficients s = coefficients self \<and> brk s = brk self + 2 \<and>
             (\<forall>a<brk self. heap s a = heap self a)"
proof -
  let ?c = "coefficients self"
  let ?yl = "sort (map fst ?c)"
  let ?s = "self\<lparr>year := e\<rparr>"
  have ne: "?c \<noteq> []" using w by (simp add: wf_model_def)
  have bk: "b \<in> fst ` set ?c" using m by (force dest: map_of_SomeD)
  obtain lo hi where lh: "lo \<in> fst ` set ?c" "\<forall>k\<in>fst ` set ?c. lo \<le> k"
    "hi \<in> fst ` set ?c" "\<forall>k\<in>fst ` set ?c. k \<le> hi"
    using keys_bounds[OF ne] by blast
  have off: "\<forall>k\<in>fst ` set ?c. of_int k \<noteq> e" using out by force
  have clip: "np_clip e lo hi = of_int b"
  proof -
    from out show ?thesis
    proof
      assume a: "(\<forall>k\<in>fst ` set ?c. b \<le> k) \<and> e < of_int b"
      then have "lo = b" using lh(1,2) bk by force
      moreover have "b \<le> hi" using lh(4) bk by blast
      ultimately show ?thesis using a by (simp add: np_clip_def)
    next
      assume a: "(\<forall>k\<in>fst ` set ?c. k \<le> b) \<and> of_int b < e"
      then have "hi = b" using lh(3,4) bk by force
      moreover have "lo \<le> b" using lh(2) bk by blast
      ultimately show ?thesis using a by (simp add: np_clip_def)
    qed
  qed
  define y1 where "y1 = (if \<forall>k\<in>set ?yl. k \<le> b then last ?yl
                         else Min {k \<in> set ?yl. b < k})"
  have y1: "if \<forall>k\<in>set ?yl. k \<le> b then y1 = last ?yl
            else y1 \<in> set ?yl \<and> b < y1 \<and> (\<forall>k\<in>set ?yl. b < k \<longrightarrow> y1 \<le> k)"
  proof (cases "\<forall>k\<in>set ?yl. k \<le> b")
    case True
    have "y1 = last ?yl" unfolding y1_def by (rule if_P) (rule True)
    then show ?thesis using True by auto
  next
    case False
    let ?A = "{k \<in> set ?yl. b < k}"
    have fA: "finite ?A" by simp
    have neA: "?A \<noteq> {}" using False by (auto simp: not_le)
    have i: "Min ?A \<in> ?A" using Min_in[OF fA neA] .
    have l: "\<forall>k\<in>?A. Min ?A \<le> k" using Min_le[OF fA] by blast
    have "y1 = Min ?A" unfolding y1_def by (rule if_not_P) (rule False)
    then show ?thesis using False i l by auto
  qed
  have "y1 \<in> set ?yl"
  proof (cases "\<forall>k\<in>set ?yl. k \<le> b")
    case True
    have "?yl \<noteq> []" using ne by (metis length_0_conv length_map length_sort)
    then have "last ?yl \<in> set ?yl" by (rule last_in_set)
    moreover have "y1 = last ?yl" unfolding y1_def by (rule if_P) (rule True)
    ultimately show ?thesis by simp
  next
    case False
    have "y1 \<in> set ?yl \<and> b < y1 \<and> (\<forall>k\<in>set ?yl. b < k \<longrightarrow> y1 \<le> k)"
      using y1 unfolding if_not_P[OF False] .
    then show ?thesis by blast
  qed
  then obtain d1 where d1: "map_of ?c y1 = Some d1" using key_lookup[of y1 ?c] by auto
  have dy: "(if y1 = b then 0 else (np_clip e lo hi - of_int b) / of_int (y1 - b)) = (0::real)"
    by (simp add: clip)
  have "interpolate ?s ?yl e =
          Inr (?s\<lparr>heap := (heap ?s)(brk ?s := interp 0 (heap ?s (d G)) (heap ?s (d1 G)),
                      Suc (brk ?s) := interp 0 (heap ?s (d H)) (heap ?s (d1 H))),
                   brk := brk ?s + 2, gcoeff := brk ?s, hcoeff := Suc (brk ?s)\<rparr>)"
    using interpolate_eq[of lo ?yl hi b e y1 ?s d d1] lh bk clip y1 m d1 dy
    by simp
  then show ?thesis
    using set_year_off[OF off, of today]
    by (simp add: imul_def G_of_def H_of_def normalized_def)
qed

text \<open>A year between two neighbouring keys.\<close>

lemma set_year_between:
  assumes w: "wf_model self"
    and m0: "map_of (coefficients self) k0 = Some d0"
    and m1: "map_of (coefficients self) k1 = Some d1"
    and e: "of_int k0 < e" "e < of_int k1"
    and nb: "\<forall>k\<in>fst ` set (coefficients self). k \<le> k0 \<or> k1 \<le> k"
  shows "\<exists>s. set_year today self (Some e) = Inr s \<and>
             G_of s = normalized (interp ((e - of_int k0) / of_int (k1 - k0))
                                    (heap self (d0 G)) (heap self (d1 G))) \<and>
             H_of s = normalized (interp ((e - of_int k0) / of_int (k1 - k0))
                                    (heap self (d0 H)) (heap self (d1 H))) \<and>
             coefficients s = coefficients self \<and> brk s = brk self + 2 \<and>
             (\<forall>a<brk self. heap s a = heap self a)"
proof -
  let ?c = "coefficients self"
  let ?yl = "sort (map fst ?c)"
  let ?s = "self\<lparr>year := e\<rparr>"
  have ne: "?c \<noteq> []" using w by (simp add: wf_model_def)
  have k0: "k0 \<in> fst ` set ?c" using m0 by (force dest: map_of_SomeD)
  have k1: "k1 \<in> fst ` set ?c" using m1 by (force dest: map_of_SomeD)
  obtain lo hi where lh: "lo \<in> fst ` set ?c" "\<forall>k\<in>fst ` set ?c. lo \<le> k"
    "hi \<in> fst ` set ?c" "\<forall>k\<in>fst ` set ?c. k \<le> hi"
    using keys_bounds[OF ne] by blast
  have lt: "k0 < k1" using e by linarith
  have off: "\<forall>k\<in>fst ` set ?c. of_int k \<noteq> e"
  proof
    fix k assume "k \<in> fst ` set ?c"
    then have "k \<le> k0 \<or> k1 \<le> k" using nb by blast
    then show "of_int k \<noteq> e" using e by auto
  qed
  have "lo \<le> k0" "k1 \<le> hi" using lh k0 k1 by auto
  then have clip: "np_clip e lo hi = e" using e by (simp add: np_clip_def)
  have a: "\<forall>k\<in>set ?yl. real_of_int k \<le> np_clip e lo hi \<longrightarrow> k \<le> k0"
  proof (intro ballI impI)
    fix k assume "k \<in> set ?yl" "real_of_int k \<le> np_clip e lo hi"
    then have "k \<le> k0 \<or> k1 \<le> k" "real_of_int k < of_int k1" using nb clip e by auto
    then show "k \<le> k0" by auto
  qed
  have b: "if \<forall>k\<in>set ?yl. k \<le> k0 then k1 = last ?yl
           else k1 \<in> set ?yl \<and> k0 < k1 \<and> (\<forall>k\<in>set ?yl. k0 < k \<longrightarrow> k1 \<le> k)"
    using k1 lt nb by auto
  have "interpolate ?s ?yl e =
          Inr (?s\<lparr>heap := (heap ?s)
                 (brk ?s := interp ((e - of_int k0) / of_int (k1 - k0)) (heap ?s (d0 G)) (heap ?s (d1 G)),
                  Suc (brk ?s) := interp ((e - of_int k0) / of_int (k1 - k0)) (heap ?s (d0 H)) (heap ?s (d1 H))),
                brk := brk ?s + 2, gcoeff := brk ?s, hcoeff := Suc (brk ?s)\<rparr>)"
    using interpolate_eq[of lo ?yl hi k0 e k1 ?s d0 d1] lh k0 clip a b m0 m1 e lt
    by simp
  then show ?thesis
    using set_year_off[OF off, of today]
    by (simp add: imul_def G_of_def H_of_def normalized_def)
qed

lemma tab_coeff_years:
  "tab coeff_years 0 =
     [(1900, pair_at 0), (1905, pair_at 2), (1910, pair_at 4), (1915, pair_at 6),
      (1920, pair_at 8), (1925, pair_at 10), (1930, pair_at 12), (1935, pair_at 14),
      (1940, pair_at 16), (1945, pair_at 18), (1950, pair_at 20), (1955, pair_at 22),
      (1960, pair_at 24), (1965, pair_at 26), (1970, pair_at 28), (1975, pair_at 30),
      (1980, pair_at 32), (1985, pair_at 34), (1990, pair_at 36), (1995, pair_at 38),
      (2000, pair_at 40), (2005, pair_at 42), (2010, pair_at 44), (2015, pair_at 46),
      (2020, pair_at 48)]"
  by (simp add: coeff_years_def del: add_2_eq_Suc' add_2_eq_Suc)

lemma wf_base: "wf_model (base vb)"
  by (simp add: wf_model_def base_def tab_coeff_years pair_at_def)

lemma m2000: "map_of (coefficients (base vb)) 2000 = Some (pair_at 40)"
  by (simp add: base_def tab_coeff_years)

lemma keys_base: "fst ` set (coefficients (base vb)) = set coeff_years"
  by (simp add: base_def tab_coeff_years coeff_years_def)

lemma set_year_wf: "set_year today self arg = Inr s \<Longrightarrow> wf_model self \<Longrightarrow> wf_model s"
proof -
  assume a: "set_year today self arg = Inr s" and w: "wf_model self"
  have i: "interpolate s0 yl e = Inr s1 \<Longrightarrow> coefficients s1 = coefficients s0 \<and> brk s0 \<le> brk s1"
    for s0 yl e s1
    by (auto simp: interpolate_def ebind_eq_Inr Let_def)
  have "coefficients s = coefficients self \<and> brk self \<le> brk s"
    using a i
    by (fastforce simp: set_year_def ebind_eq_Inr Let_def imul_def split: if_splits)
  then show ?thesis using w by (auto simp: wf_model_def list_all_iff)
qed

lemma schmidt_norm_0_1: "schmidt_norm 0 1 = 1"
  by (simp add: schmidt_norm_def factorial_def)

lemma schmidt_norm_1_1: "schmidt_norm 1 1 = - 1"
  by (simp add: schmidt_norm_def factorial_def fact_numeral)

lemma m2015: "map_of (coefficients (base vb)) 2015 = Some (pair_at 46)"
  by (simp add: base_def tab_coeff_years)

lemma m2020: "map_of (coefficients (base vb)) 2020 = Some (pair_at 48)"
  by (simp add: base_def tab_coeff_years)

lemma m1900: "map_of (coefficients (base vb)) 1900 = Some (pair_at 0)"
  by (simp add: base_def tab_coeff_years)

lemma last_span_base: "\<forall>k\<in>fst ` set (coefficients (base vb)). k \<le> 2015 \<or> 2020 \<le> k"
  by (simp add: keys_base coeff_years_def)

lemma first_key_base: "\<forall>k\<in>fst ` set (coefficients (base vb)). 1900 \<le> k"
  by (simp add: keys_base coeff_years_def)

lemma last_key_base: "\<forall>k\<in>fst ` set (coefficients (base vb)). k \<le> 2020"
  by (simp add: keys_base coeff_years_def)

lemma table_heap_last:
  "table_heap rs 25 (pair_at 48 k) m n = raw_entry rs k n m 23 0 + raw_entry rs k n m 24 0"
  "table_heap rs 25 (pair_at 46 k) m n = raw_entry rs k n m 23 0"
  by (cases k; simp add: table_heap_def pair_at_def)+

lemma heap_base [simp]: "heap (base vb) = table_heap (rows coeff) 25"
  by (simp add: base_def)

lemma raw_g10: "raw_entry (rows coeff) G 1 0 23 0 = - 29442" "raw_entry (rows coeff) G 1 0 24 0 = 10.3"
  by (simp_all add: coeff_def coeff_rows_defs)

lemma raw_g11_2000: "raw_entry (rows coeff) G 1 1 20 0 = - 1728.2"
  by (simp add: coeff_def coeff_rows_defs)

lemma raw_g11_2000_heap: "table_heap (rows coeff) 25 40 1 1 = - 1728.2"
  by (simp add: table_heap_def coeff_def coeff_rows_defs)


lemma table_heap_column:
  "j < 24 \<Longrightarrow> table_heap rs 25 (pair_at (2 * j) k) m n = raw_entry rs k n m j 0"
  by (cases k; simp add: table_heap_def pair_at_def)

lemma nth_coeff_years: "j < 24 \<Longrightarrow> map_of (tab coeff_years 0) (coeff_years ! j) = Some (pair_at (2 * j))"
  using map_of_tab[of coeff_years j 0] by (simp add: coeff_years_def)

lemma raw_g11: "raw_entry (rows coeff) G 1 1 23 0 = - 1501" "raw_entry (rows coeff) G 1 1 0 0 = - 2298"
  by (simp_all add: coeff_def coeff_rows_defs)

text \<open>
  Two calls in a row: a year that is a key, twice; and a year below all keys, on a new
  object and after the first key itself.
\<close>

lemma set_year_key_twice:
  assumes w: "wf_model self" and m: "map_of (coefficients self) k = Some d"
  shows "\<exists>s1 s2. set_year today self (Some (of_int k)) = Inr s1 \<and>
           set_year today s1 (Some (of_int k)) = Inr s2 \<and>
           gcoeff s1 = d G \<and> hcoeff s1 = d H \<and> gcoeff s2 = d G \<and> hcoeff s2 = d H \<and>
           G_of s1 = normalized (heap self (d G)) \<and> H_of s1 = normalized (heap self (d H)) \<and>
           G_of s2 = normalized (normalized (heap self (d G))) \<and>
           H_of s2 = normalized (normalized (heap self (d H)))"
proof -
  have ne: "d G \<noteq> d H" using wf_pair[OF w m] by simp
  define s1 where "s1 = self\<lparr>year := of_int k, gcoeff := d G, hcoeff := d H,
                     heap := (heap self)(d G := normalized (heap self (d G)),
                                         d H := normalized (heap self (d H)))\<rparr>"
  have 1: "set_year today self (Some (of_int k)) = Inr s1"
    unfolding s1_def by (rule set_year_key[OF w m])
  have w1: "wf_model s1" by (rule set_year_wf[OF 1 w])
  have m1: "map_of (coefficients s1) k = Some d" using m by (simp add: s1_def)
  define s2 where "s2 = s1\<lparr>year := of_int k, gcoeff := d G, hcoeff := d H,
                     heap := (heap s1)(d G := normalized (heap s1 (d G)),
                                       d H := normalized (heap s1 (d H)))\<rparr>"
  have 2: "set_year today s1 (Some (of_int k)) = Inr s2"
    unfolding s2_def by (rule set_year_key[OF w1 m1])
  have h1: "heap s1 (d G) = normalized (heap self (d G))" "heap s1 (d H) = normalized (heap self (d H))"
    using ne by (simp_all add: s1_def)
  have h2: "heap s2 (d G) = normalized (heap s1 (d G))" "heap s2 (d H) = normalized (heap s1 (d H))"
    using ne by (simp_all add: s2_def)
  have g: "gcoeff s1 = d G" "hcoeff s1 = d H" "gcoeff s2 = d G" "hcoeff s2 = d H"
    by (simp_all add: s1_def s2_def)
  show ?thesis
    using 1 2 g h1 h2 by (simp add: G_of_def H_of_def)
qed

lemma set_year_key_then_below:
  assumes w: "wf_model self" and m: "map_of (coefficients self) lo = Some d"
    and lo: "\<forall>k\<in>fst ` set (coefficients self). lo \<le> k" and e: "e < of_int lo"
  shows "\<exists>s0 s1 s2. set_year today self (Some e) = Inr s0 \<and>
           set_year today self (Some (of_int lo)) = Inr s1 \<and>
           set_year today s1 (Some e) = Inr s2 \<and>
           G_of s0 = normalized (heap self (d G)) \<and> H_of s0 = normalized (heap self (d H)) \<and>
           G_of s1 = normalized (heap self (d G)) \<and> H_of s1 = normalized (heap self (d H)) \<and>
           G_of s2 = normalized (normalized (heap self (d G))) \<and>
           H_of s2 = normalized (normalized (heap self (d H)))"
proof -
  have ne: "d G \<noteq> d H" using wf_pair[OF w m] by simp
  obtain s0 where 0: "set_year today self (Some e) = Inr s0"
    "G_of s0 = normalized (heap self (d G))" "H_of s0 = normalized (heap self (d H))"
    using set_year_clamped[OF w m, of e today] lo e by blast
  define s1 where "s1 = self\<lparr>year := of_int lo, gcoeff := d G, hcoeff := d H,
                     heap := (heap self)(d G := normalized (heap self (d G)),
                                         d H := normalized (heap self (d H)))\<rparr>"
  have 1: "set_year today self (Some (of_int lo)) = Inr s1"
    unfolding s1_def by (rule set_year_key[OF w m])
  have w1: "wf_model s1" by (rule set_year_wf[OF 1 w])
  have m1: "map_of (coefficients s1) lo = Some d" using m by (simp add: s1_def)
  have lo1: "\<forall>k\<in>fst ` set (coefficients s1). lo \<le> k" using lo by (simp add: s1_def)
  have h1: "heap s1 (d G) = normalized (heap self (d G))" "heap s1 (d H) = normalized (heap self (d H))"
    using ne by (simp_all add: s1_def)
  have g1: "G_of s1 = normalized (heap self (d G))" "H_of s1 = normalized (heap self (d H))"
    using h1 by (simp_all add: G_of_def H_of_def s1_def)
  obtain s2 where 2: "set_year today s1 (Some e) = Inr s2"
    "G_of s2 = normalized (heap s1 (d G))" "H_of s2 = normalized (heap s1 (d H))"
    using set_year_clamped[OF w1 m1, of e today] lo1 e by blast
  show ?thesis
    using 0 1 2 g1 h1 by simp
qed

section \<open>Properties of the epoch selection\<close>

lemma set_year_year:
  "set_year today self arg = Inr s \<Longrightarrow>
   year s = (case arg of None \<Rightarrow> of_int today | Some y \<Rightarrow> y)"
proof -
  assume a: "set_year today self arg = Inr s"
  have i: "interpolate s0 yl e = Inr s1 \<Longrightarrow> year s1 = year s0" for s0 yl e s1
    by (auto simp: interpolate_def ebind_eq_Inr Let_def)
  show ?thesis
    using a i
    by (fastforce simp: set_year_def ebind_eq_Inr Let_def imul_def split: if_splits)
qed

text \<open>
  C10: \<open>set_year\<close> with no year takes the current UTC year from the clock and goes on
  as it does for that year given explicitly; so does the constructor, which hands its
  argument to \<open>set_year\<close>. The year that the object then holds is the year of the clock.
\<close>

theorem set_year_default_is_today:
  "set_year today self None = set_year today self (Some (of_int today)) \<and>
   init today None vb = init today (Some (of_int today)) vb \<and>
   (\<forall>s. set_year today self None = Inr s \<longrightarrow> year s = of_int today)"
proof -
  have "set_year today self None = set_year today self (Some (of_int today))"
    by (simp add: set_year_def)
  moreover have "init today None vb = init today (Some (of_int today)) vb"
    by (simp add: init_def set_year_def)
  moreover have "year s = of_int today" if "set_year today self None = Inr s" for s
    using set_year_year[OF that] by simp
  ultimately show ?thesis by blast
qed

theorem set_year_default_is_today_witness:
  "\<exists>s. init 2026 None False = Inr s \<and> init 2026 (Some 2026) False = Inr s \<and> year s = 2026"
proof -
  have e: "(\<forall>k\<in>fst ` set (coefficients (base False)). 2020 \<le> k) \<and> (2026::real) < of_int 2020 \<or>
           (\<forall>k\<in>fst ` set (coefficients (base False)). k \<le> 2020) \<and> of_int 2020 < (2026::real)"
    using last_key_base[of False] by simp
  obtain s where s: "set_year 2026 (base False) (Some 2026) = Inr s"
    using set_year_clamped[OF wf_base[of False] m2020[of False] e, of 2026] by blast
  have t: "set_year 2026 (base False) None = set_year 2026 (base False) (Some (of_int 2026))"
    "init 2026 None False = init 2026 (Some (of_int 2026)) False"
    "\<forall>s. set_year 2026 (base False) None = Inr s \<longrightarrow> year s = of_int 2026"
    using set_year_default_is_today[of 2026 "base False" False] by blast+
  have "year s = 2026" using t(1,3) s by simp
  moreover have "init 2026 None False = Inr s" "init 2026 (Some 2026) False = Inr s"
    using t(2) s by (simp_all add: init_base)
  ultimately show ?thesis by blast
qed

text \<open>
  C9: in the table read from the embedded text, the arrays under the key 2020 are those of
  2015 with the last column of the text, the secular variation of one year, added once;
  the arrays of 2015 are the column of 2015. A year between 2015 and 2020 then gets the
  coefficients of 2015 plus a fifth of that column for every year past 2015.
\<close>

theorem final_epoch_is_previous_plus_sv_once:
  "\<exists>c hp a d0 d1.
     read_coefficients coeff = Inr (c, hp, a) \<and>
     map_of c 2015 = Some d0 \<and> map_of c 2020 = Some d1 \<and>
     (\<forall>k m n. hp (d0 k) m n = raw_entry (rows coeff) k n m 23 0 \<and>
              hp (d1 k) m n = hp (d0 k) m n + raw_entry (rows coeff) k n m 24 0) \<and>
     (\<forall>e today vb. 2015 < e \<and> e < 2020 \<longrightarrow>
        (\<exists>s. init today (Some e) vb = Inr s \<and>
           (\<forall>m n. G_of s m n =
                     (raw_entry (rows coeff) G n m 23 0
                        + (e - 2015) * (raw_entry (rows coeff) G n m 24 0 / 5)) * schmidt_norm m n \<and>
                   H_of s m n =
                     (raw_entry (rows coeff) H n m 23 0
                        + (e - 2015) * (raw_entry (rows coeff) H n m 24 0 / 5)) * schmidt_norm m n)))"
proof -
  have t: "\<forall>k m n. table_heap (rows coeff) 25 (pair_at 46 k) m n = raw_entry (rows coeff) k n m 23 0 \<and>
              table_heap (rows coeff) 25 (pair_at 48 k) m n =
                table_heap (rows coeff) 25 (pair_at 46 k) m n + raw_entry (rows coeff) k n m 24 0"
    by (simp add: table_heap_last)
  have i: "\<exists>s. init today (Some e) vb = Inr s \<and>
           (\<forall>m n. G_of s m n =
                     (raw_entry (rows coeff) G n m 23 0
                        + (e - 2015) * (raw_entry (rows coeff) G n m 24 0 / 5)) * schmidt_norm m n \<and>
                   H_of s m n =
                     (raw_entry (rows coeff) H n m 23 0
                        + (e - 2015) * (raw_entry (rows coeff) H n m 24 0 / 5)) * schmidt_norm m n)"
    if "2015 < e \<and> e < 2020" for e today vb
  proof -
    have "\<exists>s. set_year today (base vb) (Some e) = Inr s \<and>
      G_of s = normalized (interp ((e - 2015) / 5)
                  (table_heap (rows coeff) 25 (pair_at 46 G))
                  (table_heap (rows coeff) 25 (pair_at 48 G))) \<and>
      H_of s = normalized (interp ((e - 2015) / 5)
                  (table_heap (rows coeff) 25 (pair_at 46 H))
                  (table_heap (rows coeff) 25 (pair_at 48 H)))"
      using set_year_between[OF wf_base[of vb] m2015[of vb] m2020[of vb] _ _ last_span_base[of vb],
          where e = e and today = today] that
      by auto
    then obtain s where s: "set_year today (base vb) (Some e) = Inr s"
      "G_of s = normalized (interp ((e - 2015) / 5)
                  (table_heap (rows coeff) 25 (pair_at 46 G))
                  (table_heap (rows coeff) 25 (pair_at 48 G)))"
      "H_of s = normalized (interp ((e - 2015) / 5)
                  (table_heap (rows coeff) 25 (pair_at 46 H))
                  (table_heap (rows coeff) 25 (pair_at 48 H)))"
      by blast
    have "G_of s m n = (raw_entry (rows coeff) G n m 23 0
                        + (e - 2015) * (raw_entry (rows coeff) G n m 24 0 / 5)) * schmidt_norm m n"
      for m n
      by (simp add: s(2) normalized_def interp_def table_heap_last)
    moreover have "H_of s m n = (raw_entry (rows coeff) H n m 23 0
                        + (e - 2015) * (raw_entry (rows coeff) H n m 24 0 / 5)) * schmidt_norm m n"
      for m n
      by (simp add: s(3) normalized_def interp_def table_heap_last)
    ultimately show ?thesis using s(1) by (simp add: init_base)
  qed
  show ?thesis
  proof (intro exI conjI)
    show "read_coefficients coeff = Inr (tab coeff_years 0, table_heap (rows coeff) 25, 50)"
      by (rule read_coefficients_coeff)
    show "map_of (tab coeff_years 0) 2015 = Some (pair_at 46)"
      by (simp add: tab_coeff_years)
    show "map_of (tab coeff_years 0) 2020 = Some (pair_at 48)"
      by (simp add: tab_coeff_years)
    show "\<forall>k m n. table_heap (rows coeff) 25 (pair_at 46 k) m n = raw_entry (rows coeff) k n m 23 0 \<and>
              table_heap (rows coeff) 25 (pair_at 48 k) m n =
                table_heap (rows coeff) 25 (pair_at 46 k) m n + raw_entry (rows coeff) k n m 24 0"
      by (rule t)
    show "\<forall>e today vb. 2015 < e \<and> e < 2020 \<longrightarrow>
        (\<exists>s. init today (Some e) vb = Inr s \<and>
           (\<forall>m n. G_of s m n =
                     (raw_entry (rows coeff) G n m 23 0
                        + (e - 2015) * (raw_entry (rows coeff) G n m 24 0 / 5)) * schmidt_norm m n \<and>
                   H_of s m n =
                     (raw_entry (rows coeff) H n m 23 0
                        + (e - 2015) * (raw_entry (rows coeff) H n m 24 0 / 5)) * schmidt_norm m n))"
      using i by blast
  qed
qed

theorem final_epoch_is_previous_plus_sv_once_witness:
  "(2015::real) < 2016 \<and> (2016::real) < 2020 \<and>
   G_entry (init 2026 (Some 2016) False) 0 1 = Inr (- 29442 + (2016 - 2015) * (10.3 / 5))"
proof -
  from final_epoch_is_previous_plus_sv_once
  have "\<forall>e today vb. 2015 < e \<and> e < 2020 \<longrightarrow>
        (\<exists>s. init today (Some e) vb = Inr s \<and>
           (\<forall>m n. G_of s m n =
                     (raw_entry (rows coeff) G n m 23 0
                        + (e - 2015) * (raw_entry (rows coeff) G n m 24 0 / 5)) * schmidt_norm m n \<and>
                   H_of s m n =
                     (raw_entry (rows coeff) H n m 23 0
                        + (e - 2015) * (raw_entry (rows coeff) H n m 24 0 / 5)) * schmidt_norm m n))"
    by (elim exE conjE)
  then have "\<exists>s. init 2026 (Some 2016) False = Inr s \<and>
           (\<forall>m n. G_of s m n =
                     (raw_entry (rows coeff) G n m 23 0
                        + (2016 - 2015) * (raw_entry (rows coeff) G n m 24 0 / 5)) * schmidt_norm m n \<and>
                   H_of s m n =
                     (raw_entry (rows coeff) H n m 23 0
                        + (2016 - 2015) * (raw_entry (rows coeff) H n m 24 0 / 5)) * schmidt_norm m n)"
    by (elim allE[where x = 2016] allE[where x = 2026] allE[where x = False]) simp
  then obtain s where s: "init 2026 (Some 2016) False = Inr s"
    "G_of s 0 1 = (raw_entry (rows coeff) G 1 0 23 0
                     + (2016 - 2015) * (raw_entry (rows coeff) G 1 0 24 0 / 5)) * schmidt_norm 0 1"
    by blast
  then show ?thesis using schmidt_norm_0_1 raw_g10 by (simp add: G_entry_def)
qed

text \<open>
  C6 holds for the first configuration of an object and fails from the second on. The
  table read from the embedded text has, under each of the years 1900 to 2015, the column
  of that year. For a year that is a key of the table the constructor interpolates
  nothing: \<open>gcoeff\<close> and \<open>hcoeff\<close> are the arrays of the table themselves, and they
  hold the entries of that year times \<open>schmidt_norm\<close>. Those arrays have been
  multiplied in place, so a further \<open>set_year\<close> of the same year multiplies them again:
  the coefficients are then the entries of the year times \<open>schmidt_norm\<close> twice, not
  the tabulated set normalised.
\<close>

theorem tabulated_year_normalised_again_by_second_call:
  "\<exists>c hp a.
     read_coefficients coeff = Inr (c, hp, a) \<and>
     (\<forall>j<24. \<exists>d. map_of c (coeff_years ! j) = Some d \<and>
                 (\<forall>k m n. hp (d k) m n = raw_entry (rows coeff) k n m j 0)) \<and>
     (\<forall>y d today vb. map_of c y = Some d \<longrightarrow>
        (\<exists>s1 s2. init today (Some (of_int y)) vb = Inr s1 \<and>
                 set_year today s1 (Some (of_int y)) = Inr s2 \<and>
                 gcoeff s1 = d G \<and> hcoeff s1 = d H \<and> gcoeff s2 = d G \<and> hcoeff s2 = d H \<and>
                 G_of s1 = normalized (hp (d G)) \<and> H_of s1 = normalized (hp (d H)) \<and>
                 G_of s2 = normalized (normalized (hp (d G))) \<and>
                 H_of s2 = normalized (normalized (hp (d H)))))"
proof (intro exI conjI)
  show "read_coefficients coeff = Inr (tab coeff_years 0, table_heap (rows coeff) 25, 50)"
    by (rule read_coefficients_coeff)
  show "\<forall>j<24. \<exists>d. map_of (tab coeff_years 0) (coeff_years ! j) = Some d \<and>
          (\<forall>k m n. table_heap (rows coeff) 25 (d k) m n = raw_entry (rows coeff) k n m j 0)"
    using nth_coeff_years table_heap_column by blast
  show "\<forall>y d today vb. map_of (tab coeff_years 0) y = Some d \<longrightarrow>
        (\<exists>s1 s2. init today (Some (of_int y)) vb = Inr s1 \<and>
                 set_year today s1 (Some (of_int y)) = Inr s2 \<and>
                 gcoeff s1 = d G \<and> hcoeff s1 = d H \<and> gcoeff s2 = d G \<and> hcoeff s2 = d H \<and>
                 G_of s1 = normalized (table_heap (rows coeff) 25 (d G)) \<and>
                 H_of s1 = normalized (table_heap (rows coeff) 25 (d H)) \<and>
                 G_of s2 = normalized (normalized (table_heap (rows coeff) 25 (d G))) \<and>
                 H_of s2 = normalized (normalized (table_heap (rows coeff) 25 (d H))))"
  proof (intro allI impI)
    fix y d today vb
    assume m: "map_of (tab coeff_years 0) y = Some d"
    then have m': "map_of (coefficients (base vb)) y = Some d" by (simp add: base_def)
    show "\<exists>s1 s2. init today (Some (of_int y)) vb = Inr s1 \<and>
                 set_year today s1 (Some (of_int y)) = Inr s2 \<and>
                 gcoeff s1 = d G \<and> hcoeff s1 = d H \<and> gcoeff s2 = d G \<and> hcoeff s2 = d H \<and>
                 G_of s1 = normalized (table_heap (rows coeff) 25 (d G)) \<and>
                 H_of s1 = normalized (table_heap (rows coeff) 25 (d H)) \<and>
                 G_of s2 = normalized (normalized (table_heap (rows coeff) 25 (d G))) \<and>
                 H_of s2 = normalized (normalized (table_heap (rows coeff) 25 (d H)))"
      using set_year_key_twice[OF wf_base[of vb] m', of today] by (simp add: init_base)
  qed
qed

theorem tabulated_year_normalised_again_by_second_call_witness:
  "(23::nat) < 24 \<and> coeff_years ! 23 = 2015 \<and>
   raw_entry (rows coeff) G 1 1 23 0 = - 1501 \<and> schmidt_norm 1 1 = - 1 \<and>
   G_entry (init 2026 (Some 2015) False) 1 1 = Inr 1501 \<and>
   G_entry (then_set_year 2026 (init 2026 (Some 2015) False) (Some 2015)) 1 1 = Inr (- 1501)"
proof -
  obtain c hp a where
    t: "\<forall>j<24. \<exists>d. map_of c (coeff_years ! j) = Some d \<and>
                 (\<forall>k m n. hp (d k) m n = raw_entry (rows coeff) k n m j 0)"
       "\<forall>y d today vb. map_of c y = Some d \<longrightarrow>
        (\<exists>s1 s2. init today (Some (of_int y)) vb = Inr s1 \<and>
                 set_year today s1 (Some (of_int y)) = Inr s2 \<and>
                 gcoeff s1 = d G \<and> hcoeff s1 = d H \<and> gcoeff s2 = d G \<and> hcoeff s2 = d H \<and>
                 G_of s1 = normalized (hp (d G)) \<and> H_of s1 = normalized (hp (d H)) \<and>
                 G_of s2 = normalized (normalized (hp (d G))) \<and>
                 H_of s2 = normalized (normalized (hp (d H))))"
    using tabulated_year_normalised_again_by_second_call by (elim exE conjE)
  have y: "coeff_years ! 23 = 2015" by (simp add: coeff_years_def)
  obtain d where d: "map_of c 2015 = Some d" "hp (d G) 1 1 = raw_entry (rows coeff) G 1 1 23 0"
    using t(1) y by (elim allE[where x = 23]) auto
  have "\<exists>s1 s2. init 2026 (Some (of_int 2015)) False = Inr s1 \<and>
                 set_year 2026 s1 (Some (of_int 2015)) = Inr s2 \<and>
                 gcoeff s1 = d G \<and> hcoeff s1 = d H \<and> gcoeff s2 = d G \<and> hcoeff s2 = d H \<and>
                 G_of s1 = normalized (hp (d G)) \<and> H_of s1 = normalized (hp (d H)) \<and>
                 G_of s2 = normalized (normalized (hp (d G))) \<and>
                 H_of s2 = normalized (normalized (hp (d H)))"
    using t(2) d(1) by (elim allE[where x = 2015] allE[where x = d] allE[where x = 2026] allE[where x = False]) simp
  then obtain s1 s2 where s: "init 2026 (Some 2015) False = Inr s1"
    "set_year 2026 s1 (Some 2015) = Inr s2"
    "G_of s1 = normalized (hp (d G))" "G_of s2 = normalized (normalized (hp (d G)))"
    by auto
  have n: "schmidt_norm 1 1 = - 1" by (rule schmidt_norm_1_1)
  have r: "raw_entry (rows coeff) G 1 1 23 0 = - 1501" by (rule raw_g11(1))
  have a: "G_entry (init 2026 (Some 2015) False) 1 1 = Inr 1501"
    using d(2) n r by (simp add: s(1) G_entry_def s(3) normalized_def)
  have b: "G_entry (then_set_year 2026 (init 2026 (Some 2015) False) (Some 2015)) 1 1 = Inr (- 1501)"
    using d(2) n r by (simp add: s(1) s(2) then_set_year_def G_entry_def s(4) normalized_def)
  show ?thesis using a b n r y by simp
qed

text \<open>
  C7 holds on a new object and fails after the first key has been configured. A year
  below 1900, the first key of the table, raises no error; on a new object it gives the
  entries of 1900 times \<open>schmidt_norm\<close>, the coefficients that the object made for
  1900 has. On the object made for 1900, whose arrays of 1900 were multiplied in place,
  the same year gives those entries times \<open>schmidt_norm\<close> twice: not the
  coefficients resolved for 1900.
\<close>

theorem below_range_after_first_key:
  "\<exists>c hp a d.
     read_coefficients coeff = Inr (c, hp, a) \<and> map_of c 1900 = Some d \<and>
     list_all (\<lambda>y. 1900 \<le> y) (map fst c) \<and>
     (\<forall>k m n. hp (d k) m n = raw_entry (rows coeff) k n m 0 0) \<and>
     (\<forall>e today vb. e < 1900 \<longrightarrow>
        (\<exists>s0 s1 s2. init today (Some e) vb = Inr s0 \<and>
                    init today (Some 1900) vb = Inr s1 \<and>
                    set_year today s1 (Some e) = Inr s2 \<and>
                    G_of s0 = normalized (hp (d G)) \<and> H_of s0 = normalized (hp (d H)) \<and>
                    G_of s1 = normalized (hp (d G)) \<and> H_of s1 = normalized (hp (d H)) \<and>
                    G_of s2 = normalized (normalized (hp (d G))) \<and>
                    H_of s2 = normalized (normalized (hp (d H)))))"
proof (intro exI conjI)
  show "read_coefficients coeff = Inr (tab coeff_years 0, table_heap (rows coeff) 25, 50)"
    by (rule read_coefficients_coeff)
  show "map_of (tab coeff_years 0) 1900 = Some (pair_at 0)"
    by (simp add: tab_coeff_years)
  show "list_all (\<lambda>y. 1900 \<le> y) (map fst (tab coeff_years 0))"
    by (simp add: tab_coeff_years)
  show "\<forall>k m n. table_heap (rows coeff) 25 (pair_at 0 k) m n = raw_entry (rows coeff) k n m 0 0"
    using table_heap_column[of 0] by simp
  show "\<forall>e today vb. e < 1900 \<longrightarrow>
        (\<exists>s0 s1 s2. init today (Some e) vb = Inr s0 \<and>
                    init today (Some 1900) vb = Inr s1 \<and>
                    set_year today s1 (Some e) = Inr s2 \<and>
                    G_of s0 = normalized (table_heap (rows coeff) 25 (pair_at 0 G)) \<and>
                    H_of s0 = normalized (table_heap (rows coeff) 25 (pair_at 0 H)) \<and>
                    G_of s1 = normalized (table_heap (rows coeff) 25 (pair_at 0 G)) \<and>
                    H_of s1 = normalized (table_heap (rows coeff) 25 (pair_at 0 H)) \<and>
                    G_of s2 = normalized (normalized (table_heap (rows coeff) 25 (pair_at 0 G))) \<and>
                    H_of s2 = normalized (normalized (table_heap (rows coeff) 25 (pair_at 0 H))))"
  proof (intro allI impI)
    fix e :: real and today vb
    assume "e < 1900"
    then have e: "e < of_int 1900" by simp
    show "\<exists>s0 s1 s2. init today (Some e) vb = Inr s0 \<and>
                    init today (Some 1900) vb = Inr s1 \<and>
                    set_year today s1 (Some e) = Inr s2 \<and>
                    G_of s0 = normalized (table_heap (rows coeff) 25 (pair_at 0 G)) \<and>
                    H_of s0 = normalized (table_heap (rows coeff) 25 (pair_at 0 H)) \<and>
                    G_of s1 = normalized (table_heap (rows coeff) 25 (pair_at 0 G)) \<and>
                    H_of s1 = normalized (table_heap (rows coeff) 25 (pair_at 0 H)) \<and>
                    G_of s2 = normalized (normalized (table_heap (rows coeff) 25 (pair_at 0 G))) \<and>
                    H_of s2 = normalized (normalized (table_heap (rows coeff) 25 (pair_at 0 H)))"
      using set_year_key_then_below[OF wf_base[of vb] m1900[of vb] first_key_base[of vb] e, of today]
      by (simp add: init_base)
  qed
qed

theorem below_range_after_first_key_witness:
  "(1850::real) < 1900 \<and>
   raw_entry (rows coeff) G 1 1 0 0 = - 2298 \<and> schmidt_norm 1 1 = - 1 \<and>
   G_entry (init 2026 (Some 1850) False) 1 1 = Inr 2298 \<and>
   G_entry (init 2026 (Some 1900) False) 1 1 = Inr 2298 \<and>
   G_entry (then_set_year 2026 (init 2026 (Some 1900) False) (Some 1850)) 1 1 = Inr (- 2298)"
proof -
  obtain c hp a d where
    r: "read_coefficients coeff = Inr (c, hp, a)" "map_of c 1900 = Some d" and
    t: "\<forall>k m n. hp (d k) m n = raw_entry (rows coeff) k n m 0 0"
       "\<forall>e today vb. e < 1900 \<longrightarrow>
        (\<exists>s0 s1 s2. init today (Some e) vb = Inr s0 \<and>
                    init today (Some 1900) vb = Inr s1 \<and>
                    set_year today s1 (Some e) = Inr s2 \<and>
                    G_of s0 = normalized (hp (d G)) \<and> H_of s0 = normalized (hp (d H)) \<and>
                    G_of s1 = normalized (hp (d G)) \<and> H_of s1 = normalized (hp (d H)) \<and>
                    G_of s2 = normalized (normalized (hp (d G))) \<and>
                    H_of s2 = normalized (normalized (hp (d H))))"
    using below_range_after_first_key by (elim exE conjE)
  have "\<exists>s0 s1 s2. init 2026 (Some 1850) False = Inr s0 \<and>
                    init 2026 (Some 1900) False = Inr s1 \<and>
                    set_year 2026 s1 (Some 1850) = Inr s2 \<and>
                    G_of s0 = normalized (hp (d G)) \<and> H_of s0 = normalized (hp (d H)) \<and>
                    G_of s1 = normalized (hp (d G)) \<and> H_of s1 = normalized (hp (d H)) \<and>
                    G_of s2 = normalized (normalized (hp (d G))) \<and>
                    H_of s2 = normalized (normalized (hp (d H)))"
    using t(2) by (elim allE[where x = 1850] allE[where x = 2026] allE[where x = False]) simp
  then obtain s0 s1 s2 where s: "init 2026 (Some 1850) False = Inr s0"
    "init 2026 (Some 1900) False = Inr s1" "set_year 2026 s1 (Some 1850) = Inr s2"
    "G_of s0 = normalized (hp (d G))" "G_of s1 = normalized (hp (d G))"
    "G_of s2 = normalized (normalized (hp (d G)))"
    by auto
  have h: "hp (d G) 1 1 = raw_entry (rows coeff) G 1 1 0 0" using t(1) by simp
  have n: "schmidt_norm 1 1 = - 1" by (rule schmidt_norm_1_1)
  have r: "raw_entry (rows coeff) G 1 1 0 0 = - 2298" by (rule raw_g11(2))
  have a: "G_entry (init 2026 (Some 1850) False) 1 1 = Inr 2298"
    using h n r by (simp add: s(1) G_entry_def s(4) normalized_def)
  have b: "G_entry (init 2026 (Some 1900) False) 1 1 = Inr 2298"
    using h n r by (simp add: s(2) G_entry_def s(5) normalized_def)
  have c: "G_entry (then_set_year 2026 (init 2026 (Some 1900) False) (Some 1850)) 1 1 = Inr (- 2298)"
    using h n r by (simp add: s(2) s(3) then_set_year_def G_entry_def s(6) normalized_def)
  show ?thesis using a b c n r by simp
qed




text \<open>
  C3 fails on the code. \<open>igrfModel(2000)\<close> leaves \<open>1728.2\<close> in \<open>gcoeff[1,1]\<close>, the entry
  \<open>-1728.2\<close> of the text times \<open>schmidt_norm[1,1] = -1\<close>, and the same number in the
  table itself, whose array \<open>gcoeff\<close> is: the table has been changed. A second
  \<open>set_year(2000)\<close> multiplies that array again and leaves \<open>-1728.2\<close>.
\<close>

theorem set_year_twice_changes_table_and_result:
  "raw_entry (rows coeff) G 1 1 20 0 = - 1728.2 \<and>
   G_entry (init 2026 (Some 2000) False) 1 1 = Inr 1728.2 \<and>
   table_entry (init 2026 (Some 2000) False) 2000 G 1 1 = Inr 1728.2 \<and>
   G_entry (then_set_year 2026 (init 2026 (Some 2000) False) (Some 2000)) 1 1 = Inr (- 1728.2)"
proof -
  define s where "s = base False\<lparr>year := 2000, gcoeff := pair_at 40 G, hcoeff := pair_at 40 H,
     heap := (heap (base False))(pair_at 40 G := normalized (heap (base False) (pair_at 40 G)),
                                 pair_at 40 H := normalized (heap (base False) (pair_at 40 H)))\<rparr>"
  have 1: "init 2026 (Some 2000) False = Inr s"
    using set_year_key[OF wf_base[of False] m2000[of False], of 2026] by (simp add: init_base s_def)
  have w: "wf_model s" using set_year_wf[OF _ wf_base[of False]] 1 by (simp add: init_base)
  have m: "map_of (coefficients s) 2000 = Some (pair_at 40)" using m2000[of False] by (simp add: s_def)
  have h: "heap s 40 1 1 = 1728.2"
    using raw_g11_2000_heap schmidt_norm_1_1 by (simp add: s_def normalized_def pair_at_def)
  have g: "gcoeff s = 40" by (simp add: s_def pair_at_def)
  have a: "G_entry (init 2026 (Some 2000) False) 1 1 = Inr 1728.2"
    using h by (simp add: 1 G_entry_def G_of_def g)
  have "set_year 2026 s (Some 2000) =
     Inr (s\<lparr>year := 2000, gcoeff := pair_at 40 G, hcoeff := pair_at 40 H,
            heap := (heap s)(pair_at 40 G := normalized (heap s (pair_at 40 G)),
                             pair_at 40 H := normalized (heap s (pair_at 40 H)))\<rparr>)"
    using set_year_key[OF w m, of 2026] by simp
  then have b: "G_entry (then_set_year 2026 (init 2026 (Some 2000) False) (Some 2000)) 1 1 = Inr (- 1728.2)"
    using h schmidt_norm_1_1
    by (simp add: 1 then_set_year_def G_entry_def G_of_def normalized_def pair_at_def)
  have c: "table_entry (init 2026 (Some 2000) False) 2000 G 1 1 = Inr 1728.2"
    using getitem_key[OF m] h
    by (simp add: 1 table_entry_def pair_at_def)
  show ?thesis using a b c raw_g11_2000 by simp
qed

section \<open>Properties of the field evaluation and of the coordinates\<close>

lemma schmidt_norm_upper: "n < m \<Longrightarrow> schmidt_norm m n = 0"
  by (simp add: schmidt_norm_def factorial_def)

lemma set_year_upper_zero:
  assumes "set_year today s0 arg = Inr self" and "n < m"
  shows "G_of self m n = 0 \<and> H_of self m n = 0"
proof -
  obtain s1 where s: "self = imul (imul s1 (gcoeff s1) schmidt_norm)
                          (hcoeff (imul s1 (gcoeff s1) schmidt_norm)) schmidt_norm"
    using assms(1) by (auto simp: set_year_def Let_def ebind_eq_Inr)
  show ?thesis
    using schmidt_norm_upper[OF assms(2)]
    by (simp add: s imul_def G_of_def H_of_def)
qed

lemma fold_term0:
  "fold (term0 gg hh P dP q phi n) [0..<k] (V, Br, Bt, Bp) =
     (V + (\<Sum>m<k. q ^ (n + 1) * (gg m n * cos (real m * phi) + hh m n * sin (real m * phi)) * P m n),
      Br + (\<Sum>m<k. q ^ (n + 2) * (real n + 1)
                     * (gg m n * cos (real m * phi) + hh m n * sin (real m * phi)) * P m n),
      Bt + (\<Sum>m<k. q ^ (n + 2)
                     * (gg m n * cos (real m * phi) + hh m n * sin (real m * phi)) * dP m n),
      Bp + (\<Sum>m<k. q ^ (n + 2)
                     * (- gg m n * sin (real m * phi) + hh m n * cos (real m * phi)) * P m n * real m))"
  by (induction k) (simp_all add: term0_def)

lemma fold_rows0:
  "fold (\<lambda>n. fold (term0 gg hh P dP q phi n) [0..<n + 1]) [0..<k] (V, Br, Bt, Bp) =
     (V + (\<Sum>n<k. \<Sum>m<n + 1. q ^ (n + 1) * (gg m n * cos (real m * phi) + hh m n * sin (real m * phi)) * P m n),
      Br + (\<Sum>n<k. \<Sum>m<n + 1. q ^ (n + 2) * (real n + 1)
                     * (gg m n * cos (real m * phi) + hh m n * sin (real m * phi)) * P m n),
      Bt + (\<Sum>n<k. \<Sum>m<n + 1. q ^ (n + 2)
                     * (gg m n * cos (real m * phi) + hh m n * sin (real m * phi)) * dP m n),
      Bp + (\<Sum>n<k. \<Sum>m<n + 1. q ^ (n + 2)
                     * (- gg m n * sin (real m * phi) + hh m n * cos (real m * phi)) * P m n * real m))"
proof (induction k)
  case 0
  then show ?case by simp
next
  case (Suc k)
  show ?case
    by (simp only: upt_Suc_append le0 fold_append comp_apply Suc fold_term0 fold.simps id_apply
        sum.lessThan_Suc add.assoc)
qed

text \<open>A sum over a full row of a triangular array stops at the diagonal.\<close>

lemma row_sum_triangular:
  assumes "(n::nat) < L" and "\<And>m. n < m \<Longrightarrow> f m = (0::real)"
  shows "(\<Sum>m<L. f m) = (\<Sum>m<n + 1. f m)"
proof -
  have "(\<Sum>m\<in>{..<n + 1}. f m) = (\<Sum>m\<in>{..<L}. f m)"
  proof (rule sum.mono_neutral_left)
    show "finite {..<L}" by simp
    show "{..<n + 1} \<subseteq> {..<L}" using assms(1) by auto
    show "\<forall>i\<in>{..<L} - {..<n + 1}. f i = 0"
    proof
      fix i assume "i \<in> {..<L} - {..<n + 1}"
      then have "n < i" by auto
      then show "f i = 0" by (rule assms(2))
    qed
  qed
  then show ?thesis by simp
qed

lemma tri_dot:
  assumes "\<And>m n. n < m \<Longrightarrow> A m n = (0::real)" and "\<And>m n. n < m \<Longrightarrow> B m n = (0::real)"
  shows "dot L (\<lambda>n. T_dot L A u n + T_dot L B v n) w =
           (\<Sum>n<L. \<Sum>m<n + 1. w n * (A m n * u m + B m n * v m))"
proof -
  have *: "(T_dot L A u n + T_dot L B v n) * w n = (\<Sum>m<n + 1. w n * (A m n * u m + B m n * v m))"
    if "n < L" for n
  proof -
    have a: "(\<Sum>m<L. A m n * u m) = (\<Sum>m<n + 1. A m n * u m)"
      using that assms(1) by (intro row_sum_triangular) auto
    have b: "(\<Sum>m<L. B m n * v m) = (\<Sum>m<n + 1. B m n * v m)"
      using that assms(2) by (intro row_sum_triangular) auto
    have "(T_dot L A u n + T_dot L B v n) * w n
            = w n * (\<Sum>m<n + 1. A m n * u m + B m n * v m)"
      by (simp add: T_dot_def a b sum.distrib)
    then show ?thesis by (simp only: sum_distrib_left)
  qed
  show ?thesis
  proof (unfold dot_def, rule sum.cong)
    fix n assume "n \<in> {..<L}"
    then have "n < L" by simp
    then show "(T_dot L A u n + T_dot L B v n) * w n =
                 (\<Sum>m<n + 1. w n * (A m n * u m + B m n * v m))"
      by (rule *)
  qed (rule refl)
qed

lemma clip_id: "lo \<le> x \<Longrightarrow> x \<le> hi \<Longrightarrow> clip x lo hi = x"
  by (simp add: clip_def)

text \<open>
  The two evaluations on the same arrays, both written as sums over the triangle
  \<open>m \<le> n\<close>.
\<close>

lemma spherical0_sums:
  assumes "0 \<le> degree" and "degree \<le> 14" and "lp (nat degree) (cos theta) = (P, dPdz)"
  shows "spherical0 lp self radius theta phi degree =
     Inr ((\<Sum>n<nat degree + 1. \<Sum>m<n + 1. (Re / radius) ^ (n + 2) * (real n + 1)
             * (G_of self m n * cos (real m * phi) + H_of self m n * sin (real m * phi)) * P m n),
          - (\<Sum>n<nat degree + 1. \<Sum>m<n + 1. (Re / radius) ^ (n + 2)
             * (G_of self m n * cos (real m * phi) + H_of self m n * sin (real m * phi))
             * (dPdz m n * (- 1 * sin theta))),
          - (\<Sum>n<nat degree + 1. \<Sum>m<n + 1. (Re / radius) ^ (n + 2)
             * (- G_of self m n * sin (real m * phi) + H_of self m n * cos (real m * phi))
             * P m n * real m) / sin theta,
          (\<Sum>n<nat degree + 1. \<Sum>m<n + 1. (Re / radius) ^ (n + 1)
             * (G_of self m n * cos (real m * phi) + H_of self m n * sin (real m * phi)) * P m n)
          * Re)"
proof -
  have c: "\<not> coeff_dim \<le> nat degree" using assms(2) by (simp add: coeff_dim_def)
  have d: "\<not> degree < 0" using assms(1) by simp
  show ?thesis
    unfolding spherical0_def
    by (simp only: c d if_False assms(3) Let_def prod.case fold_rows0 add_0)
qed

lemma T_dot_neg: "- T_dot L A u n = T_dot L (\<lambda>m n. - A m n) u n"
  by (simp add: T_dot_def sum_negf)

lemma spherical_dots:
  assumes "0 \<le> degree" and "degree \<le> 14"
    and "1 / 10 ^ 6 \<le> theta" and "theta \<le> pi - 1 / 10 ^ 6"
    and "lp (nat degree) (cos theta) = (P, dPdz)"
  shows "spherical lp self r theta phi degree potential =
     Inr \<lparr>field =
            (if potential
             then [''V'' \<mapsto> Re * dot (nat degree + 1)
                     (\<lambda>n. T_dot (nat degree + 1) (\<lambda>m n. G_of self m n * P m n) (\<lambda>m. cos (real m * phi)) n
                        + T_dot (nat degree + 1) (\<lambda>m n. H_of self m n * P m n) (\<lambda>m. sin (real m * phi)) n)
                     (\<lambda>n. \<bar>Re / r\<bar> ^ (n + 2) / \<bar>Re / r\<bar>)]
             else Map.empty)
            (''r'' \<mapsto> dot (nat degree + 1)
                     (\<lambda>n. T_dot (nat degree + 1) (\<lambda>m n. G_of self m n * P m n) (\<lambda>m. cos (real m * phi)) n
                        + T_dot (nat degree + 1) (\<lambda>m n. H_of self m n * P m n) (\<lambda>m. sin (real m * phi)) n)
                     (\<lambda>n. (real n + 1) * \<bar>Re / r\<bar> ^ (n + 2)),
             ''phi'' \<mapsto> - dot (nat degree + 1)
                     (\<lambda>n. - T_dot (nat degree + 1) (\<lambda>m n. G_of self m n * P m n)
                                (\<lambda>m. real m * sin (real m * phi)) n
                        + T_dot (nat degree + 1) (\<lambda>m n. H_of self m n * P m n)
                                (\<lambda>m. real m * cos (real m * phi)) n)
                     (\<lambda>n. \<bar>Re / r\<bar> ^ (n + 2)) / sin theta,
             ''theta'' \<mapsto> - dot (nat degree + 1)
                     (\<lambda>n. T_dot (nat degree + 1)
                            (\<lambda>m n. G_of self m n * (dPdz m n * (- 1 * sin theta)))
                            (\<lambda>m. cos (real m * phi)) n
                        + T_dot (nat degree + 1)
                            (\<lambda>m n. H_of self m n * (dPdz m n * (- 1 * sin theta)))
                            (\<lambda>m. sin (real m * phi)) n)
                     (\<lambda>n. \<bar>Re / r\<bar> ^ (n + 2))),
          position = [''r'' \<mapsto> r, ''theta'' \<mapsto> theta, ''phi'' \<mapsto> phi]\<rparr>"
proof -
  have c: "clip theta (1 / 10 ^ 6) (pi - 1 / 10 ^ 6) = theta"
    using assms(3,4) by (rule clip_id)
  have d: "\<not> degree < 0" using assms(1) by simp
  have m: "\<not> min coeff_dim (nat degree + 1) \<noteq> nat degree + 1"
    using assms(2) by (simp add: coeff_dim_def)
  show ?thesis
    unfolding spherical_def
    by (simp only: c d m if_False assms(5) Let_def prod.case)
qed

text \<open>
  C5: on a configured object, for a radius above 0, a colatitude inside the clipped
  range and a degree from 0 to 13, \<open>spherical\<close> with the potential returns the four
  numbers that the reference \<open>_spherical0\<close> returns, \<open>(Br, -Btheta, -Bphi / sin theta,
  V)\<close>, under the keys \<open>r\<close>, \<open>theta\<close>, \<open>phi\<close> and \<open>V\<close>. The equality is exact in
  real arithmetic, for every routine \<open>lp\<close> in the place of \<open>lpmn\<close>.
\<close>

theorem spherical_matches_reference:
  assumes "set_year today s0 arg = Inr self"
    and "0 < r" and "1 / 10 ^ 6 \<le> theta" and "theta \<le> pi - 1 / 10 ^ 6"
    and "0 \<le> degree" and "degree \<le> 13"
  shows "\<exists>Br Btheta Bphi V.
           spherical0 lp self r theta phi degree = Inr (Br, Btheta, Bphi, V) \<and>
           spherical lp self r theta phi degree True =
             Inr \<lparr>field = [''V'' \<mapsto> V, ''r'' \<mapsto> Br, ''phi'' \<mapsto> Bphi, ''theta'' \<mapsto> Btheta],
                  position = [''r'' \<mapsto> r, ''theta'' \<mapsto> theta, ''phi'' \<mapsto> phi]\<rparr>"
proof -
  obtain P dPdz where lp: "lp (nat degree) (cos theta) = (P, dPdz)"
    by (cases "lp (nat degree) (cos theta)")
  define L where "L = nat degree + 1"
  define q where "q = Re / r"
  define gg where "gg = G_of self"
  define hh where "hh = H_of self"
  define dP where "dP = (\<lambda>m n. dPdz m n * (- 1 * sin theta))"
  have d14: "degree \<le> 14" using assms(6) by simp
  have q0: "0 < q" using assms(2) by (simp add: q_def Re_def)
  have aq: "\<bar>Re / r\<bar> = q" using q0 unfolding q_def by (rule abs_of_pos)
  have z: "gg m n = 0" "hh m n = 0" if "n < m" for m n
    using set_year_upper_zero[OF assms(1) that] by (simp_all add: gg_def hh_def)
  have Br: "dot L (\<lambda>n. T_dot L (\<lambda>m n. gg m n * P m n) (\<lambda>m. cos (real m * phi)) n
                      + T_dot L (\<lambda>m n. hh m n * P m n) (\<lambda>m. sin (real m * phi)) n)
                (\<lambda>n. (real n + 1) * q ^ (n + 2))
            = (\<Sum>n<L. \<Sum>m<n + 1. q ^ (n + 2) * (real n + 1)
                 * (gg m n * cos (real m * phi) + hh m n * sin (real m * phi)) * P m n)"
  proof -
    have "dot L (\<lambda>n. T_dot L (\<lambda>m n. gg m n * P m n) (\<lambda>m. cos (real m * phi)) n
                      + T_dot L (\<lambda>m n. hh m n * P m n) (\<lambda>m. sin (real m * phi)) n)
                (\<lambda>n. (real n + 1) * q ^ (n + 2))
          = (\<Sum>n<L. \<Sum>m<n + 1. (real n + 1) * q ^ (n + 2)
                 * (gg m n * P m n * cos (real m * phi) + hh m n * P m n * sin (real m * phi)))"
      by (rule tri_dot) (simp_all add: z)
    also have "\<dots> = (\<Sum>n<L. \<Sum>m<n + 1. q ^ (n + 2) * (real n + 1)
                 * (gg m n * cos (real m * phi) + hh m n * sin (real m * phi)) * P m n)"
      by (intro sum.cong refl) (simp add: algebra_simps)
    finally show ?thesis .
  qed
  have V: "Re * dot L (\<lambda>n. T_dot L (\<lambda>m n. gg m n * P m n) (\<lambda>m. cos (real m * phi)) n
                      + T_dot L (\<lambda>m n. hh m n * P m n) (\<lambda>m. sin (real m * phi)) n)
                (\<lambda>n. q ^ (n + 2) / q)
            = (\<Sum>n<L. \<Sum>m<n + 1. q ^ (n + 1)
                 * (gg m n * cos (real m * phi) + hh m n * sin (real m * phi)) * P m n) * Re"
  proof -
    have "dot L (\<lambda>n. T_dot L (\<lambda>m n. gg m n * P m n) (\<lambda>m. cos (real m * phi)) n
                      + T_dot L (\<lambda>m n. hh m n * P m n) (\<lambda>m. sin (real m * phi)) n)
                (\<lambda>n. q ^ (n + 2) / q)
          = (\<Sum>n<L. \<Sum>m<n + 1. q ^ (n + 2) / q
                 * (gg m n * P m n * cos (real m * phi) + hh m n * P m n * sin (real m * phi)))"
      by (rule tri_dot) (simp_all add: z)
    also have "\<dots> = (\<Sum>n<L. \<Sum>m<n + 1. q ^ (n + 1)
                 * (gg m n * cos (real m * phi) + hh m n * sin (real m * phi)) * P m n)"
      using q0 by (intro sum.cong refl) (simp add: algebra_simps)
    finally show ?thesis by (simp only: mult.commute)
  qed
  have Bp: "dot L (\<lambda>n. - T_dot L (\<lambda>m n. gg m n * P m n) (\<lambda>m. real m * sin (real m * phi)) n
                      + T_dot L (\<lambda>m n. hh m n * P m n) (\<lambda>m. real m * cos (real m * phi)) n)
                (\<lambda>n. q ^ (n + 2))
            = (\<Sum>n<L. \<Sum>m<n + 1. q ^ (n + 2)
                 * (- gg m n * sin (real m * phi) + hh m n * cos (real m * phi)) * P m n * real m)"
  proof -
    have "dot L (\<lambda>n. - T_dot L (\<lambda>m n. gg m n * P m n) (\<lambda>m. real m * sin (real m * phi)) n
                      + T_dot L (\<lambda>m n. hh m n * P m n) (\<lambda>m. real m * cos (real m * phi)) n)
                (\<lambda>n. q ^ (n + 2))
          = dot L (\<lambda>n. T_dot L (\<lambda>m n. - (gg m n * P m n)) (\<lambda>m. real m * sin (real m * phi)) n
                      + T_dot L (\<lambda>m n. hh m n * P m n) (\<lambda>m. real m * cos (real m * phi)) n)
                (\<lambda>n. q ^ (n + 2))"
      by (simp only: T_dot_neg)
    also have "\<dots> = (\<Sum>n<L. \<Sum>m<n + 1. q ^ (n + 2)
                 * (- (gg m n * P m n) * (real m * sin (real m * phi))
                    + hh m n * P m n * (real m * cos (real m * phi))))"
      by (rule tri_dot) (simp_all add: z)
    also have "\<dots> = (\<Sum>n<L. \<Sum>m<n + 1. q ^ (n + 2)
                 * (- gg m n * sin (real m * phi) + hh m n * cos (real m * phi)) * P m n * real m)"
      by (intro sum.cong refl) (simp add: algebra_simps)
    finally show ?thesis .
  qed
  have Bt: "dot L (\<lambda>n. T_dot L (\<lambda>m n. gg m n * dP m n) (\<lambda>m. cos (real m * phi)) n
                      + T_dot L (\<lambda>m n. hh m n * dP m n) (\<lambda>m. sin (real m * phi)) n)
                (\<lambda>n. q ^ (n + 2))
            = (\<Sum>n<L. \<Sum>m<n + 1. q ^ (n + 2)
                 * (gg m n * cos (real m * phi) + hh m n * sin (real m * phi)) * dP m n)"
  proof -
    have "dot L (\<lambda>n. T_dot L (\<lambda>m n. gg m n * dP m n) (\<lambda>m. cos (real m * phi)) n
                      + T_dot L (\<lambda>m n. hh m n * dP m n) (\<lambda>m. sin (real m * phi)) n)
                (\<lambda>n. q ^ (n + 2))
          = (\<Sum>n<L. \<Sum>m<n + 1. q ^ (n + 2)
                 * (gg m n * dP m n * cos (real m * phi) + hh m n * dP m n * sin (real m * phi)))"
      by (rule tri_dot) (simp_all add: z)
    also have "\<dots> = (\<Sum>n<L. \<Sum>m<n + 1. q ^ (n + 2)
                 * (gg m n * cos (real m * phi) + hh m n * sin (real m * phi)) * dP m n)"
      by (intro sum.cong refl) (simp add: algebra_simps)
    finally show ?thesis .
  qed
  have ref: "spherical0 lp self r theta phi degree =
     Inr ((\<Sum>n<L. \<Sum>m<n + 1. q ^ (n + 2) * (real n + 1)
             * (gg m n * cos (real m * phi) + hh m n * sin (real m * phi)) * P m n),
          - (\<Sum>n<L. \<Sum>m<n + 1. q ^ (n + 2)
             * (gg m n * cos (real m * phi) + hh m n * sin (real m * phi)) * dP m n),
          - (\<Sum>n<L. \<Sum>m<n + 1. q ^ (n + 2)
             * (- gg m n * sin (real m * phi) + hh m n * cos (real m * phi))
             * P m n * real m) / sin theta,
          (\<Sum>n<L. \<Sum>m<n + 1. q ^ (n + 1)
             * (gg m n * cos (real m * phi) + hh m n * sin (real m * phi)) * P m n)
          * Re)"
    unfolding L_def q_def gg_def hh_def dP_def
    by (rule spherical0_sums[where lp = lp and degree = degree and theta = theta,
          OF assms(5) d14 lp])
  have sph: "spherical lp self r theta phi degree True =
     Inr \<lparr>field =
            [''V'' \<mapsto> (\<Sum>n<L. \<Sum>m<n + 1. q ^ (n + 1)
                 * (gg m n * cos (real m * phi) + hh m n * sin (real m * phi)) * P m n) * Re,
             ''r'' \<mapsto> (\<Sum>n<L. \<Sum>m<n + 1. q ^ (n + 2) * (real n + 1)
                 * (gg m n * cos (real m * phi) + hh m n * sin (real m * phi)) * P m n),
             ''phi'' \<mapsto> - (\<Sum>n<L. \<Sum>m<n + 1. q ^ (n + 2)
                 * (- gg m n * sin (real m * phi) + hh m n * cos (real m * phi))
                 * P m n * real m) / sin theta,
             ''theta'' \<mapsto> - (\<Sum>n<L. \<Sum>m<n + 1. q ^ (n + 2)
                 * (gg m n * cos (real m * phi) + hh m n * sin (real m * phi)) * dP m n)],
          position = [''r'' \<mapsto> r, ''theta'' \<mapsto> theta, ''phi'' \<mapsto> phi]\<rparr>"
    unfolding spherical_dots[where lp = lp and degree = degree and theta = theta,
        OF assms(5) d14 assms(3,4) lp] aq
    unfolding L_def[symmetric] gg_def[symmetric] hh_def[symmetric] dP_def
    by (simp only: Br V Bp Bt[unfolded dP_def] if_True)
  show ?thesis using ref sph by blast
qed

lemma init_2000:
  "\<exists>self. init 2026 (Some 2000) False = Inr self \<and>
          set_year 2026 (base False) (Some (of_int 2000)) = Inr self"
  using set_year_key[OF wf_base[of False] m2000[of False], of 2026] by (simp add: init_base)

theorem spherical_matches_reference_witness:
  "\<forall>lp. (0::real) < 6371200 \<and> 1 / 10 ^ 6 \<le> (1::real) \<and> (1::real) \<le> pi - 1 / 10 ^ 6 \<and>
        (0::int) \<le> 13 \<and> (13::int) \<le> 13 \<and>
        (\<exists>self Br Btheta Bphi V.
           init 2026 (Some 2000) False = Inr self \<and>
           spherical0 lp self 6371200 1 0 13 = Inr (Br, Btheta, Bphi, V) \<and>
           spherical lp self 6371200 1 0 13 True =
             Inr \<lparr>field = [''V'' \<mapsto> V, ''r'' \<mapsto> Br, ''phi'' \<mapsto> Bphi, ''theta'' \<mapsto> Btheta],
                  position = [''r'' \<mapsto> 6371200, ''theta'' \<mapsto> 1, ''phi'' \<mapsto> 0]\<rparr>)"
proof
  fix lp :: legendre
  obtain self where s: "init 2026 (Some 2000) False = Inr self"
    "set_year 2026 (base False) (Some (of_int 2000)) = Inr self"
    using init_2000 by blast
  have h: "(0::real) < 6371200" "1 / 10 ^ 6 \<le> (1::real)" "(1::real) \<le> pi - 1 / 10 ^ 6"
    "(0::int) \<le> 13" "(13::int) \<le> 13"
    using pi_ge_two by simp_all
  from spherical_matches_reference[OF s(2) h, of lp 0]
  obtain Br Btheta Bphi V where
    "spherical0 lp self 6371200 1 0 13 = Inr (Br, Btheta, Bphi, V)"
    "spherical lp self 6371200 1 0 13 True =
       Inr \<lparr>field = [''V'' \<mapsto> V, ''r'' \<mapsto> Br, ''phi'' \<mapsto> Bphi, ''theta'' \<mapsto> Btheta],
            position = [''r'' \<mapsto> 6371200, ''theta'' \<mapsto> 1, ''phi'' \<mapsto> 0]\<rparr>"
    by blast
  then show "(0::real) < 6371200 \<and> 1 / 10 ^ 6 \<le> (1::real) \<and> (1::real) \<le> pi - 1 / 10 ^ 6 \<and>
        (0::int) \<le> 13 \<and> (13::int) \<le> 13 \<and>
        (\<exists>self Br Btheta Bphi V.
           init 2026 (Some 2000) False = Inr self \<and>
           spherical0 lp self 6371200 1 0 13 = Inr (Br, Btheta, Bphi, V) \<and>
           spherical lp self 6371200 1 0 13 True =
             Inr \<lparr>field = [''V'' \<mapsto> V, ''r'' \<mapsto> Br, ''phi'' \<mapsto> Bphi, ''theta'' \<mapsto> Btheta],
                  position = [''r'' \<mapsto> 6371200, ''theta'' \<mapsto> 1, ''phi'' \<mapsto> 0]\<rparr>)"
    using s(1) h by blast
qed

text \<open>
  C4, as the code has it: there is no clamp. For a degree from 0 to 14 \<open>spherical\<close>
  returns a result and sums over the requested degree itself, \<open>degree + 1\<close> terms in
  \<open>n\<close> and in \<open>m\<close> (14, the default, is what the 15 by 15 arrays hold; the table
  fills them up to 13). For any other degree it raises ValueError: above 14 in the
  product of the slice with the array of \<open>lpmn\<close>, below 0 in \<open>lpmn\<close>.
\<close>

theorem spherical_degree_not_clamped:
  "(0 \<le> degree \<and> degree \<le> 14 \<longrightarrow>
      (\<exists>res P dPdz. spherical lp self r theta phi degree potential = Inr res \<and>
         lp (nat degree) (cos (clip theta (1 / 10 ^ 6) (pi - 1 / 10 ^ 6))) = (P, dPdz) \<and>
         field res ''r'' =
           Some (dot (nat degree + 1)
                  (\<lambda>n. T_dot (nat degree + 1) (\<lambda>m n. G_of self m n * P m n)
                          (\<lambda>m. cos (real m * phi)) n
                       + T_dot (nat degree + 1) (\<lambda>m n. H_of self m n * P m n)
                          (\<lambda>m. sin (real m * phi)) n)
                  (\<lambda>n. (real n + 1) * \<bar>Re / r\<bar> ^ (n + 2))))) \<and>
   (degree < 0 \<or> 14 < degree \<longrightarrow>
      spherical lp self r theta phi degree potential = Inl ValueError)"
proof (intro conjI impI)
  assume a: "0 \<le> degree \<and> degree \<le> 14"
  obtain P dPdz where lp: "lp (nat degree) (cos (clip theta (1 / 10 ^ 6) (pi - 1 / 10 ^ 6))) = (P, dPdz)"
    by (cases "lp (nat degree) (cos (clip theta (1 / 10 ^ 6) (pi - 1 / 10 ^ 6)))")
  have d: "\<not> degree < 0" using a by simp
  have m: "\<not> min coeff_dim (nat degree + 1) \<noteq> nat degree + 1"
    using a by (auto simp: coeff_dim_def)
  have "\<exists>res. spherical lp self r theta phi degree potential = Inr res \<and>
         field res ''r'' =
           Some (dot (nat degree + 1)
                  (\<lambda>n. T_dot (nat degree + 1) (\<lambda>m n. G_of self m n * P m n)
                          (\<lambda>m. cos (real m * phi)) n
                       + T_dot (nat degree + 1) (\<lambda>m n. H_of self m n * P m n)
                          (\<lambda>m. sin (real m * phi)) n)
                  (\<lambda>n. (real n + 1) * \<bar>Re / r\<bar> ^ (n + 2)))"
    unfolding spherical_def
    by (simp only: d m if_False lp Let_def prod.case) simp
  then show "\<exists>res P dPdz. spherical lp self r theta phi degree potential = Inr res \<and>
         lp (nat degree) (cos (clip theta (1 / 10 ^ 6) (pi - 1 / 10 ^ 6))) = (P, dPdz) \<and>
         field res ''r'' =
           Some (dot (nat degree + 1)
                  (\<lambda>n. T_dot (nat degree + 1) (\<lambda>m n. G_of self m n * P m n)
                          (\<lambda>m. cos (real m * phi)) n
                       + T_dot (nat degree + 1) (\<lambda>m n. H_of self m n * P m n)
                          (\<lambda>m. sin (real m * phi)) n)
                  (\<lambda>n. (real n + 1) * \<bar>Re / r\<bar> ^ (n + 2)))"
    using lp by blast
next
  assume a: "degree < 0 \<or> 14 < degree"
  show "spherical lp self r theta phi degree potential = Inl ValueError"
  proof (cases "degree < 0")
    case True
    then show ?thesis by (simp add: spherical_def Let_def)
  next
    case False
    then have "min coeff_dim (nat degree + 1) \<noteq> nat degree + 1"
      using a by (simp add: coeff_dim_def)
    then show ?thesis
      using False unfolding spherical_def
      by (simp only: if_False if_True Let_def split: prod.split) simp
  qed
qed

lemma spherical_out_of_range:
  "degree < 0 \<or> 14 < degree \<Longrightarrow> spherical lp self r theta phi degree potential = Inl ValueError"
proof (cases "degree < 0")
  case True
  then show ?thesis by (simp add: spherical_def Let_def)
next
  case False
  assume "degree < 0 \<or> 14 < degree"
  then have "min coeff_dim (nat degree + 1) \<noteq> nat degree + 1"
    using False by (simp add: coeff_dim_def)
  then show ?thesis
    using False unfolding spherical_def
    by (simp only: if_False if_True Let_def split: prod.split) simp
qed

lemma init_2000_g11: "G_entry (init 2026 (Some 2000) False) 1 1 = Inr 1728.2"
proof -
  obtain s where s: "init 2026 (Some 2000) False = Inr s"
    and g: "gcoeff s = pair_at 40 G"
    and h: "heap s (pair_at 40 G) = normalized (heap (base False) (pair_at 40 G))"
    using set_year_key[OF wf_base[of False] m2000[of False], of 2026]
      wf_pair[OF wf_base[of False] m2000[of False]]
    by (simp add: init_base)
  show ?thesis
    using raw_g11_2000_heap schmidt_norm_1_1 g h
    by (simp add: s G_entry_def G_of_def normalized_def pair_at_def)
qed

text \<open>
  C4 as stated fails: on the object of \<open>igrfModel(2000)\<close>, a request for the degree 15
  raises ValueError, whatever \<open>lpmn\<close> returns.
\<close>

theorem degree_above_14_counterexample:
  "G_entry (init 2026 (Some 2000) False) 1 1 = Inr 1728.2 \<and>
   (\<forall>lp. spherical_of lp (init 2026 (Some 2000) False) 6371200 1 0 15 False = Inl ValueError)"
proof -
  obtain self where s: "init 2026 (Some 2000) False = Inr self" using init_2000 by blast
  have "spherical_of lp (init 2026 (Some 2000) False) 6371200 1 0 15 False = Inl ValueError" for lp
    by (simp add: spherical_of_def s spherical_out_of_range)
  then show ?thesis using init_2000_g11 by simp
qed

theorem spherical_degree_not_clamped_witness:
  "\<forall>lp. (0::int) \<le> 14 \<and> (14::int) \<le> 14 \<and> (14::int) < 15 \<and>
     (\<exists>self res. init 2026 (Some 2000) False = Inr self \<and>
        spherical lp self 6371200 1 0 14 False = Inr res \<and>
        spherical lp self 6371200 1 0 15 False = Inl ValueError)"
proof
  fix lp :: legendre
  obtain self where s: "init 2026 (Some 2000) False = Inr self" using init_2000 by blast
  have a: "\<exists>res. spherical lp self 6371200 1 0 14 False = Inr res"
    using spherical_degree_not_clamped[of 14 lp self 6371200 1 0 False] by auto
  have b: "spherical lp self 6371200 1 0 15 False = Inl ValueError"
    using spherical_degree_not_clamped[of 15 lp self 6371200 1 0 False] by simp
  show "(0::int) \<le> 14 \<and> (14::int) \<le> 14 \<and> (14::int) < 15 \<and>
     (\<exists>self res. init 2026 (Some 2000) False = Inr self \<and>
        spherical lp self 6371200 1 0 14 False = Inr res \<and>
        spherical lp self 6371200 1 0 15 False = Inl ValueError)"
    using s a b by auto
qed





lemma with_args_other: "key \<notin> fst ` set kvs \<Longrightarrow> with_args d kvs key = d key"
  unfolding with_args_def
  by (induction kvs arbitrary: d) (auto split: option.splits)

lemma clip_clip: "lo \<le> hi \<Longrightarrow> clip (clip x lo hi) lo hi = clip x lo hi"
  by (simp add: clip_def)

lemma clip_bounds: "(1::real) / 10 ^ 6 \<le> pi - 1 / 10 ^ 6"
  using pi_ge_two by simp

lemma spherical_clip:
  "spherical lp self r (clip theta (1 / 10 ^ 6) (pi - 1 / 10 ^ 6)) phi degree potential =
   spherical lp self r theta phi degree potential"
  unfolding spherical_def clip_clip[OF clip_bounds] ..

text \<open>What a result of \<open>spherical\<close> holds.\<close>

lemma spherical_result:
  assumes "spherical lp self r theta phi degree potential = Inr res"
  shows "\<exists>Br Btheta Bphi.
           field res ''r'' = Some Br \<and> field res ''theta'' = Some Btheta \<and>
           field res ''phi'' = Some Bphi \<and>
           position res = [''r'' \<mapsto> r, ''theta'' \<mapsto> clip theta (1 / 10 ^ 6) (pi - 1 / 10 ^ 6),
                           ''phi'' \<mapsto> phi]"
proof -
  obtain P dPdz where lp: "lp (nat degree) (cos (clip theta (1 / 10 ^ 6) (pi - 1 / 10 ^ 6))) = (P, dPdz)"
    by (cases "lp (nat degree) (cos (clip theta (1 / 10 ^ 6) (pi - 1 / 10 ^ 6)))")
  have d: "\<not> degree < 0"
    using assms by (auto simp: spherical_def Let_def)
  have m: "\<not> min coeff_dim (nat degree + 1) \<noteq> nat degree + 1"
  proof
    assume "min coeff_dim (nat degree + 1) \<noteq> nat degree + 1"
    then have "spherical lp self r theta phi degree potential = Inl ValueError"
      using d unfolding spherical_def
      by (simp only: if_False if_True Let_def split: prod.split) simp
    then show False using assms by simp
  qed
  from assms show ?thesis
    unfolding spherical_def
    by (simp only: d m if_False lp Let_def prod.case) auto
qed


lemma convert_coordinates_self:
  "convert_coordinates self sph False geo kwargs = Inr (s', out, coords) \<Longrightarrow> s' = self"
  unfolding convert_coordinates_def Let_def
  by (simp only: if_False split: prod.splits) simp

lemma spherical_at_result:
  assumes "spherical_at lp self coords potential = Inr res"
  shows "\<exists>r theta phi. spherical lp self r theta phi 14 potential = Inr res"
  using assms
  by (auto simp: spherical_at_def item_def ebind_eq_Inr split: option.splits)

text \<open>
  What \<open>geographic\<close> and \<open>cartesian\<close> add to the result of \<open>spherical\<close>, in terms
  of its three components.
\<close>

lemma geographic_result:
  assumes "geographic lp self height latitude longitude potential = Inr (s1, out, gres)"
  shows "\<exists>res Br Btheta Bphi psi.
           (\<exists>r theta phi. spherical lp self r theta phi 14 potential = Inr res) \<and>
           field res ''r'' = Some Br \<and> field res ''theta'' = Some Btheta \<and>
           field res ''phi'' = Some Bphi \<and>
           field gres ''r'' = Some Br \<and> field gres ''theta'' = Some Btheta \<and>
           field gres ''phi'' = Some Bphi \<and>
           field gres ''field'' =
             Some (sqrt ((- Btheta * cos psi - Br * sin psi)\<^sup>2 + Bphi\<^sup>2
                         + (- (Btheta * sin psi - Br * cos psi))\<^sup>2)) \<and>
           position gres ''r'' = position res ''r'' \<and>
           position gres ''theta'' = position res ''theta'' \<and>
           position gres ''phi'' = position res ''phi''"
proof -
  from assms obtain s' out' coords res where
    c: "convert_coordinates self True False False
          (with_args Map.empty [(''height'', height), (''latitude'', latitude),
                                (''longitude'', longitude)]) = Inr (s', out', coords)"
    and sp: "spherical_at lp s' coords potential = Inr res"
    and rest: "(let psi = (case coords ''psi'' of None \<Rightarrow> 0 | Some v \<Rightarrow> v) in
       ebind (item (field res) ''theta'') (\<lambda>Btheta.
       ebind (item (field res) ''r'') (\<lambda>Br.
       ebind (item (field res) ''phi'') (\<lambda>Bphi.
         let north = - Btheta * cos psi - Br * sin psi;
             east = Bphi;
             down = Btheta * sin psi - Br * cos psi;
             up = - down;
             total = sqrt (north\<^sup>2 + east\<^sup>2 + up\<^sup>2);
             horizontal = sqrt (north\<^sup>2 + east\<^sup>2);
             declination = arctan2 east north / dtor;
             inclination = arctan2 up horizontal / dtor
         in Inr (s', out',
                 res\<lparr>field := (field res)
                        (''east'' \<mapsto> east, ''north'' \<mapsto> north, ''up'' \<mapsto> up,
                         ''inclination'' \<mapsto> inclination, ''declination'' \<mapsto> declination,
                         ''horizontal'' \<mapsto> horizontal, ''field'' \<mapsto> total),
                      position := with_args (position res)
                        [(''height'', height), (''latitude'', latitude),
                         (''longitude'', longitude)]\<rparr>))))) = Inr (s1, out, gres)"
    unfolding geographic_def by (auto simp: ebind_eq_Inr)
  have s': "s' = self" using c by (rule convert_coordinates_self)
  obtain r theta phi where s: "spherical lp self r theta phi 14 potential = Inr res"
    using spherical_at_result[OF sp] s' by auto
  obtain Br Btheta Bphi where f: "field res ''r'' = Some Br" "field res ''theta'' = Some Btheta"
    "field res ''phi'' = Some Bphi"
    using spherical_result[OF s] by blast
  define psi where "psi = (case coords ''psi'' of None \<Rightarrow> 0 | Some v \<Rightarrow> v)"
  have g: "gres = res\<lparr>field := (field res)
                        (''east'' \<mapsto> Bphi, ''north'' \<mapsto> - Btheta * cos psi - Br * sin psi,
                         ''up'' \<mapsto> - (Btheta * sin psi - Br * cos psi),
                         ''inclination'' \<mapsto> arctan2 (- (Btheta * sin psi - Br * cos psi))
                             (sqrt ((- Btheta * cos psi - Br * sin psi)\<^sup>2 + Bphi\<^sup>2)) / dtor,
                         ''declination'' \<mapsto> arctan2 Bphi (- Btheta * cos psi - Br * sin psi) / dtor,
                         ''horizontal'' \<mapsto> sqrt ((- Btheta * cos psi - Br * sin psi)\<^sup>2 + Bphi\<^sup>2),
                         ''field'' \<mapsto> sqrt ((- Btheta * cos psi - Br * sin psi)\<^sup>2 + Bphi\<^sup>2
                                          + (- (Btheta * sin psi - Br * cos psi))\<^sup>2)),
                      position := with_args (position res)
                        [(''height'', height), (''latitude'', latitude),
                         (''longitude'', longitude)]\<rparr>"
    using rest unfolding Let_def psi_def[symmetric] item_def f
    by (simp only: option.case ebind_simps sum.inject prod.inject)
  have p: "position gres key = position res key"
    if "key \<notin> {''height'', ''latitude'', ''longitude''}" for key
    using that by (simp add: g with_args_other)
  have "field gres ''r'' = Some Br" "field gres ''theta'' = Some Btheta"
    "field gres ''phi'' = Some Bphi"
    "field gres ''field'' = Some (sqrt ((- Btheta * cos psi - Br * sin psi)\<^sup>2 + Bphi\<^sup>2
                         + (- (Btheta * sin psi - Br * cos psi))\<^sup>2))"
    using f by (simp_all add: g)
  moreover have "position gres ''r'' = position res ''r''"
    "position gres ''theta'' = position res ''theta''"
    "position gres ''phi'' = position res ''phi''"
    by (simp_all add: p)
  ultimately show ?thesis using s f by blast
qed


lemma cartesian_result:
  assumes "cartesian lp self x y z potential = Inr (s1, out, cres)"
  shows "\<exists>res Br Btheta Bphi.
           (\<exists>r theta phi. spherical lp self r theta phi 14 potential = Inr res) \<and>
           field res ''r'' = Some Br \<and> field res ''theta'' = Some Btheta \<and>
           field res ''phi'' = Some Bphi \<and>
           field cres ''x'' = Some (Br * sin Btheta * cos Bphi) \<and>
           field cres ''y'' = Some (Br * sin Btheta * sin Bphi) \<and>
           field cres ''z'' = Some (Br * cos Btheta) \<and>
           position cres ''r'' = position res ''r'' \<and>
           position cres ''theta'' = position res ''theta'' \<and>
           position cres ''phi'' = position res ''phi''"
proof -
  from assms obtain s' out' coords res where
    c: "convert_coordinates self True False False
          (with_args Map.empty [(''x'', x), (''y'', y), (''z'', z)]) = Inr (s', out', coords)"
    and sp: "spherical_at lp s' coords potential = Inr res"
    and rest: "ebind (item (field res) ''r'') (\<lambda>Br.
       ebind (item (field res) ''theta'') (\<lambda>Btheta.
       ebind (item (field res) ''phi'') (\<lambda>Bphi.
         let bx = Br * sin Btheta * cos Bphi;
             by = Br * sin Btheta * sin Bphi;
             bz = Br * cos Btheta
         in Inr (s', out',
                 res\<lparr>field := (field res)(''x'' \<mapsto> bx, ''y'' \<mapsto> by, ''z'' \<mapsto> bz),
                      position := with_args (position res)
                        [(''x'', x), (''y'', y), (''z'', z)]\<rparr>)))) = Inr (s1, out, cres)"
    unfolding cartesian_def by (auto simp: ebind_eq_Inr)
  have s': "s' = self" using c by (rule convert_coordinates_self)
  obtain r theta phi where s: "spherical lp self r theta phi 14 potential = Inr res"
    using spherical_at_result[OF sp] s' by auto
  obtain Br Btheta Bphi where f: "field res ''r'' = Some Br" "field res ''theta'' = Some Btheta"
    "field res ''phi'' = Some Bphi"
    using spherical_result[OF s] by blast
  have g: "cres = res\<lparr>field := (field res)(''x'' \<mapsto> Br * sin Btheta * cos Bphi,
                                            ''y'' \<mapsto> Br * sin Btheta * sin Bphi,
                                            ''z'' \<mapsto> Br * cos Btheta),
                      position := with_args (position res)
                        [(''x'', x), (''y'', y), (''z'', z)]\<rparr>"
    using rest unfolding Let_def item_def f
    by (simp only: option.case ebind_simps sum.inject prod.inject)
  have "field cres ''x'' = Some (Br * sin Btheta * cos Bphi)"
    "field cres ''y'' = Some (Br * sin Btheta * sin Bphi)"
    "field cres ''z'' = Some (Br * cos Btheta)"
    by (simp_all add: g)
  moreover have "position cres ''r'' = position res ''r''"
    "position cres ''theta'' = position res ''theta''"
    "position cres ''phi'' = position res ''phi''"
    by (simp_all add: g with_args_other)
  ultimately show ?thesis using s f by blast
qed

text \<open>Two results of \<open>spherical\<close> for the same position are the same result.\<close>

lemma spherical_same_position:
  assumes "spherical lp self r1 theta1 phi1 degree potential = Inr res1"
    and "spherical lp self r2 theta2 phi2 degree potential = Inr res2"
    and "position res1 ''r'' = position res2 ''r''"
    and "position res1 ''theta'' = position res2 ''theta''"
    and "position res1 ''phi'' = position res2 ''phi''"
  shows "res1 = res2"
proof -
  have p1: "position res1 = [''r'' \<mapsto> r1, ''theta'' \<mapsto> clip theta1 (1 / 10 ^ 6) (pi - 1 / 10 ^ 6),
                             ''phi'' \<mapsto> phi1]"
    using spherical_result[OF assms(1)] by blast
  have p2: "position res2 = [''r'' \<mapsto> r2, ''theta'' \<mapsto> clip theta2 (1 / 10 ^ 6) (pi - 1 / 10 ^ 6),
                             ''phi'' \<mapsto> phi2]"
    using spherical_result[OF assms(2)] by blast
  have e: "r1 = r2" "clip theta1 (1 / 10 ^ 6) (pi - 1 / 10 ^ 6) = clip theta2 (1 / 10 ^ 6) (pi - 1 / 10 ^ 6)"
    "phi1 = phi2"
    using assms(3,4,5) by (simp_all add: p1 p2)
  have "spherical lp self r1 theta1 phi1 degree potential =
        spherical lp self r2 theta2 phi2 degree potential"
    using spherical_clip[of lp self r1 theta1 phi1 degree potential]
      spherical_clip[of lp self r2 theta2 phi2 degree potential] e
    by simp
  then show ?thesis using assms(1,2) by simp
qed

text \<open>
  C2 fails on the code. When \<open>geographic\<close> and \<open>cartesian\<close> are asked for the same
  point, both start from the same components \<open>(Br, Btheta, Bphi)\<close> of \<open>spherical\<close>.
  The total field of \<open>geographic\<close> is \<open>sqrt (Br\<^sup>2 + Btheta\<^sup>2 + Bphi\<^sup>2)\<close>. \<open>cartesian\<close>
  takes \<open>Btheta\<close> and \<open>Bphi\<close>, field components in nanotesla, for the angles of a
  direction, and its vector \<open>(x, y, z)\<close> has the length \<open>\<bar>Br\<bar>\<close>: the two magnitudes
  agree only where \<open>Btheta\<close> and \<open>Bphi\<close> are both 0.
\<close>

theorem cartesian_magnitude_is_radial_part_only:
  assumes "geographic lp self height latitude longitude potential = Inr (s1, out1, gres)"
    and "cartesian lp self x y z potential = Inr (s2, out2, cres)"
    and "position gres ''r'' = position cres ''r''"
    and "position gres ''theta'' = position cres ''theta''"
    and "position gres ''phi'' = position cres ''phi''"
  shows "\<exists>Br Btheta Bphi total bx by bz.
           field gres ''r'' = Some Br \<and> field gres ''theta'' = Some Btheta \<and>
           field gres ''phi'' = Some Bphi \<and> field gres ''field'' = Some total \<and>
           field cres ''x'' = Some bx \<and> field cres ''y'' = Some by \<and> field cres ''z'' = Some bz \<and>
           total = sqrt (Br\<^sup>2 + Btheta\<^sup>2 + Bphi\<^sup>2) \<and>
           sqrt (bx\<^sup>2 + by\<^sup>2 + bz\<^sup>2) = \<bar>Br\<bar>"
proof -
  obtain res1 Br Btheta Bphi psi r1 theta1 phi1 where g:
    "spherical lp self r1 theta1 phi1 14 potential = Inr res1"
    "field res1 ''r'' = Some Br" "field res1 ''theta'' = Some Btheta" "field res1 ''phi'' = Some Bphi"
    "field gres ''r'' = Some Br" "field gres ''theta'' = Some Btheta" "field gres ''phi'' = Some Bphi"
    "field gres ''field'' =
       Some (sqrt ((- Btheta * cos psi - Br * sin psi)\<^sup>2 + Bphi\<^sup>2
                   + (- (Btheta * sin psi - Br * cos psi))\<^sup>2))"
    "position gres ''r'' = position res1 ''r''" "position gres ''theta'' = position res1 ''theta''"
    "position gres ''phi'' = position res1 ''phi''"
    using geographic_result[OF assms(1)] by blast
  obtain res2 Br' Btheta' Bphi' r2 theta2 phi2 where c:
    "spherical lp self r2 theta2 phi2 14 potential = Inr res2"
    "field res2 ''r'' = Some Br'" "field res2 ''theta'' = Some Btheta'" "field res2 ''phi'' = Some Bphi'"
    "field cres ''x'' = Some (Br' * sin Btheta' * cos Bphi')"
    "field cres ''y'' = Some (Br' * sin Btheta' * sin Bphi')"
    "field cres ''z'' = Some (Br' * cos Btheta')"
    "position cres ''r'' = position res2 ''r''" "position cres ''theta'' = position res2 ''theta''"
    "position cres ''phi'' = position res2 ''phi''"
    using cartesian_result[OF assms(2)] by blast
  have "res1 = res2"
    using spherical_same_position[OF g(1) c(1)] assms(3,4,5) g(9,10,11) c(8,9,10) by simp
  then have same: "Br' = Br" "Btheta' = Btheta" "Bphi' = Bphi"
    using g(2,3,4) c(2,3,4) by simp_all
  have n: "(- Btheta * cos psi - Br * sin psi)\<^sup>2 + Bphi\<^sup>2 + (- (Btheta * sin psi - Br * cos psi))\<^sup>2
             = Br\<^sup>2 + Btheta\<^sup>2 + Bphi\<^sup>2"
  proof -
    have "(- Btheta * c - Br * s)\<^sup>2 + (- (Btheta * s - Br * c))\<^sup>2
            = (Br\<^sup>2 + Btheta\<^sup>2) * (s\<^sup>2 + c\<^sup>2)" for s c :: real
      by (simp add: power2_eq_square algebra_simps)
    from this[of "cos psi" "sin psi"] show ?thesis by simp
  qed
  have m: "(Br * sin Btheta * cos Bphi)\<^sup>2 + (Br * sin Btheta * sin Bphi)\<^sup>2 + (Br * cos Btheta)\<^sup>2
             = Br\<^sup>2"
  proof -
    have "(Br * s * c')\<^sup>2 + (Br * s * s')\<^sup>2 + (Br * c)\<^sup>2
            = Br\<^sup>2 * (s\<^sup>2 * (s'\<^sup>2 + c'\<^sup>2) + c\<^sup>2)" for s c s' c' :: real
      by (simp add: power2_eq_square algebra_simps)
    from this[of "sin Btheta" "cos Bphi" "sin Bphi" "cos Btheta"] show ?thesis by simp
  qed
  have "sqrt ((Br * sin Btheta * cos Bphi)\<^sup>2 + (Br * sin Btheta * sin Bphi)\<^sup>2 + (Br * cos Btheta)\<^sup>2)
          = \<bar>Br\<bar>"
    by (simp only: m real_sqrt_abs)
  then show ?thesis
    using g(5,6,7,8) c(5,6,7) n same by simp
qed


lemma spherical_14_returns: "\<exists>res. spherical lp self r theta phi 14 potential = Inr res"
proof -
  obtain P dPdz where lp: "lp (nat 14) (cos (clip theta (1 / 10 ^ 6) (pi - 1 / 10 ^ 6))) = (P, dPdz)"
    by (cases "lp (nat 14) (cos (clip theta (1 / 10 ^ 6) (pi - 1 / 10 ^ 6)))")
  have d: "\<not> (14::int) < 0" by simp
  have m: "\<not> min coeff_dim (nat 14 + 1) \<noteq> nat 14 + 1" by (simp add: coeff_dim_def)
  show ?thesis
    unfolding spherical_def
    by (simp only: d m if_False lp Let_def prod.case) simp
qed

lemma a2_pos: "0 < a2"
  by (simp add: a2_def)

lemma convert_geog_origin:
  "convert_coordinates self True False False
     (with_args Map.empty [(''height'', Some 0), (''latitude'', Some 0), (''longitude'', Some 0)])
   = Inr (self, [], [''psi'' \<mapsto> 0, ''r'' \<mapsto> sqrt a2, ''theta'' \<mapsto> pi / 2, ''phi'' \<mapsto> 0])"
  using a2_pos
  by (simp add: convert_coordinates_def with_args_def Let_def real_div_sqrt)

lemma convert_cart_equator:
  "convert_coordinates self True False False
     (with_args Map.empty [(''x'', Some (sqrt a2)), (''y'', Some 0), (''z'', Some 0)])
   = Inr (self, [], [''r'' \<mapsto> sqrt a2, ''theta'' \<mapsto> pi / 2, ''phi'' \<mapsto> 0])"
  using a2_pos
  by (simp add: convert_coordinates_def with_args_def Let_def arctan2_def)


lemma geographic_of_coords:
  assumes "convert_coordinates self True False False
             (with_args Map.empty [(''height'', height), (''latitude'', latitude),
                                   (''longitude'', longitude)]) = Inr (self, out, coords)"
    and "coords ''r'' = Some r" and "coords ''theta'' = Some theta" and "coords ''phi'' = Some phi"
  shows "\<exists>gres. geographic lp self height latitude longitude potential = Inr (self, out, gres) \<and>
           position gres ''r'' = Some r \<and>
           position gres ''theta'' = Some (clip theta (1 / 10 ^ 6) (pi - 1 / 10 ^ 6)) \<and>
           position gres ''phi'' = Some phi"
proof -
  obtain res where s: "spherical lp self r theta phi 14 potential = Inr res"
    using spherical_14_returns by blast
  obtain Br Btheta Bphi where f: "field res ''r'' = Some Br" "field res ''theta'' = Some Btheta"
    "field res ''phi'' = Some Bphi"
    and p: "position res = [''r'' \<mapsto> r, ''theta'' \<mapsto> clip theta (1 / 10 ^ 6) (pi - 1 / 10 ^ 6),
                            ''phi'' \<mapsto> phi]"
    using spherical_result[OF s] by blast
  have sa: "spherical_at lp self coords potential = Inr res"
    by (simp add: spherical_at_def item_def assms(2,3,4) s)
  obtain gres where g: "geographic lp self height latitude longitude potential = Inr (self, out, gres)"
    and pg: "position gres = with_args (position res)
               [(''height'', height), (''latitude'', latitude), (''longitude'', longitude)]"
    unfolding geographic_def assms(1) by (simp add: sa item_def f Let_def)
  have "position gres ''r'' = Some r"
    "position gres ''theta'' = Some (clip theta (1 / 10 ^ 6) (pi - 1 / 10 ^ 6))"
    "position gres ''phi'' = Some phi"
    by (simp_all add: pg with_args_other p)
  then show ?thesis using g by blast
qed

lemma cartesian_of_coords:
  assumes "convert_coordinates self True False False
             (with_args Map.empty [(''x'', x), (''y'', y), (''z'', z)]) = Inr (self, out, coords)"
    and "coords ''r'' = Some r" and "coords ''theta'' = Some theta" and "coords ''phi'' = Some phi"
  shows "\<exists>cres. cartesian lp self x y z potential = Inr (self, out, cres) \<and>
           position cres ''r'' = Some r \<and>
           position cres ''theta'' = Some (clip theta (1 / 10 ^ 6) (pi - 1 / 10 ^ 6)) \<and>
           position cres ''phi'' = Some phi"
proof -
  obtain res where s: "spherical lp self r theta phi 14 potential = Inr res"
    using spherical_14_returns by blast
  obtain Br Btheta Bphi where f: "field res ''r'' = Some Br" "field res ''theta'' = Some Btheta"
    "field res ''phi'' = Some Bphi"
    and p: "position res = [''r'' \<mapsto> r, ''theta'' \<mapsto> clip theta (1 / 10 ^ 6) (pi - 1 / 10 ^ 6),
                            ''phi'' \<mapsto> phi]"
    using spherical_result[OF s] by blast
  have sa: "spherical_at lp self coords potential = Inr res"
    by (simp add: spherical_at_def item_def assms(2,3,4) s)
  obtain cres where g: "cartesian lp self x y z potential = Inr (self, out, cres)"
    and pg: "position cres = with_args (position res) [(''x'', x), (''y'', y), (''z'', z)]"
    unfolding cartesian_def assms(1) by (simp add: sa item_def f Let_def)
  have "position cres ''r'' = Some r"
    "position cres ''theta'' = Some (clip theta (1 / 10 ^ 6) (pi - 1 / 10 ^ 6))"
    "position cres ''phi'' = Some phi"
    by (simp_all add: pg with_args_other p)
  then show ?thesis using g by blast
qed

theorem cartesian_magnitude_is_radial_part_only_witness:
  "\<forall>lp. \<exists>self s1 out1 gres s2 out2 cres Br Btheta Bphi total bx by bz.
      init 2026 (Some 2000) False = Inr self \<and>
      geographic lp self (Some 0) (Some 0) (Some 0) False = Inr (s1, out1, gres) \<and>
      cartesian lp self (Some (sqrt a2)) (Some 0) (Some 0) False = Inr (s2, out2, cres) \<and>
      position gres ''r'' = position cres ''r'' \<and>
      position gres ''theta'' = position cres ''theta'' \<and>
      position gres ''phi'' = position cres ''phi'' \<and>
      field gres ''r'' = Some Br \<and> field gres ''theta'' = Some Btheta \<and>
      field gres ''phi'' = Some Bphi \<and> field gres ''field'' = Some total \<and>
      field cres ''x'' = Some bx \<and> field cres ''y'' = Some by \<and> field cres ''z'' = Some bz \<and>
      total = sqrt (Br\<^sup>2 + Btheta\<^sup>2 + Bphi\<^sup>2) \<and>
      sqrt (bx\<^sup>2 + by\<^sup>2 + bz\<^sup>2) = \<bar>Br\<bar>"
proof
  fix lp :: legendre
  obtain self where s: "init 2026 (Some 2000) False = Inr self" using init_2000 by blast
  obtain gres where g: "geographic lp self (Some 0) (Some 0) (Some 0) False = Inr (self, [], gres)"
    "position gres ''r'' = Some (sqrt a2)"
    "position gres ''theta'' = Some (clip (pi / 2) (1 / 10 ^ 6) (pi - 1 / 10 ^ 6))"
    "position gres ''phi'' = Some 0"
    using geographic_of_coords[OF convert_geog_origin, of "sqrt a2" "pi / 2" 0 lp self False]
    by auto
  obtain cres where c: "cartesian lp self (Some (sqrt a2)) (Some 0) (Some 0) False = Inr (self, [], cres)"
    "position cres ''r'' = Some (sqrt a2)"
    "position cres ''theta'' = Some (clip (pi / 2) (1 / 10 ^ 6) (pi - 1 / 10 ^ 6))"
    "position cres ''phi'' = Some 0"
    using cartesian_of_coords[OF convert_cart_equator, of "sqrt a2" "pi / 2" 0 lp self False]
    by auto
  have p: "position gres ''r'' = position cres ''r''"
    "position gres ''theta'' = position cres ''theta''"
    "position gres ''phi'' = position cres ''phi''"
    by (simp_all add: g c)
  from cartesian_magnitude_is_radial_part_only[OF g(1) c(1) p]
  obtain Br Btheta Bphi total bx "by" bz where
    "field gres ''r'' = Some Br \<and> field gres ''theta'' = Some Btheta \<and>
      field gres ''phi'' = Some Bphi \<and> field gres ''field'' = Some total \<and>
      field cres ''x'' = Some bx \<and> field cres ''y'' = Some by \<and> field cres ''z'' = Some bz \<and>
      total = sqrt (Br\<^sup>2 + Btheta\<^sup>2 + Bphi\<^sup>2) \<and>
      sqrt (bx\<^sup>2 + by\<^sup>2 + bz\<^sup>2) = \<bar>Br\<bar>"
    by blast
  then show "\<exists>self s1 out1 gres s2 out2 cres Br Btheta Bphi total bx by bz.
      init 2026 (Some 2000) False = Inr self \<and>
      geographic lp self (Some 0) (Some 0) (Some 0) False = Inr (s1, out1, gres) \<and>
      cartesian lp self (Some (sqrt a2)) (Some 0) (Some 0) False = Inr (s2, out2, cres) \<and>
      position gres ''r'' = position cres ''r'' \<and>
      position gres ''theta'' = position cres ''theta'' \<and>
      position gres ''phi'' = position cres ''phi'' \<and>
      field gres ''r'' = Some Br \<and> field gres ''theta'' = Some Btheta \<and>
      field gres ''phi'' = Some Bphi \<and> field gres ''field'' = Some total \<and>
      field cres ''x'' = Some bx \<and> field cres ''y'' = Some by \<and> field cres ''z'' = Some bz \<and>
      total = sqrt (Br\<^sup>2 + Btheta\<^sup>2 + Bphi\<^sup>2) \<and>
      sqrt (bx\<^sup>2 + by\<^sup>2 + bz\<^sup>2) = \<bar>Br\<bar>"
    using s g(1) c(1) p by blast
qed

end
